(* ===== verification/Prelude.thy ===== *)
theory Prelude
  imports Complex_Main
begin

text \<open>
  Shared vocabulary of the Hop Bunny development. JavaScript numbers are modelled as
  \<open>real\<close> (exact rational arithmetic; the rounding of IEEE doubles is not modelled), the
  integer-valued score as \<open>int\<close>. \<open>Math.random()\<close> is an explicit source of draws: a
  record holding the sequence of values the browser would return and a cursor into it,
  threaded through every operation that draws. \<open>Utils.randomBetween\<close> and
  \<open>Utils.ease\<close> are not part of the repository's sources; they are modelled from the
  specification (a uniform draw in an interval, linear easing).
\<close>

named_theorems rng_simps "facts about the source of random draws"
named_theorems session_frame "fields of the game that an operation leaves unchanged"

type_synonym num = real

section \<open>The source of random draws (Math.random)\<close>

record rng =
  draws :: "nat \<Rightarrow> real"
  cursor :: nat

definition random :: "rng \<Rightarrow> real \<times> rng" where
  "random g = (draws g (cursor g), g\<lparr>cursor := Suc (cursor g)\<rparr>)"

definition valid_rng :: "rng \<Rightarrow> bool" where
  "valid_rng g \<longleftrightarrow> (\<forall>n. 0 \<le> draws g n \<and> draws g n < 1)"

definition random_between :: "real \<Rightarrow> real \<Rightarrow> rng \<Rightarrow> real \<times> rng" where
  "random_between lo hi g = (let (r, g') = random g in (lo + r * (hi - lo), g'))"

definition ease :: "real \<Rightarrow> real \<Rightarrow> real \<Rightarrow> real" where
  "ease cur target factor = cur + (target - cur) * factor"

definition const_rng :: "real \<Rightarrow> rng" where
  "const_rng r = \<lparr>draws = (\<lambda>_. r), cursor = 0\<rparr>"

section \<open>Lemmas on draws\<close>

lemma random_fst [rng_simps]: "fst (random g) = draws g (cursor g)"
  by (simp add: random_def)

lemma random_draws [rng_simps]: "draws (snd (random g)) = draws g"
  by (simp add: random_def)

lemma random_cursor [rng_simps]: "cursor (snd (random g)) = Suc (cursor g)"
  by (simp add: random_def)

lemma valid_rng_random [rng_simps]: "valid_rng g \<Longrightarrow> valid_rng (snd (random g))"
  by (simp add: valid_rng_def random_def)

lemma valid_rng_draw:
  "valid_rng g \<Longrightarrow> 0 \<le> draws g n \<and> draws g n < 1"
  by (simp add: valid_rng_def)

lemma random_range:
  assumes "valid_rng g"
  shows "0 \<le> fst (random g) \<and> fst (random g) < 1"
  using assms by (simp add: random_def valid_rng_def)

lemma random_between_snd [rng_simps]: "snd (random_between lo hi g) = snd (random g)"
  by (simp add: random_between_def split: prod.splits)

lemma random_between_fst:
  "fst (random_between lo hi g) = lo + fst (random g) * (hi - lo)"
  by (simp add: random_between_def split: prod.splits)

lemma valid_rng_random_between [rng_simps]:
  "valid_rng g \<Longrightarrow> valid_rng (snd (random_between lo hi g))"
  by (simp add: random_between_snd valid_rng_random)

text \<open>A uniform draw of \<open>randomBetween(lo, hi)\<close> lies in the closed interval.\<close>

lemma random_between_range:
  assumes "valid_rng g" and "lo \<le> hi"
  shows "lo \<le> fst (random_between lo hi g) \<and> fst (random_between lo hi g) \<le> hi"
proof -
  let ?r = "fst (random g)"
  have r: "0 \<le> ?r" "?r < 1" using random_range [OF assms(1)] by auto
  have "0 \<le> ?r * (hi - lo)" using r assms(2) by simp
  moreover have "?r * (hi - lo) \<le> 1 * (hi - lo)"
    using r assms(2) by (intro mult_right_mono) auto
  ultimately show ?thesis by (simp add: random_between_fst)
qed

lemma valid_const_rng [simp]: "valid_rng (const_rng r) \<longleftrightarrow> 0 \<le> r \<and> r < 1"
  by (simp add: valid_rng_def const_rng_def)

section \<open>Lemmas on easing\<close>

lemma ease_between:
  assumes "0 \<le> f" and "f \<le> 1"
  shows "min cur target \<le> ease cur target f \<and> ease cur target f \<le> max cur target"
proof (cases "cur \<le> target")
  case True
  have "0 \<le> (target - cur) * f" "(target - cur) * f \<le> (target - cur) * 1"
    using True assms by (simp, intro mult_left_mono, auto)
  then show ?thesis using True by (simp add: ease_def)
next
  case False
  have "(cur - target) * f \<le> (cur - target) * 1" "0 \<le> (cur - target) * f"
    using False assms by (intro mult_left_mono, auto)
  then show ?thesis using False by (simp add: ease_def algebra_simps)
qed

section \<open>Lemmas on lists\<close>

text \<open>A search over the split points of a list, as \<open>list_ex\<close> over the indices, is a
  search over its decompositions into a prefix and a non-empty suffix.\<close>

lemma list_ex_splits:
  "list_ex (\<lambda>i. P (take i s) (drop i s)) [0..<length s] \<longleftrightarrow> (\<exists>a c r. s = a @ c # r \<and> P a (c # r))"
proof
  assume "list_ex (\<lambda>i. P (take i s) (drop i s)) [0..<length s]"
  then obtain i where i: "i < length s" and p: "P (take i s) (drop i s)"
    by (auto simp: list_ex_iff)
  from i obtain c r where "drop i s = c # r" by (cases "drop i s") auto
  then show "\<exists>a c r. s = a @ c # r \<and> P a (c # r)"
    using p by (metis append_take_drop_id)
next
  assume "\<exists>a c r. s = a @ c # r \<and> P a (c # r)"
  then obtain a c r where s: "s = a @ c # r" and p: "P a (c # r)" by blast
  have "length a < length s" "take (length a) s = a" "drop (length a) s = c # r" using s by simp_all
  then show "list_ex (\<lambda>i. P (take i s) (drop i s)) [0..<length s]"
    using p unfolding list_ex_iff by (intro bexI [of _ "length a"]) auto
qed

lemma foldl_upd_None:
  "foldl (\<lambda>m k. m(k := None)) st ks k = (if k \<in> set ks then None else st k)"
  by (induction ks arbitrary: st) auto

end
