(* ===== verification/Platform.thy ===== *)
theory Platform
  imports Prelude
begin

text \<open>
  The \<open>Platform\<close> class of \<open>src/unnamed/part_000\<close>: its data (position, size, type,
  activity, the per-type animation state) and the three operations that change it:
  \<open>update(deltaTime, canvasWidth)\<close>, \<open>break()\<close> and \<open>startDisappearing()\<close>.
  The constructor draws the initial direction of a moving platform from
  \<open>Math.random()\<close>. The colour table and \<open>draw\<close> are rendering and not modelled here.
\<close>

section \<open>Data\<close>

datatype platform_type = Normal | Bouncy | Breakable | Moving | Disappearing

record platform =
  p_x :: num
  p_y :: num
  p_width :: num
  p_height :: num
  p_type :: platform_type
  p_active :: bool
  p_opacity :: num
  p_breakProgress :: num
  p_direction :: num
  p_velocityX :: num
  p_maxVelocityX :: num
  p_disappearTimer :: num
  p_animationTime :: num

section \<open>Operations\<close>

text \<open>\<open>new Platform(x, y, width, height, type)\<close>: one draw for the direction.\<close>

definition new_Platform ::
  "num \<Rightarrow> num \<Rightarrow> num \<Rightarrow> num \<Rightarrow> platform_type \<Rightarrow> rng \<Rightarrow> platform \<times> rng" where
  "new_Platform x y w h t g =
     (let (r, g') = random g in
      (\<lparr>p_x = x, p_y = y, p_width = w, p_height = h, p_type = t, p_active = True,
        p_opacity = 1, p_breakProgress = 0, p_direction = (if r > 0.5 then 1 else -1),
        p_velocityX = 0, p_maxVelocityX = 2, p_disappearTimer = 0, p_animationTime = 0\<rparr>, g'))"

text \<open>\<open>Platform.update(deltaTime, canvasWidth)\<close>, one branch per platform type.\<close>

definition Platform_update :: "num \<Rightarrow> num \<Rightarrow> platform \<Rightarrow> platform" where
  "Platform_update dt cw p0 =
     (let p = p0\<lparr>p_animationTime := p_animationTime p0 + dt * 0.01\<rparr> in
      case p_type p of
        Moving \<Rightarrow>
          (let vx = p_direction p * p_maxVelocityX p;
               p' = p\<lparr>p_velocityX := vx, p_x := p_x p + vx\<rparr> in
           if p_x p' \<le> 0 \<or> p_x p' + p_width p' \<ge> cw
           then p'\<lparr>p_direction := p_direction p' * -1\<rparr> else p')
      | Breakable \<Rightarrow>
          (if p_breakProgress p > 0 then
             (let bp = p_breakProgress p + dt * 0.05;
                  p' = p\<lparr>p_breakProgress := bp, p_opacity := 1 - bp\<rparr> in
              if bp \<ge> 1 then p'\<lparr>p_active := False\<rparr> else p')
           else p)
      | Disappearing \<Rightarrow>
          (if p_disappearTimer p > 0 then
             (let t = p_disappearTimer p + dt;
                  p' = p\<lparr>p_disappearTimer := t, p_opacity := 1 - t / 60\<rparr> in
              if t \<ge> 60 then p'\<lparr>p_active := False\<rparr> else p')
           else p)
      | _ \<Rightarrow> p)"

definition Platform_break :: "platform \<Rightarrow> platform" where
  "Platform_break p = (if p_type p = Breakable then p\<lparr>p_breakProgress := 0.01\<rparr> else p)"

definition Platform_startDisappearing :: "platform \<Rightarrow> platform" where
  "Platform_startDisappearing p =
     (if p_type p = Disappearing then p\<lparr>p_disappearTimer := 0.01\<rparr> else p)"

text \<open>Successive frames of one platform, one time step per frame.\<close>

fun platform_frames :: "num list \<Rightarrow> num \<Rightarrow> platform \<Rightarrow> platform" where
  "platform_frames [] cw p = p"
| "platform_frames (dt # dts) cw p = platform_frames dts cw (Platform_update dt cw p)"

text \<open>The state of a moving platform that bounces inside a canvas of width \<open>cw\<close>:
  a unit direction, the source's speed 2, at most one step past an edge, and a direction
  that points back inside whenever an edge has been reached.\<close>

definition moving_inv :: "num \<Rightarrow> platform \<Rightarrow> bool" where
  "moving_inv cw p \<longleftrightarrow>
     p_type p = Moving \<and> p_maxVelocityX p = 2 \<and> (p_direction p = 1 \<or> p_direction p = -1) \<and>
     -2 < p_x p \<and> p_x p < cw - p_width p + 2 \<and>
     (p_x p \<le> 0 \<longrightarrow> p_direction p = 1) \<and> (p_x p + p_width p \<ge> cw \<longrightarrow> p_direction p = -1)"

section \<open>Frame lemmas\<close>

named_theorems platform_frame "fields that Platform.update never writes"

lemma Platform_update_type [simp, platform_frame]: "p_type (Platform_update dt cw p) = p_type p"
  by (simp add: Platform_update_def Let_def split: platform_type.splits)

lemma Platform_update_y [simp, platform_frame]: "p_y (Platform_update dt cw p) = p_y p"
  by (simp add: Platform_update_def Let_def split: platform_type.splits)

lemma Platform_update_width [simp, platform_frame]:
  "p_width (Platform_update dt cw p) = p_width p"
  by (simp add: Platform_update_def Let_def split: platform_type.splits)

lemma Platform_update_height [simp, platform_frame]:
  "p_height (Platform_update dt cw p) = p_height p"
  by (simp add: Platform_update_def Let_def split: platform_type.splits)

lemma Platform_update_maxVelocityX [simp, platform_frame]:
  "p_maxVelocityX (Platform_update dt cw p) = p_maxVelocityX p"
  by (simp add: Platform_update_def Let_def split: platform_type.splits)

lemma Platform_update_inactive [simp]:
  "\<not> p_active p \<Longrightarrow> \<not> p_active (Platform_update dt cw p)"
  by (simp add: Platform_update_def Let_def split: platform_type.splits)

lemma platform_frames_inactive:
  "\<not> p_active p \<Longrightarrow> \<not> p_active (platform_frames dts cw p)"
  by (induction dts arbitrary: p) simp_all

lemma platform_frames_type [simp]: "p_type (platform_frames dts cw p) = p_type p"
  by (induction dts arbitrary: p) simp_all

section \<open>Per-type behaviour of one update\<close>

lemma Platform_update_Breakable:
  assumes "p_type p = Breakable" and "0 < p_breakProgress p"
  shows "p_breakProgress (Platform_update dt cw p) = p_breakProgress p + dt * 0.05"
    and "p_opacity (Platform_update dt cw p) = 1 - (p_breakProgress p + dt * 0.05)"
    and "p_active (Platform_update dt cw p) =
           (p_active p \<and> p_breakProgress p + dt * 0.05 < 1)"
  using assms by (auto simp add: Platform_update_def Let_def)

lemma Platform_update_Disappearing:
  assumes "p_type p = Disappearing" and "0 < p_disappearTimer p"
  shows "p_disappearTimer (Platform_update dt cw p) = p_disappearTimer p + dt"
    and "p_opacity (Platform_update dt cw p) = 1 - (p_disappearTimer p + dt) / 60"
    and "p_active (Platform_update dt cw p) = (p_active p \<and> p_disappearTimer p + dt < 60)"
  using assms by (auto simp add: Platform_update_def Let_def)

lemma Platform_update_Moving:
  assumes "p_type p = Moving"
  shows "p_x (Platform_update dt cw p) = p_x p + p_direction p * p_maxVelocityX p"
    and "p_direction (Platform_update dt cw p) =
           (if p_x p + p_direction p * p_maxVelocityX p \<le> 0 \<or>
               p_x p + p_direction p * p_maxVelocityX p + p_width p \<ge> cw
            then - p_direction p else p_direction p)"
  using assms by (auto simp add: Platform_update_def Let_def)

section \<open>Breaking and disappearing platforms run out\<close>

lemma breaking_frames_inactive:
  assumes "p_type p = Breakable" and "0 < p_breakProgress p" and "p_breakProgress p < 1"
    and "0 < d" and "\<forall>dt \<in> set dts. d \<le> dt"
    and "1 - p_breakProgress p \<le> real (length dts) * (d * 0.05)"
  shows "\<not> p_active (platform_frames dts cw p)"
  using assms
proof (induction dts arbitrary: p)
  case Nil
  then show ?case by simp
next
  case (Cons dt dts)
  let ?q = "Platform_update dt cw p"
  show ?case
  proof (cases "1 \<le> p_breakProgress p + dt * 0.05")
    case True
    then have "\<not> p_active ?q" using Cons.prems by (simp add: Platform_update_Breakable)
    then show ?thesis by (simp add: platform_frames_inactive)
  next
    case False
    have "d \<le> dt" using Cons.prems by simp
    then have "1 - p_breakProgress ?q \<le> real (length dts) * (d * 0.05)"
      using Cons.prems by (simp add: Platform_update_Breakable algebra_simps)
    moreover have "0 < p_breakProgress ?q" "p_breakProgress ?q < 1"
      using Cons.prems False \<open>d \<le> dt\<close> by (simp_all add: Platform_update_Breakable)
    ultimately have "\<not> p_active (platform_frames dts cw ?q)"
      using Cons.prems by (intro Cons.IH) auto
    then show ?thesis by simp
  qed
qed

lemma disappearing_frames_inactive:
  assumes "p_type p = Disappearing" and "0 < p_disappearTimer p" and "p_disappearTimer p < 60"
    and "0 < d" and "\<forall>dt \<in> set dts. d \<le> dt"
    and "60 - p_disappearTimer p \<le> real (length dts) * d"
  shows "\<not> p_active (platform_frames dts cw p)"
  using assms
proof (induction dts arbitrary: p)
  case Nil
  then show ?case by simp
next
  case (Cons dt dts)
  let ?q = "Platform_update dt cw p"
  show ?case
  proof (cases "60 \<le> p_disappearTimer p + dt")
    case True
    then have "\<not> p_active ?q" using Cons.prems by (simp add: Platform_update_Disappearing)
    then show ?thesis by (simp add: platform_frames_inactive)
  next
    case False
    have "d \<le> dt" using Cons.prems by simp
    then have "60 - p_disappearTimer ?q \<le> real (length dts) * d"
      using Cons.prems by (simp add: Platform_update_Disappearing algebra_simps)
    moreover have "0 < p_disappearTimer ?q" "p_disappearTimer ?q < 60"
      using Cons.prems False \<open>d \<le> dt\<close> by (simp_all add: Platform_update_Disappearing)
    ultimately have "\<not> p_active (platform_frames dts cw ?q)"
      using Cons.prems by (intro Cons.IH) auto
    then show ?thesis by simp
  qed
qed

section \<open>Moving platforms\<close>

text \<open>A moving platform whose left edge is 600 on a canvas of width 400 (as after the canvas
  is narrowed by a resize) alternates between 600 and 602.\<close>

lemma off_canvas_step:
  assumes "p_type p = Moving" "p_maxVelocityX p = 2" "p_width p = 100"
    and "(p_x p = 600 \<and> p_direction p = 1) \<or> (p_x p = 602 \<and> p_direction p = -1)"
  shows "(p_x (Platform_update dt 400 p) = 600 \<and> p_direction (Platform_update dt 400 p) = 1) \<or>
         (p_x (Platform_update dt 400 p) = 602 \<and> p_direction (Platform_update dt 400 p) = -1)"
  using assms by (auto simp add: Platform_update_Moving)

lemma off_canvas_frames:
  assumes "p_type p = Moving" "p_maxVelocityX p = 2" "p_width p = 100"
    and "(p_x p = 600 \<and> p_direction p = 1) \<or> (p_x p = 602 \<and> p_direction p = -1)"
  shows "p_x (platform_frames dts 400 p) = 600 \<or> p_x (platform_frames dts 400 p) = 602"
  using assms
proof (induction dts arbitrary: p)
  case Nil
  then show ?case by auto
next
  case (Cons dt dts)
  have "(p_x (Platform_update dt 400 p) = 600 \<and> p_direction (Platform_update dt 400 p) = 1) \<or>
        (p_x (Platform_update dt 400 p) = 602 \<and> p_direction (Platform_update dt 400 p) = -1)"
    using Cons.prems by (rule off_canvas_step)
  then show ?case using Cons.prems by (simp add: Cons.IH)
qed

text \<open>Claim C1. A breakable platform that is broken (the player lands
  on it) fades out and becomes inactive: if every frame lasts at least \<open>d > 0\<close>
  milliseconds, then after \<open>n\<close> frames with \<open>0.99 \<le> n \<cdot> d \<cdot> 0.05\<close> it is inactive.\<close>

theorem broken_platform_becomes_inactive:
  assumes "p_type p = Breakable" and "p_breakProgress p = 0"
    and "0 < d" and "\<forall>dt \<in> set dts. d \<le> dt"
    and "0.99 \<le> real (length dts) * (d * 0.05)"
  shows "\<not> p_active (platform_frames dts cw (Platform_break p))"
proof -
  have "p_breakProgress (Platform_break p) = 0.01" "p_type (Platform_break p) = Breakable"
    using assms(1) by (simp_all add: Platform_break_def)
  then show ?thesis using assms(3-5) by (intro breaking_frames_inactive) auto
qed

theorem broken_platform_becomes_inactive_witness:
  "\<not> p_active (platform_frames [16, 16] 400
      (Platform_break (fst (new_Platform 10 300 100 20 Breakable (const_rng 0.5)))))"
proof -
  let ?p = "fst (new_Platform 10 300 100 20 Breakable (const_rng 0.5))"
  have "p_type ?p = Breakable" "p_breakProgress ?p = 0"
    by (simp_all add: new_Platform_def const_rng_def random_def)
  moreover have "\<forall>dt \<in> set [16, 16]. (16::real) \<le> dt" by simp
  moreover have "0.99 \<le> real (length [16::real, 16]) * (16 * 0.05)" by simp
  ultimately show ?thesis
    using broken_platform_becomes_inactive [where p = ?p and d = 16 and dts = "[16, 16]"
        and cw = 400] by simp
qed

text \<open>While a breakable platform breaks, each frame of
  positive length strictly lowers its opacity, and the opacity stays at or above
  \<open>1 - breakProgress\<close>.\<close>

theorem breaking_opacity_decreases:
  assumes "p_type p = Breakable" and "0 < p_breakProgress p"
    and "1 - p_breakProgress p \<le> p_opacity p" and "0 < dt"
  shows "p_opacity (Platform_update dt cw p) < p_opacity p \<and>
         1 - p_breakProgress (Platform_update dt cw p) \<le> p_opacity (Platform_update dt cw p)"
  using assms by (simp add: Platform_update_Breakable)

theorem breaking_opacity_decreases_witness:
  "p_opacity (Platform_update 16 400 (Platform_break (fst (new_Platform 10 300 100 20 Breakable
      (const_rng 0.5))))) < 1"
proof -
  let ?p = "Platform_break (fst (new_Platform 10 300 100 20 Breakable (const_rng 0.5)))"
  have "p_type ?p = Breakable" "0 < p_breakProgress ?p" "1 - p_breakProgress ?p \<le> p_opacity ?p"
    by (simp_all add: new_Platform_def Platform_break_def const_rng_def random_def)
  from breaking_opacity_decreases [OF this, of 16 400] show ?thesis
    by (simp add: new_Platform_def Platform_break_def const_rng_def random_def)
qed

text \<open>Claim C2. A moving platform that starts inside the canvas with
  a direction pointing away from any edge it touches stays within two pixels of the canvas:
  \<open>moving_inv\<close> is kept by every update.\<close>

theorem moving_platform_inv:
  assumes "moving_inv cw p" and "p_width p < cw"
  shows "moving_inv cw (Platform_update dt cw p)"
  using assms by (auto simp add: moving_inv_def Platform_update_Moving)

theorem moving_platform_inv_witness:
  "moving_inv 400 (Platform_update 16 400
     (fst (new_Platform 100 300 100 20 Moving (const_rng 0.7))))"
proof -
  let ?p = "fst (new_Platform 100 300 100 20 Moving (const_rng 0.7))"
  have "moving_inv 400 ?p" "p_width ?p < 400"
    by (simp_all add: moving_inv_def new_Platform_def const_rng_def random_def)
  then show ?thesis by (rule moving_platform_inv)
qed

text \<open>Claim C3. The edge test of \<open>Platform.update\<close> flips the
  direction instead of pointing it back inside: a moving platform left outside the canvas
  (here at x = 600 after the canvas width became 400) never comes back, it alternates
  between 600 and 602 for ever.\<close>

theorem moving_platform_stuck_off_canvas:
  "p_x (platform_frames dts 400
     \<lparr>p_x = 600, p_y = 300, p_width = 100, p_height = 20, p_type = Moving, p_active = True,
      p_opacity = 1, p_breakProgress = 0, p_direction = 1, p_velocityX = 0,
      p_maxVelocityX = 2, p_disappearTimer = 0, p_animationTime = 0\<rparr>) \<in> {600, 602}"
  using off_canvas_frames [where dts = dts] by simp

end
