(* ===== verification/Generator.thy ===== *)
theory Generator
  imports Platform
begin

text \<open>
  Procedural platform generation of \<open>PlatformManager\<close> (\<open>src/unnamed/part_000\<close>):
  the manager's fields, \<open>generatePlatform\<close> (gap, width, position, score-gated type with
  the anti-repetition rules and the score 300--310 window), \<open>generateInitialPlatforms\<close>
  and the constructor. Every \<open>Math.random()\<close> and \<open>Utils.randomBetween\<close> call is a
  draw from the explicit source, in the order the source makes them.
\<close>

record platform_manager =
  pm_canvasWidth :: num
  pm_canvasHeight :: num
  pm_platforms :: "platform list"
  pm_minPlatformWidth :: num
  pm_maxPlatformWidth :: num
  pm_platformHeight :: num
  pm_minGapY :: num
  pm_maxGapY :: num
  pm_specialPlatformChance :: num
  pm_highestPlatformY :: num
  pm_platformDensity :: num
  pm_density :: num
  pm_minWidth :: num
  pm_maxWidth :: num

text \<open>The score bands of \<open>generatePlatform\<close>: early, mid and late game.\<close>

definition band_type :: "num \<Rightarrow> num \<Rightarrow> platform_type" where
  "band_type score rand =
     (if score < 300 then
        (if rand < 0.6 then Bouncy else if rand < 0.9 then Moving else Normal)
      else if score < 1000 then
        (if rand < 0.4 then Bouncy else if rand < 0.7 then Moving
         else if rand < 0.9 then Breakable else Disappearing)
      else
        (if rand < 0.25 then Bouncy else if rand < 0.5 then Moving
         else if rand < 0.75 then Breakable else Disappearing))"

text \<open>\<open>this.platforms.slice(-3).map(p => p.type)\<close>.\<close>

definition last_few_types :: "platform list \<Rightarrow> platform_type list" where
  "last_few_types ps = map p_type (drop (length ps - 3) ps)"

text \<open>The special branch: band draw, anti-repetition rules, the score 300--310 window.\<close>

definition special_type :: "num \<Rightarrow> platform_type list \<Rightarrow> rng \<Rightarrow> platform_type \<times> rng" where
  "special_type score lastFew g0 =
     (let (rand, g1) = random g0;
          t = band_type score rand;
          (t2, g2) =
            (if t = Disappearing \<and> Disappearing \<in> set lastFew then (Normal, g1)
             else if t = Breakable \<and> Breakable \<in> set lastFew \<and> Disappearing \<in> set lastFew
             then (let (c, g') = random g1 in (if c < 0.5 then Bouncy else Normal, g'))
             else (t, g1))
      in if score \<ge> 300 \<and> score \<le> 310
         then (let (c, g3) = random g2 in (if c < 0.7 then Normal else Bouncy, g3))
         else (t2, g2))"

definition choose_type :: "num \<Rightarrow> platform list \<Rightarrow> rng \<Rightarrow> platform_type \<times> rng" where
  "choose_type newY ps g0 =
     (let score = \<bar>newY\<bar> / 10;
          specialChance = min 0.6 (0.2 + score / 1000);
          (r, g1) = random g0
      in if r < specialChance then special_type score (last_few_types ps) g1 else (Normal, g1))"

text \<open>\<open>PlatformManager.generatePlatform()\<close>.\<close>

definition generatePlatform :: "platform_manager \<Rightarrow> rng \<Rightarrow> platform_manager \<times> rng" where
  "generatePlatform pm g0 =
     (let (gap, g1) = random_between (pm_minGapY pm) (pm_maxGapY pm) g0;
          newY = pm_highestPlatformY pm - gap;
          (width, g2) = random_between (pm_minWidth pm) (pm_maxWidth pm) g1;
          (x, g3) = random_between 0 (pm_canvasWidth pm - width) g2;
          (t, g4) = choose_type newY (pm_platforms pm) g3;
          (p, g5) = new_Platform x newY width (pm_platformHeight pm) t g4
      in (pm\<lparr>pm_highestPlatformY := newY, pm_platforms := pm_platforms pm @ [p]\<rparr>, g5))"

text \<open>The platform the last call added, and how far the frontier moved.\<close>

definition new_platform_of :: "platform_manager \<times> rng \<Rightarrow> platform" where
  "new_platform_of r = last (pm_platforms (fst r))"

text \<open>Repeated calls: the loop \<open>for (let i = 6; i < count + 5; i++)\<close>.\<close>

fun generate_n :: "nat \<Rightarrow> platform_manager \<Rightarrow> rng \<Rightarrow> platform_manager \<times> rng" where
  "generate_n 0 pm g = (pm, g)"
| "generate_n (Suc n) pm g = (let (pm', g') = generatePlatform pm g in generate_n n pm' g')"

text \<open>The five low platforms: \<open>for (let i = 0; i < 5; i++)\<close>.\<close>

fun initial_low :: "nat \<Rightarrow> nat \<Rightarrow> platform_manager \<Rightarrow> rng \<Rightarrow> platform_manager \<times> rng" where
  "initial_low i 0 pm g = (pm, g)"
| "initial_low i (Suc k) pm g =
     (let (x, g1) = random_between 0 (pm_canvasWidth pm - 100) g;
          y = pm_canvasHeight pm - 200 - real i * 70;
          (p, g2) = new_Platform x y 100 (pm_platformHeight pm) Normal g1
      in initial_low (Suc i) k
           (pm\<lparr>pm_platforms := pm_platforms pm @ [p],
               pm_highestPlatformY := min (pm_highestPlatformY pm) y\<rparr>) g2)"

definition generateInitialPlatforms :: "nat \<Rightarrow> platform_manager \<Rightarrow> rng \<Rightarrow> platform_manager \<times> rng" where
  "generateInitialPlatforms count pm g0 =
     (let (sp, g1) = new_Platform (pm_canvasWidth pm / 2 - 75) (pm_canvasHeight pm - 100) 150
                        (pm_platformHeight pm) Normal g0;
          pm1 = pm\<lparr>pm_platforms := pm_platforms pm @ [sp], pm_highestPlatformY := p_y sp\<rparr>;
          (pm2, g2) = initial_low 0 5 pm1 g1
      in generate_n (count + 5 - 6) pm2 g2)"

definition new_PlatformManager :: "num \<Rightarrow> num \<Rightarrow> nat \<Rightarrow> rng \<Rightarrow> platform_manager \<times> rng" where
  "new_PlatformManager cw ch count g =
     generateInitialPlatforms count
       \<lparr>pm_canvasWidth = cw, pm_canvasHeight = ch, pm_platforms = [],
        pm_minPlatformWidth = 80, pm_maxPlatformWidth = 150, pm_platformHeight = 20,
        pm_minGapY = 70, pm_maxGapY = 110, pm_specialPlatformChance = 0.3,
        pm_highestPlatformY = ch, pm_platformDensity = 1, pm_density = 10,
        pm_minWidth = 60, pm_maxWidth = 120\<rparr> g"

section \<open>The draws stay valid\<close>

lemma valid_rng_new_Platform [rng_simps]:
  "valid_rng g \<Longrightarrow> valid_rng (snd (new_Platform x y w h t g))"
  by (simp add: new_Platform_def split_def rng_simps)

lemma valid_rng_special_type [rng_simps]:
  "valid_rng g \<Longrightarrow> valid_rng (snd (special_type score lf g))"
  by (simp add: special_type_def Let_def split_def rng_simps)

lemma valid_rng_choose_type [rng_simps]:
  "valid_rng g \<Longrightarrow> valid_rng (snd (choose_type y ps g))"
  by (simp add: choose_type_def Let_def split_def rng_simps)

lemma valid_rng_generatePlatform [rng_simps]:
  "valid_rng g \<Longrightarrow> valid_rng (snd (generatePlatform pm g))"
  by (simp add: generatePlatform_def Let_def split_def rng_simps)

section \<open>What one call of generatePlatform does\<close>

lemma new_Platform_fields [simp]:
  "p_x (fst (new_Platform x y w h t g)) = x" "p_y (fst (new_Platform x y w h t g)) = y"
  "p_width (fst (new_Platform x y w h t g)) = w" "p_height (fst (new_Platform x y w h t g)) = h"
  "p_type (fst (new_Platform x y w h t g)) = t" "p_active (fst (new_Platform x y w h t g))"
  "p_breakProgress (fst (new_Platform x y w h t g)) = 0"
  "p_disappearTimer (fst (new_Platform x y w h t g)) = 0"
  "p_opacity (fst (new_Platform x y w h t g)) = 1"
  "p_maxVelocityX (fst (new_Platform x y w h t g)) = 2"
  by (simp_all add: new_Platform_def Let_def split_def)

lemma generatePlatform_frontier:
  "pm_highestPlatformY (fst (generatePlatform pm g)) =
     pm_highestPlatformY pm - fst (random_between (pm_minGapY pm) (pm_maxGapY pm) g)"
  by (simp add: generatePlatform_def Let_def split_def)

lemma generatePlatform_platforms:
  "pm_platforms (fst (generatePlatform pm g)) =
     pm_platforms pm @ [new_platform_of (generatePlatform pm g)]"
  by (simp add: generatePlatform_def new_platform_of_def Let_def split_def)

lemma generatePlatform_new_y:
  "p_y (new_platform_of (generatePlatform pm g)) = pm_highestPlatformY (fst (generatePlatform pm g))"
  by (simp add: generatePlatform_def new_platform_of_def Let_def split_def)

lemma generatePlatform_new_width:
  "p_width (new_platform_of (generatePlatform pm g)) =
     fst (random_between (pm_minWidth pm) (pm_maxWidth pm)
            (snd (random_between (pm_minGapY pm) (pm_maxGapY pm) g)))"
  by (simp add: generatePlatform_def new_platform_of_def Let_def split_def)

lemma generatePlatform_new_x:
  "p_x (new_platform_of (generatePlatform pm g)) =
     fst (random_between 0 (pm_canvasWidth pm - p_width (new_platform_of (generatePlatform pm g)))
       (snd (random_between (pm_minWidth pm) (pm_maxWidth pm)
          (snd (random_between (pm_minGapY pm) (pm_maxGapY pm) g)))))"
  by (simp add: generatePlatform_def new_platform_of_def Let_def split_def)

lemma generatePlatform_new_type:
  "\<exists>g'. p_type (new_platform_of (generatePlatform pm g)) =
     fst (choose_type (p_y (new_platform_of (generatePlatform pm g))) (pm_platforms pm) g')"
  by (auto simp add: generatePlatform_def new_platform_of_def Let_def split_def)

lemma generatePlatform_new_fresh [simp]:
  "p_active (new_platform_of (generatePlatform pm g))"
  "p_breakProgress (new_platform_of (generatePlatform pm g)) = 0"
  "p_disappearTimer (new_platform_of (generatePlatform pm g)) = 0"
  "p_height (new_platform_of (generatePlatform pm g)) = pm_platformHeight pm"
  by (simp_all add: generatePlatform_def new_platform_of_def Let_def split_def)

lemma generatePlatform_frame [simp]:
  "pm_canvasWidth (fst (generatePlatform pm g)) = pm_canvasWidth pm"
  "pm_canvasHeight (fst (generatePlatform pm g)) = pm_canvasHeight pm"
  "pm_minGapY (fst (generatePlatform pm g)) = pm_minGapY pm"
  "pm_maxGapY (fst (generatePlatform pm g)) = pm_maxGapY pm"
  "pm_minWidth (fst (generatePlatform pm g)) = pm_minWidth pm"
  "pm_maxWidth (fst (generatePlatform pm g)) = pm_maxWidth pm"
  "pm_platformHeight (fst (generatePlatform pm g)) = pm_platformHeight pm"
  "pm_density (fst (generatePlatform pm g)) = pm_density pm"
  "pm_platformDensity (fst (generatePlatform pm g)) = pm_platformDensity pm"
  by (simp_all add: generatePlatform_def Let_def split_def)

text \<open>The frontier moves up by a gap drawn from \<open>[minGapY, maxGapY]\<close>.\<close>

lemma generatePlatform_gap:
  assumes "valid_rng g" and "pm_minGapY pm \<le> pm_maxGapY pm"
  shows "pm_minGapY pm \<le> pm_highestPlatformY pm - pm_highestPlatformY (fst (generatePlatform pm g)) \<and>
         pm_highestPlatformY pm - pm_highestPlatformY (fst (generatePlatform pm g)) \<le> pm_maxGapY pm"
  using random_between_range [OF assms] by (simp add: generatePlatform_frontier)

section \<open>Type selection\<close>

lemma band_type_early:
  "score < 300 \<Longrightarrow> band_type score rand \<in> {Bouncy, Moving, Normal}"
  by (simp add: band_type_def)

lemma special_type_cases:
  "fst (special_type score lf g) = band_type score (fst (random g)) \<or>
   fst (special_type score lf g) \<in> {Normal, Bouncy}"
  by (simp add: special_type_def Let_def split_def)

lemma special_type_no_double_disappearing:
  "Disappearing \<in> set lf \<Longrightarrow> fst (special_type score lf g) \<noteq> Disappearing"
  by (simp add: special_type_def Let_def split_def)

lemma special_type_no_breakable_run:
  "Breakable \<in> set lf \<Longrightarrow> Disappearing \<in> set lf \<Longrightarrow> fst (special_type score lf g) \<noteq> Breakable"
  by (simp add: special_type_def Let_def split_def)

lemma choose_type_cases:
  "fst (choose_type y ps g) = Normal \<or>
   (\<exists>g'. fst (choose_type y ps g) = fst (special_type (\<bar>y\<bar> / 10) (last_few_types ps) g'))"
  by (auto simp add: choose_type_def Let_def split_def)

lemma last_in_last_few_types:
  assumes ne: "ps \<noteq> []"
  shows "p_type (last ps) \<in> set (last_few_types ps)"
proof -
  from ne have "0 < length ps" by simp
  then have lt: "length ps - 3 < length ps" by arith
  then have "drop (length ps - 3) ps \<noteq> []" by (simp only: drop_eq_Nil not_le)
  moreover from lt have "last (drop (length ps - 3) ps) = last ps" by (rule last_drop)
  ultimately have "last ps \<in> set (drop (length ps - 3) ps)" by (metis last_in_set)
  then show ?thesis by (simp add: last_few_types_def)
qed

lemma random_between_rng [rng_simps]:
  "snd (random_between lo hi g) = g\<lparr>cursor := Suc (cursor g)\<rparr>"
  by (simp add: random_between_def random_def split_def)

lemma generatePlatform_new_type_exact:
  "p_type (new_platform_of (generatePlatform pm g)) =
     fst (choose_type (p_y (new_platform_of (generatePlatform pm g))) (pm_platforms pm)
            (g\<lparr>cursor := Suc (Suc (Suc (cursor g)))\<rparr>))"
  by (simp add: generatePlatform_def new_platform_of_def Let_def split_def random_between_rng)

lemma generatePlatform_type_cases:
  "p_type (new_platform_of (generatePlatform pm g)) = Normal \<or>
   (\<exists>g'. p_type (new_platform_of (generatePlatform pm g)) =
          fst (special_type (\<bar>p_y (new_platform_of (generatePlatform pm g))\<bar> / 10)
                 (last_few_types (pm_platforms pm)) g'))"
  using choose_type_cases by (simp add: generatePlatform_new_type_exact)

lemma generatePlatform_type_rule:
  assumes "P Normal"
    and "\<And>g'. P (fst (special_type (\<bar>p_y (new_platform_of (generatePlatform pm g))\<bar> / 10)
                        (last_few_types (pm_platforms pm)) g'))"
  shows "P (p_type (new_platform_of (generatePlatform pm g)))"
  using generatePlatform_type_cases [of pm g] assms by auto

text \<open>Both anti-repetition rules need a disappearing platform among the last three.\<close>

lemma special_type_no_disappearing:
  "Disappearing \<notin> set lf \<Longrightarrow> special_type score lf g = special_type score [] g"
  by (simp add: special_type_def Let_def split_def)

lemma choose_type_history:
  assumes "Disappearing \<notin> set (last_few_types ps)"
  shows "choose_type y ps g = choose_type y [] g"
proof -
  have "last_few_types [] = []" by (simp add: last_few_types_def)
  then show ?thesis by (simp add: choose_type_def Let_def split_def special_type_no_disappearing [OF assms])
qed

lemma last_few_types_append3:
  "length fs = 3 \<Longrightarrow> last_few_types (ps @ fs) = map p_type fs"
  by (simp add: last_few_types_def)

lemma valid_rng_half: "valid_rng (const_rng 0.5)"
  by (simp add: valid_rng_def const_rng_def)

section \<open>Properties of the generator\<close>

text \<open>Claim C4. One call of \<open>generatePlatform\<close> appends exactly one platform, placed at the
  new frontier, and the frontier moves up by a gap between \<open>minGapY\<close> and
  \<open>maxGapY\<close>: the spec's main invariant of the generator.\<close>

theorem generatePlatform_gap_bounds:
  assumes "valid_rng g" and "pm_minGapY pm \<le> pm_maxGapY pm"
  shows "pm_platforms (fst (generatePlatform pm g)) =
           pm_platforms pm @ [new_platform_of (generatePlatform pm g)] \<and>
         p_y (new_platform_of (generatePlatform pm g)) =
           pm_highestPlatformY (fst (generatePlatform pm g)) \<and>
         pm_minGapY pm \<le> pm_highestPlatformY pm - p_y (new_platform_of (generatePlatform pm g)) \<and>
         pm_highestPlatformY pm - p_y (new_platform_of (generatePlatform pm g)) \<le> pm_maxGapY pm"
  using generatePlatform_gap [OF assms]
  by (simp add: generatePlatform_platforms generatePlatform_new_y)

theorem generatePlatform_gap_bounds_witness:
  "pm_platforms (fst (generatePlatform
      \<lparr>pm_canvasWidth = 400, pm_canvasHeight = 600, pm_platforms = [],
       pm_minPlatformWidth = 80, pm_maxPlatformWidth = 150, pm_platformHeight = 20,
       pm_minGapY = 70, pm_maxGapY = 110, pm_specialPlatformChance = 0.3,
       pm_highestPlatformY = 500, pm_platformDensity = 1, pm_density = 10,
       pm_minWidth = 60, pm_maxWidth = 120\<rparr> (const_rng 0.5))) \<noteq> []"
  using generatePlatform_gap_bounds [OF valid_rng_half, of
      "\<lparr>pm_canvasWidth = 400, pm_canvasHeight = 600, pm_platforms = [],
       pm_minPlatformWidth = 80, pm_maxPlatformWidth = 150, pm_platformHeight = 20,
       pm_minGapY = 70, pm_maxGapY = 110, pm_specialPlatformChance = 0.3,
       pm_highestPlatformY = 500, pm_platformDensity = 1, pm_density = 10,
       pm_minWidth = 60, pm_maxWidth = 120\<rparr>"]
  by simp

text \<open>When the difficulty bounds satisfy
  \<open>0 \<le> minWidth \<le> maxWidth \<le> canvasWidth\<close>, a generated platform has a width in
  \<open>[minWidth, maxWidth]\<close> and lies horizontally inside the canvas.\<close>

theorem generatePlatform_within_canvas:
  assumes "valid_rng g" and "0 \<le> pm_minWidth pm" and "pm_minWidth pm \<le> pm_maxWidth pm"
    and "pm_maxWidth pm \<le> pm_canvasWidth pm"
  shows "pm_minWidth pm \<le> p_width (new_platform_of (generatePlatform pm g)) \<and>
         p_width (new_platform_of (generatePlatform pm g)) \<le> pm_maxWidth pm \<and>
         0 \<le> p_x (new_platform_of (generatePlatform pm g)) \<and>
         p_x (new_platform_of (generatePlatform pm g)) +
           p_width (new_platform_of (generatePlatform pm g)) \<le> pm_canvasWidth pm"
proof -
  let ?g1 = "snd (random_between (pm_minGapY pm) (pm_maxGapY pm) g)"
  let ?g2 = "snd (random_between (pm_minWidth pm) (pm_maxWidth pm) ?g1)"
  let ?w = "p_width (new_platform_of (generatePlatform pm g))"
  have v1: "valid_rng ?g1" and v2: "valid_rng ?g2" using assms(1) by (simp_all add: rng_simps)
  have w: "pm_minWidth pm \<le> ?w \<and> ?w \<le> pm_maxWidth pm"
    using random_between_range [OF v1 assms(3)] by (simp add: generatePlatform_new_width)
  then have "0 \<le> pm_canvasWidth pm - ?w" using assms(4) by simp
  from random_between_range [OF v2 this] w show ?thesis
    by (simp add: generatePlatform_new_x [of pm g])
qed

theorem generatePlatform_within_canvas_witness:
  "p_x (new_platform_of (generatePlatform
      \<lparr>pm_canvasWidth = 400, pm_canvasHeight = 600, pm_platforms = [],
       pm_minPlatformWidth = 80, pm_maxPlatformWidth = 150, pm_platformHeight = 20,
       pm_minGapY = 70, pm_maxGapY = 110, pm_specialPlatformChance = 0.3,
       pm_highestPlatformY = 500, pm_platformDensity = 1, pm_density = 10,
       pm_minWidth = 60, pm_maxWidth = 120\<rparr> (const_rng 0.5))) \<ge> 0"
  using generatePlatform_within_canvas [OF valid_rng_half, of
      "\<lparr>pm_canvasWidth = 400, pm_canvasHeight = 600, pm_platforms = [],
       pm_minPlatformWidth = 80, pm_maxPlatformWidth = 150, pm_platformHeight = 20,
       pm_minGapY = 70, pm_maxGapY = 110, pm_specialPlatformChance = 0.3,
       pm_highestPlatformY = 500, pm_platformDensity = 1, pm_density = 10,
       pm_minWidth = 60, pm_maxWidth = 120\<rparr>"]
  by simp

text \<open>Claim C5. Early game: a platform generated below height 3000 (score under 300) is
  never breakable or disappearing, whatever the draws and the previous platforms.\<close>

theorem generatePlatform_early_types:
  assumes "\<bar>p_y (new_platform_of (generatePlatform pm g))\<bar> / 10 < 300"
  shows "p_type (new_platform_of (generatePlatform pm g)) \<in> {Normal, Bouncy, Moving}"
proof (rule generatePlatform_type_rule)
  fix g'
  show "fst (special_type (\<bar>p_y (new_platform_of (generatePlatform pm g))\<bar> / 10)
          (last_few_types (pm_platforms pm)) g') \<in> {Normal, Bouncy, Moving}"
    using special_type_cases [of "\<bar>p_y (new_platform_of (generatePlatform pm g))\<bar> / 10"
        "last_few_types (pm_platforms pm)" g']
      band_type_early [OF assms, of "fst (random g')"] by auto
qed simp

theorem generatePlatform_early_types_witness:
  "p_type (new_platform_of (generatePlatform
      \<lparr>pm_canvasWidth = 400, pm_canvasHeight = 600, pm_platforms = [],
       pm_minPlatformWidth = 80, pm_maxPlatformWidth = 150, pm_platformHeight = 20,
       pm_minGapY = 70, pm_maxGapY = 110, pm_specialPlatformChance = 0.3,
       pm_highestPlatformY = 500, pm_platformDensity = 1, pm_density = 10,
       pm_minWidth = 60, pm_maxWidth = 120\<rparr> (const_rng 0.5))) \<noteq> Breakable"
proof -
  let ?pm = "\<lparr>pm_canvasWidth = 400, pm_canvasHeight = 600, pm_platforms = [],
       pm_minPlatformWidth = 80, pm_maxPlatformWidth = 150, pm_platformHeight = 20,
       pm_minGapY = 70, pm_maxGapY = 110, pm_specialPlatformChance = 0.3,
       pm_highestPlatformY = 500, pm_platformDensity = 1, pm_density = 10,
       pm_minWidth = 60, pm_maxWidth = 120\<rparr> :: platform_manager"
  have "\<bar>p_y (new_platform_of (generatePlatform ?pm (const_rng 0.5)))\<bar> / 10 < 300"
    by (simp add: generatePlatform_new_y generatePlatform_frontier random_between_def
        random_def const_rng_def)
  from generatePlatform_early_types [OF this] show ?thesis by auto
qed

text \<open>Claim C6. Anti-repetition: when one of the last three platforms of the list is
  disappearing, the new platform is not disappearing; when the last three hold both a
  breakable and a disappearing platform, the new platform is not breakable.\<close>

theorem generatePlatform_anti_repetition:
  assumes "Disappearing \<in> set (last_few_types (pm_platforms pm))"
  shows "p_type (new_platform_of (generatePlatform pm g)) \<noteq> Disappearing \<and>
         (Breakable \<in> set (last_few_types (pm_platforms pm)) \<longrightarrow>
            p_type (new_platform_of (generatePlatform pm g)) \<noteq> Breakable)"
  by (rule generatePlatform_type_rule)
     (simp_all add: special_type_no_double_disappearing [OF assms]
        special_type_no_breakable_run [OF _ assms])

theorem generatePlatform_anti_repetition_witness:
  "p_type (new_platform_of (generatePlatform
      \<lparr>pm_canvasWidth = 400, pm_canvasHeight = 600,
       pm_platforms = [fst (new_Platform 50 (-5000) 100 20 Disappearing (const_rng 0.5))],
       pm_minPlatformWidth = 80, pm_maxPlatformWidth = 150, pm_platformHeight = 20,
       pm_minGapY = 70, pm_maxGapY = 110, pm_specialPlatformChance = 0.3,
       pm_highestPlatformY = -5000, pm_platformDensity = 1, pm_density = 10,
       pm_minWidth = 60, pm_maxWidth = 120\<rparr> (const_rng 0.95))) \<noteq> Disappearing"
  using generatePlatform_anti_repetition [of
      "\<lparr>pm_canvasWidth = 400, pm_canvasHeight = 600,
       pm_platforms = [fst (new_Platform 50 (-5000) 100 20 Disappearing (const_rng 0.5))],
       pm_minPlatformWidth = 80, pm_maxPlatformWidth = 150, pm_platformHeight = 20,
       pm_minGapY = 70, pm_maxGapY = 110, pm_specialPlatformChance = 0.3,
       pm_highestPlatformY = -5000, pm_platformDensity = 1, pm_density = 10,
       pm_minWidth = 60, pm_maxWidth = 120\<rparr>" "const_rng 0.95"]
  by (simp add: last_few_types_def)

text \<open>Claim C7. The anti-repetition rule reads the last three entries of the platform list,
  which also holds the density fillers and safety platforms pushed after generation:
  after any three entries none of which is disappearing, the type of the next generated
  platform is the one it would have with no history at all, whatever came before, so a
  generated disappearing platform followed by three fillers does not stop the next
  generated platform from being disappearing.\<close>

theorem generatePlatform_repeats_disappearing_after_fillers:
  assumes "length fs = 3" and "Disappearing \<notin> p_type ` set fs"
  shows "p_type (new_platform_of (generatePlatform (pm\<lparr>pm_platforms := ps @ fs\<rparr>) g)) =
         p_type (new_platform_of (generatePlatform (pm\<lparr>pm_platforms := []\<rparr>) g))"
proof -
  have "Disappearing \<notin> set (last_few_types (ps @ fs))"
    using assms by (simp add: last_few_types_append3)
  then show ?thesis
    by (simp add: generatePlatform_new_type_exact generatePlatform_new_y generatePlatform_frontier
        choose_type_history)
qed

theorem generatePlatform_repeats_disappearing_after_fillers_witness:
  "p_type (new_platform_of (generatePlatform
      \<lparr>pm_canvasWidth = 400, pm_canvasHeight = 600,
       pm_platforms = [fst (new_Platform 50 (-5000) 100 20 Disappearing (const_rng 0.5))] @
                      [fst (new_Platform 10 (-4600) 80 20 Normal (const_rng 0.5)),
                       fst (new_Platform 200 (-4700) 80 20 Normal (const_rng 0.5)),
                       fst (new_Platform 120 (-4800) 80 20 Normal (const_rng 0.5))],
       pm_minPlatformWidth = 80, pm_maxPlatformWidth = 150, pm_platformHeight = 20,
       pm_minGapY = 70, pm_maxGapY = 110, pm_specialPlatformChance = 0.3,
       pm_highestPlatformY = -5000, pm_platformDensity = 1, pm_density = 10,
       pm_minWidth = 60, pm_maxWidth = 120\<rparr>
      \<lparr>draws = (\<lambda>n. if n = 3 then 0.1 else 0.95), cursor = 0\<rparr>)) = Disappearing"
proof -
  let ?pm = "\<lparr>pm_canvasWidth = 400, pm_canvasHeight = 600, pm_platforms = [],
       pm_minPlatformWidth = 80, pm_maxPlatformWidth = 150, pm_platformHeight = 20,
       pm_minGapY = 70, pm_maxGapY = 110, pm_specialPlatformChance = 0.3,
       pm_highestPlatformY = -5000, pm_platformDensity = 1, pm_density = 10,
       pm_minWidth = 60, pm_maxWidth = 120\<rparr> :: platform_manager"
  let ?g = "\<lparr>draws = (\<lambda>n. if n = 3 then 0.1 else (0.95::num)), cursor = 0\<rparr>"
  have e: "p_type (new_platform_of (generatePlatform ?pm ?g)) = Disappearing"
    apply (simp only: generatePlatform_new_type_exact generatePlatform_new_y generatePlatform_frontier)
    apply (simp add: choose_type_def special_type_def band_type_def last_few_types_def Let_def
        split_def random_def random_between_def)
    done
  show ?thesis
    using generatePlatform_repeats_disappearing_after_fillers [where pm = ?pm and g = ?g
        and ps = "[fst (new_Platform 50 (-5000) 100 20 Disappearing (const_rng 0.5))]"
        and fs = "[fst (new_Platform 10 (-4600) 80 20 Normal (const_rng 0.5)),
                   fst (new_Platform 200 (-4700) 80 20 Normal (const_rng 0.5)),
                   fst (new_Platform 120 (-4800) 80 20 Normal (const_rng 0.5))]"] e
    by simp
qed

end
