(* ===== verification/Player.thy ===== *)
theory Player
  imports Platform
begin

text \<open>
  The \<open>Player\<close> class is not among the repository's sources; the game code in
  \<open>src/js/auth.js\<close> reads and writes its fields (\<open>x\<close>, \<open>y\<close>, \<open>width\<close>,
  \<open>height\<close>, \<open>velocityX\<close>, \<open>velocityY\<close>, \<open>gravity\<close>, \<open>jumpForce\<close>,
  \<open>isAlive\<close>, \<open>isFalling\<close>) and calls \<open>update(deltaTime, game)\<close> and
  \<open>onPlatformCollision(platform)\<close>. Both operations are modelled from the
  specification (section 4.3): gravity is integrated once per frame, the horizontal
  position is clamped to the canvas, the falling/jumping flags follow the sign of the
  vertical velocity; a landing imparts the jump impulse, a larger one on a bouncy platform,
  and starts breaking or vanishing of a breakable or disappearing platform, which it does
  only once (a platform already breaking or vanishing gives no impulse and the manager's
  scan goes on). The base physics constants are those \<open>Game.increaseDifficulty\<close> computes
  at level 1 (gravity 0.5, jump force -15); the bouncy factor 1.5 is this model's choice of
  "a larger impulse".
\<close>

record player =
  pl_x :: num
  pl_y :: num
  pl_width :: num
  pl_height :: num
  pl_velocityX :: num
  pl_velocityY :: num
  pl_gravity :: num
  pl_jumpForce :: num
  pl_isAlive :: bool
  pl_isFalling :: bool
  pl_isJumping :: bool

definition new_Player :: "num \<Rightarrow> num \<Rightarrow> num \<Rightarrow> num \<Rightarrow> player" where
  "new_Player x y w h =
     \<lparr>pl_x = x, pl_y = y, pl_width = w, pl_height = h, pl_velocityX = 0, pl_velocityY = 0,
      pl_gravity = 0.5, pl_jumpForce = -15, pl_isAlive = True, pl_isFalling = False,
      pl_isJumping = False\<rparr>"

definition Player_update :: "num \<Rightarrow> player \<Rightarrow> player" where
  "Player_update cw pl =
     (let vy = pl_velocityY pl + pl_gravity pl;
          x = max 0 (min (cw - pl_width pl) (pl_x pl + pl_velocityX pl)) in
      pl\<lparr>pl_velocityY := vy, pl_y := pl_y pl + vy, pl_x := x,
         pl_isFalling := (vy > 0), pl_isJumping := (vy < 0)\<rparr>)"

definition bouncy_factor :: num where
  "bouncy_factor = 1.5"

definition jump :: "num \<Rightarrow> player \<Rightarrow> player" where
  "jump v pl = pl\<lparr>pl_velocityY := v, pl_isJumping := True, pl_isFalling := False\<rparr>"

definition Player_onPlatformCollision :: "platform \<Rightarrow> player \<Rightarrow> bool \<times> player \<times> platform" where
  "Player_onPlatformCollision p pl =
     (case p_type p of
        Normal \<Rightarrow> (True, jump (pl_jumpForce pl) pl, p)
      | Moving \<Rightarrow> (True, jump (pl_jumpForce pl) pl, p)
      | Bouncy \<Rightarrow> (True, jump (pl_jumpForce pl * bouncy_factor) pl, p)
      | Breakable \<Rightarrow>
          (if p_breakProgress p > 0 then (False, pl, p)
           else (True, jump (pl_jumpForce pl) pl, Platform_break p))
      | Disappearing \<Rightarrow>
          (if p_disappearTimer p > 0 then (False, pl, p)
           else (True, jump (pl_jumpForce pl) pl, Platform_startDisappearing p)))"

lemma jump_fields [simp]:
  "pl_velocityY (jump v pl) = v" "pl_x (jump v pl) = pl_x pl" "pl_y (jump v pl) = pl_y pl"
  "pl_width (jump v pl) = pl_width pl" "pl_height (jump v pl) = pl_height pl"
  "pl_jumpForce (jump v pl) = pl_jumpForce pl" "pl_gravity (jump v pl) = pl_gravity pl"
  "pl_isAlive (jump v pl) = pl_isAlive pl"
  by (simp_all add: jump_def)

text \<open>What a landing does to the player: the vertical velocity afterwards, per type.\<close>

lemma onPlatformCollision_velocity:
  assumes "fst (Player_onPlatformCollision p pl)"
  shows "pl_velocityY (fst (snd (Player_onPlatformCollision p pl))) =
           (if p_type p = Bouncy then pl_jumpForce pl * bouncy_factor else pl_jumpForce pl)"
  using assms by (simp add: Player_onPlatformCollision_def split: platform_type.splits if_splits)

lemma onPlatformCollision_refused:
  "\<not> fst (Player_onPlatformCollision p pl) \<Longrightarrow>
     snd (Player_onPlatformCollision p pl) = (pl, p)"
  by (simp add: Player_onPlatformCollision_def split: platform_type.splits if_splits)

lemma onPlatformCollision_platform_frame [simp]:
  "p_y (snd (snd (Player_onPlatformCollision p pl))) = p_y p"
  "p_x (snd (snd (Player_onPlatformCollision p pl))) = p_x p"
  "p_type (snd (snd (Player_onPlatformCollision p pl))) = p_type p"
  "p_active (snd (snd (Player_onPlatformCollision p pl))) = p_active p"
  "p_width (snd (snd (Player_onPlatformCollision p pl))) = p_width p"
  "p_height (snd (snd (Player_onPlatformCollision p pl))) = p_height p"
  by (simp_all add: Player_onPlatformCollision_def Platform_break_def
      Platform_startDisappearing_def split: platform_type.splits)

lemma onPlatformCollision_player_frame [simp]:
  "pl_x (fst (snd (Player_onPlatformCollision p pl))) = pl_x pl"
  "pl_y (fst (snd (Player_onPlatformCollision p pl))) = pl_y pl"
  "pl_width (fst (snd (Player_onPlatformCollision p pl))) = pl_width pl"
  "pl_height (fst (snd (Player_onPlatformCollision p pl))) = pl_height pl"
  "pl_jumpForce (fst (snd (Player_onPlatformCollision p pl))) = pl_jumpForce pl"
  "pl_gravity (fst (snd (Player_onPlatformCollision p pl))) = pl_gravity pl"
  "pl_isAlive (fst (snd (Player_onPlatformCollision p pl))) = pl_isAlive pl"
  by (simp_all add: Player_onPlatformCollision_def split: platform_type.splits)

end
