(* ===== verification/Manager.thy ===== *)
theory Manager
  imports Generator Player
begin

text \<open>
  The per-frame work of \<open>PlatformManager\<close> (\<open>src/unnamed/part_000\<close>):
  \<open>update(deltaTime, cameraY)\<close> in its three phases (the backward loop that updates
  and splices out platforms, the look-ahead \<open>while\<close> loop that calls
  \<open>generatePlatform\<close>, the density top-up with two filler platforms) and
  \<open>checkCollisions(player)\<close>, which hands the first platform the falling player lands on
  to \<open>Player.onPlatformCollision\<close> and stops. The \<open>while\<close> loop is a
  \<open>partial_function (option)\<close>: \<open>None\<close> stands for a loop that does not end, and
  the theorems below prove that it ends.
\<close>

section \<open>update: the backward loop\<close>

definition remove_platform :: "num \<Rightarrow> num \<Rightarrow> platform \<Rightarrow> bool" where
  "remove_platform cameraY ch p \<longleftrightarrow> \<not> p_active p \<or> p_y p > cameraY + ch + 300"

text \<open>\<open>for (let i = this.platforms.length - 1; i >= 0; i--)\<close>: the call with \<open>Suc i\<close>
  handles index \<open>i\<close>, updating it in place and splicing it out when it is inactive or too
  far below the camera.\<close>

fun update_backward :: "num \<Rightarrow> num \<Rightarrow> num \<Rightarrow> num \<Rightarrow> nat \<Rightarrow> platform list \<Rightarrow> platform list" where
  "update_backward dt cw cameraY ch 0 ps = ps"
| "update_backward dt cw cameraY ch (Suc i) ps =
     (let p = Platform_update dt cw (ps ! i);
          ps' = ps[i := p]
      in update_backward dt cw cameraY ch i
           (if remove_platform cameraY ch p then take i ps' @ drop (Suc i) ps' else ps'))"

section \<open>update: the look-ahead loop\<close>

text \<open>The spec's invariant of generated terrain: each platform of a run of generated
  platforms lies between \<open>lo\<close> and \<open>hi\<close> above the one before (the first one above the
  frontier \<open>y\<close> the run started from).\<close>

fun gap_chain :: "num \<Rightarrow> num \<Rightarrow> num \<Rightarrow> platform list \<Rightarrow> bool" where
  "gap_chain lo hi y [] = True"
| "gap_chain lo hi y (p # ps) = (lo \<le> y - p_y p \<and> y - p_y p \<le> hi \<and> gap_chain lo hi (p_y p) ps)"

text \<open>What the look-ahead loop leaves behind: the list grew by \<open>new\<close>, a gap chain from
  the old frontier; the frontier is the last new platform (or unchanged) and no longer above
  \<open>limit\<close>; nothing else changed.\<close>

definition ahead_result ::
  "num \<Rightarrow> platform_manager \<Rightarrow> platform_manager \<Rightarrow> platform list \<Rightarrow> bool" where
  "ahead_result limit pm pm' new \<longleftrightarrow>
     pm_platforms pm' = pm_platforms pm @ new \<and>
     gap_chain (pm_minGapY pm) (pm_maxGapY pm) (pm_highestPlatformY pm) new \<and>
     pm_highestPlatformY pm' = last (pm_highestPlatformY pm # map p_y new) \<and>
     \<not> pm_highestPlatformY pm' > limit \<and>
     pm'\<lparr>pm_platforms := pm_platforms pm, pm_highestPlatformY := pm_highestPlatformY pm\<rparr> = pm"

text \<open>\<open>while (this.highestPlatformY > cameraY - this.canvasHeight * 2) this.generatePlatform()\<close>.\<close>

partial_function (option) generate_ahead ::
  "num \<Rightarrow> platform_manager \<Rightarrow> rng \<Rightarrow> (platform_manager \<times> rng) option" where
  "generate_ahead limit pm g =
     (if pm_highestPlatformY pm > limit
      then generate_ahead limit (fst (generatePlatform pm g)) (snd (generatePlatform pm g))
      else Some (pm, g))"

section \<open>update: density top-up\<close>

definition visible_count :: "num \<Rightarrow> platform_manager \<Rightarrow> nat" where
  "visible_count cameraY pm =
     length (filter (\<lambda>p. p_y p \<ge> cameraY - 100 \<and> p_y p \<le> cameraY + pm_canvasHeight pm + 100)
               (pm_platforms pm))"

definition add_filler :: "num \<Rightarrow> platform_manager \<Rightarrow> rng \<Rightarrow> platform_manager \<times> rng" where
  "add_filler cameraY pm g0 =
     (let (dy, g1) = random_between 100 (pm_canvasHeight pm - 100) g0;
          y = cameraY + dy;
          (width, g2) = random_between (pm_minWidth pm) (pm_maxWidth pm) g1;
          (x, g3) = random_between 0 (pm_canvasWidth pm - width) g2;
          (p, g4) = new_Platform x y width (pm_platformHeight pm) Normal g3
      in (pm\<lparr>pm_platforms := pm_platforms pm @ [p]\<rparr>, g4))"

definition top_up :: "num \<Rightarrow> platform_manager \<Rightarrow> rng \<Rightarrow> platform_manager \<times> rng" where
  "top_up cameraY pm g =
     (if real (visible_count cameraY pm) < pm_density pm * pm_platformDensity pm
      then (let (pm1, g1) = add_filler cameraY pm g in add_filler cameraY pm1 g1)
      else (pm, g))"

text \<open>\<open>PlatformManager.update(deltaTime, cameraY)\<close>.\<close>

definition PlatformManager_update ::
  "num \<Rightarrow> num \<Rightarrow> platform_manager \<Rightarrow> rng \<Rightarrow> (platform_manager \<times> rng) option" where
  "PlatformManager_update dt cameraY pm g =
     (let pm1 = pm\<lparr>pm_platforms := update_backward dt (pm_canvasWidth pm) cameraY
                                      (pm_canvasHeight pm) (length (pm_platforms pm))
                                      (pm_platforms pm)\<rparr>
      in map_option (\<lambda>(pm2, g2). top_up cameraY pm2 g2)
           (generate_ahead (cameraY - pm_canvasHeight pm * 2) pm1 g))"

section \<open>checkCollisions\<close>

text \<open>The tests of the scan: active, within 20 of the player's bottom edge (computed once,
  before the loop), and overlapping.\<close>

definition near_overlap :: "num \<Rightarrow> player \<Rightarrow> platform \<Rightarrow> bool" where
  "near_overlap bottom pl p \<longleftrightarrow>
     p_active p \<and> \<not> (\<bar>p_y p - bottom\<bar> > 20) \<and>
     (pl_x pl < p_x p + p_width p \<and> pl_x pl + pl_width pl > p_x p) \<and>
     (bottom \<ge> p_y p \<and> pl_y pl < p_y p + p_height p)"

fun collision_scan :: "num \<Rightarrow> player \<Rightarrow> platform list \<Rightarrow> bool \<times> player \<times> platform list" where
  "collision_scan bottom pl [] = (False, pl, [])"
| "collision_scan bottom pl (p # ps) =
     (if near_overlap bottom pl p then
        (let (result, pl', p') = Player_onPlatformCollision p pl in
         if result then (True, pl', p' # ps)
         else (let (c, pl'', ps') = collision_scan bottom pl' ps in (c, pl'', p' # ps')))
      else (let (c, pl', ps') = collision_scan bottom pl ps in (c, pl', p # ps')))"

definition PlatformManager_checkCollisions ::
  "player \<Rightarrow> platform_manager \<Rightarrow> bool \<times> player \<times> platform_manager" where
  "PlatformManager_checkCollisions pl pm =
     (if pl_velocityY pl \<le> 0 then (False, pl, pm)
      else (let (c, pl', ps') = collision_scan (pl_y pl + pl_height pl) pl (pm_platforms pm)
            in (c, pl', pm\<lparr>pm_platforms := ps'\<rparr>)))"

text \<open>A reference for the scan: the platforms before the first one the player lands on are
  untouched, that one is handed to the player, the rest are untouched.\<close>

definition lands_on :: "num \<Rightarrow> player \<Rightarrow> platform \<Rightarrow> bool" where
  "lands_on bottom pl p \<longleftrightarrow> near_overlap bottom pl p \<and> fst (Player_onPlatformCollision p pl)"

definition collision_ref :: "num \<Rightarrow> player \<Rightarrow> platform list \<Rightarrow> bool \<times> player \<times> platform list" where
  "collision_ref bottom pl ps =
     (case dropWhile (\<lambda>p. \<not> lands_on bottom pl p) ps of
        [] \<Rightarrow> (False, pl, ps)
      | p # rest \<Rightarrow>
          (True, fst (snd (Player_onPlatformCollision p pl)),
           takeWhile (\<lambda>p. \<not> lands_on bottom pl p) ps @
             snd (snd (Player_onPlatformCollision p pl)) # rest))"


section \<open>The backward loop is a filter after a map\<close>

lemma update_backward_eq:
  "i \<le> length ps \<Longrightarrow>
     update_backward dt cw cameraY ch i ps =
       filter (\<lambda>p. \<not> remove_platform cameraY ch p) (map (Platform_update dt cw) (take i ps)) @ drop i ps"
proof (induction i arbitrary: ps)
  case 0
  then show ?case by simp
next
  case (Suc i)
  let ?p = "Platform_update dt cw (ps ! i)"
  have i: "i < length ps" using Suc.prems by simp
  have take_upd: "take i (ps[i := ?p]) = take i ps" by simp
  have split: "ps[i := ?p] = take i ps @ ?p # drop (Suc i) ps" using i by (rule upd_conv_take_nth_drop)
  have tk: "take (Suc i) ps = take i ps @ [ps ! i]" using i by (simp add: take_Suc_conv_app_nth)
  show ?case
  proof (cases "remove_platform cameraY ch ?p")
    case True
    let ?ps = "take i ps @ drop (Suc i) ps"
    have "i \<le> length ?ps" using i by simp
    then have "update_backward dt cw cameraY ch i ?ps =
        filter (\<lambda>p. \<not> remove_platform cameraY ch p) (map (Platform_update dt cw) (take i ?ps)) @ drop i ?ps"
      by (rule Suc.IH)
    moreover have "take i ?ps = take i ps" "drop i ?ps = drop (Suc i) ps" using i by simp_all
    ultimately show ?thesis using True i
      by (simp add: Let_def take_upd tk split)
  next
    case False
    have "i \<le> length (ps[i := ?p])" using i by simp
    then have "update_backward dt cw cameraY ch i (ps[i := ?p]) =
        filter (\<lambda>p. \<not> remove_platform cameraY ch p) (map (Platform_update dt cw) (take i (ps[i := ?p]))) @
        drop i (ps[i := ?p])"
      by (rule Suc.IH)
    moreover have "drop i (ps[i := ?p]) = ?p # drop (Suc i) ps" using i by (simp add: split)
    ultimately show ?thesis using False i
      by (simp add: Let_def take_upd tk)
  qed
qed

section \<open>The look-ahead loop ends and builds a gap chain\<close>

lemma generate_ahead_fuel:
  assumes "valid_rng g" and "0 < pm_minGapY pm" and "pm_minGapY pm \<le> pm_maxGapY pm"
    and "pm_highestPlatformY pm - limit \<le> real n * pm_minGapY pm"
  shows "\<exists>r. generate_ahead limit pm g = Some r"
  using assms
proof (induction n arbitrary: pm g)
  case 0
  then have "\<not> pm_highestPlatformY pm > limit" by simp
  then show ?case by (simp add: generate_ahead.simps)
next
  case (Suc n)
  show ?case
  proof (cases "pm_highestPlatformY pm > limit")
    case False
    then show ?thesis by (simp add: generate_ahead.simps)
  next
    case True
    let ?pm = "fst (generatePlatform pm g)" and ?g = "snd (generatePlatform pm g)"
    have gap: "pm_minGapY pm \<le> pm_highestPlatformY pm - pm_highestPlatformY ?pm"
      using generatePlatform_gap [OF Suc.prems(1,3)] by simp
    have "pm_highestPlatformY ?pm - limit \<le> real n * pm_minGapY ?pm"
      using Suc.prems(4) gap by (simp add: algebra_simps)
    moreover have "valid_rng ?g" using Suc.prems(1) by (simp add: rng_simps)
    ultimately obtain r where "generate_ahead limit ?pm ?g = Some r"
      using Suc.IH Suc.prems(2,3) by fastforce
    with True show ?thesis by (simp add: generate_ahead.simps [of limit pm g])
  qed
qed

lemma generate_ahead_terminates:
  assumes "valid_rng g" and "0 < pm_minGapY pm" and "pm_minGapY pm \<le> pm_maxGapY pm"
  shows "\<exists>r. generate_ahead limit pm g = Some r"
proof -
  let ?n = "nat \<lceil>(pm_highestPlatformY pm - limit) / pm_minGapY pm\<rceil>"
  have "(pm_highestPlatformY pm - limit) / pm_minGapY pm \<le> real ?n" by linarith
  then have "pm_highestPlatformY pm - limit \<le> real ?n * pm_minGapY pm"
    using assms(2) by (simp add: divide_le_eq)
  with assms show ?thesis by (rule generate_ahead_fuel)
qed

lemma generatePlatform_only:
  "(fst (generatePlatform pm g))\<lparr>pm_platforms := pm_platforms pm,
      pm_highestPlatformY := pm_highestPlatformY pm\<rparr> = pm"
  by (simp add: generatePlatform_def Let_def split_def)

lemma gap_chain_step:
  "gap_chain lo hi y (p # ps) \<longleftrightarrow> lo \<le> y - p_y p \<and> y - p_y p \<le> hi \<and> gap_chain lo hi (p_y p) ps"
  by simp

lemma ahead_result_stop:
  "\<not> pm_highestPlatformY pm > limit \<Longrightarrow> ahead_result limit pm pm []"
  by (simp add: ahead_result_def)

lemma ahead_result_step:
  assumes v: "valid_rng g" and gaps: "pm_minGapY pm \<le> pm_maxGapY pm"
    and res: "ahead_result limit (fst (generatePlatform pm g)) pm' new"
  shows "ahead_result limit pm pm' (new_platform_of (generatePlatform pm g) # new)"
proof -
  let ?pm = "fst (generatePlatform pm g)" and ?p = "new_platform_of (generatePlatform pm g)"
  have y: "p_y ?p = pm_highestPlatformY ?pm" by (rule generatePlatform_new_y)
  have gap: "pm_minGapY pm \<le> pm_highestPlatformY pm - pm_highestPlatformY ?pm \<and>
      pm_highestPlatformY pm - pm_highestPlatformY ?pm \<le> pm_maxGapY pm"
    by (rule generatePlatform_gap [OF v gaps])
  have "pm'\<lparr>pm_platforms := pm_platforms pm, pm_highestPlatformY := pm_highestPlatformY pm\<rparr> =
      (pm'\<lparr>pm_platforms := pm_platforms ?pm, pm_highestPlatformY := pm_highestPlatformY ?pm\<rparr>)
        \<lparr>pm_platforms := pm_platforms pm, pm_highestPlatformY := pm_highestPlatformY pm\<rparr>"
    by simp
  also have "\<dots> = ?pm\<lparr>pm_platforms := pm_platforms pm, pm_highestPlatformY := pm_highestPlatformY pm\<rparr>"
    using res by (simp add: ahead_result_def)
  also have "\<dots> = pm" by (rule generatePlatform_only)
  finally show ?thesis
    using res gap y by (simp add: ahead_result_def generatePlatform_platforms)
qed

lemma generate_ahead_chain:
  assumes "generate_ahead limit pm g = Some r"
  shows "valid_rng g \<longrightarrow> pm_minGapY pm \<le> pm_maxGapY pm \<longrightarrow>
           (\<exists>new. ahead_result limit pm (fst r) new) \<and> valid_rng (snd r)"
proof (rule generate_ahead.raw_induct [where P = "\<lambda>limit pm g r. valid_rng g \<longrightarrow>
    pm_minGapY pm \<le> pm_maxGapY pm \<longrightarrow> (\<exists>new. ahead_result limit pm (fst r) new) \<and> valid_rng (snd r)",
    OF _ assms])
  fix f :: "num \<Rightarrow> platform_manager \<Rightarrow> rng \<Rightarrow> (platform_manager \<times> rng) option"
    and limit pm g r
  assume IH: "\<And>limit pm g r. f limit pm g = Some r \<Longrightarrow> valid_rng g \<longrightarrow>
      pm_minGapY pm \<le> pm_maxGapY pm \<longrightarrow> (\<exists>new. ahead_result limit pm (fst r) new) \<and> valid_rng (snd r)"
    and eq: "(if pm_highestPlatformY pm > limit
              then f limit (fst (generatePlatform pm g)) (snd (generatePlatform pm g))
              else Some (pm, g)) = Some r"
  show "valid_rng g \<longrightarrow> pm_minGapY pm \<le> pm_maxGapY pm \<longrightarrow>
      (\<exists>new. ahead_result limit pm (fst r) new) \<and> valid_rng (snd r)"
  proof (intro impI)
    assume v: "valid_rng g" and gaps: "pm_minGapY pm \<le> pm_maxGapY pm"
    show "(\<exists>new. ahead_result limit pm (fst r) new) \<and> valid_rng (snd r)"
    proof (cases "pm_highestPlatformY pm > limit")
      case False
      with eq v ahead_result_stop [OF False] show ?thesis by auto
    next
      case True
      with eq have "f limit (fst (generatePlatform pm g)) (snd (generatePlatform pm g)) = Some r"
        by simp
      with IH v gaps obtain new where
        "ahead_result limit (fst (generatePlatform pm g)) (fst r) new" "valid_rng (snd r)"
        by (fastforce simp add: rng_simps)
      then show ?thesis using ahead_result_step [OF v gaps] by blast
    qed
  qed
qed

section \<open>Density top-up\<close>

lemma add_filler_shape:
  "\<exists>p. pm_platforms (fst (add_filler cameraY pm g)) = pm_platforms pm @ [p] \<and> p_type p = Normal \<and>
       p_y p = cameraY + fst (random_between 100 (pm_canvasHeight pm - 100) g) \<and>
       (fst (add_filler cameraY pm g))\<lparr>pm_platforms := pm_platforms pm\<rparr> = pm"
  by (simp add: add_filler_def Let_def split_def)

lemma valid_rng_add_filler [rng_simps]:
  "valid_rng g \<Longrightarrow> valid_rng (snd (add_filler cameraY pm g))"
  by (simp add: add_filler_def Let_def split_def rng_simps)

text \<open>A filler lies in the band 100 below the top and 100 above the bottom of the view.\<close>

definition filler_in_view :: "num \<Rightarrow> num \<Rightarrow> platform \<Rightarrow> bool" where
  "filler_in_view cameraY ch p \<longleftrightarrow>
     p_type p = Normal \<and> cameraY + 100 \<le> p_y p \<and> p_y p \<le> cameraY + ch - 100"

lemma add_filler_in_view:
  assumes "valid_rng g" and "200 \<le> pm_canvasHeight pm"
  shows "\<exists>p. pm_platforms (fst (add_filler cameraY pm g)) = pm_platforms pm @ [p] \<and>
             filler_in_view cameraY (pm_canvasHeight pm) p \<and>
             (fst (add_filler cameraY pm g))\<lparr>pm_platforms := pm_platforms pm\<rparr> = pm"
proof -
  have "100 \<le> fst (random_between 100 (pm_canvasHeight pm - 100) g) \<and>
        fst (random_between 100 (pm_canvasHeight pm - 100) g) \<le> pm_canvasHeight pm - 100"
    using assms by (intro random_between_range) auto
  then show ?thesis using add_filler_shape [of cameraY pm g]
    by (auto simp add: filler_in_view_def)
qed

lemma top_up_in_view:
  assumes "valid_rng g" and "200 \<le> pm_canvasHeight pm"
  shows "\<exists>fill. pm_platforms (fst (top_up cameraY pm g)) = pm_platforms pm @ fill \<and>
           length fill \<le> 2 \<and> (\<forall>p \<in> set fill. filler_in_view cameraY (pm_canvasHeight pm) p) \<and>
           (fst (top_up cameraY pm g))\<lparr>pm_platforms := pm_platforms pm\<rparr> = pm"
proof (cases "real (visible_count cameraY pm) < pm_density pm * pm_platformDensity pm")
  case False
  then show ?thesis by (intro exI [of _ "[]"]) (simp add: top_up_def)
next
  case True
  let ?pm1 = "fst (add_filler cameraY pm g)" and ?g1 = "snd (add_filler cameraY pm g)"
  obtain p1 where p1: "pm_platforms ?pm1 = pm_platforms pm @ [p1]"
      "filler_in_view cameraY (pm_canvasHeight pm) p1"
      "?pm1\<lparr>pm_platforms := pm_platforms pm\<rparr> = pm"
    using add_filler_in_view [OF assms] by blast
  have ch1: "pm_canvasHeight ?pm1 = pm_canvasHeight pm"
    using arg_cong [OF p1(3), of pm_canvasHeight] by simp
  have "valid_rng ?g1" using assms(1) by (simp add: rng_simps)
  then obtain p2 where p2: "pm_platforms (fst (add_filler cameraY ?pm1 ?g1)) = pm_platforms ?pm1 @ [p2]"
      "filler_in_view cameraY (pm_canvasHeight pm) p2"
      "(fst (add_filler cameraY ?pm1 ?g1))\<lparr>pm_platforms := pm_platforms ?pm1\<rparr> = ?pm1"
    using add_filler_in_view [of ?g1 ?pm1 cameraY] assms(2) ch1 by auto
  have "(fst (add_filler cameraY ?pm1 ?g1))\<lparr>pm_platforms := pm_platforms pm\<rparr> =
      ((fst (add_filler cameraY ?pm1 ?g1))\<lparr>pm_platforms := pm_platforms ?pm1\<rparr>)
        \<lparr>pm_platforms := pm_platforms pm\<rparr>" by simp
  also have "\<dots> = pm" using p1(3) p2(3) by simp
  finally have frame: "(fst (add_filler cameraY ?pm1 ?g1))\<lparr>pm_platforms := pm_platforms pm\<rparr> = pm" .
  show ?thesis
    using True p1 p2 frame by (intro exI [of _ "[p1, p2]"]) (simp add: top_up_def split_def Let_def)
qed

section \<open>The collision scan is the first landing\<close>

lemma lands_on_refused:
  "near_overlap b pl p \<Longrightarrow> \<not> lands_on b pl p \<Longrightarrow> Player_onPlatformCollision p pl = (False, pl, p)"
  using onPlatformCollision_refused [of p pl]
  by (cases "Player_onPlatformCollision p pl") (auto simp add: lands_on_def)

lemma dropWhile_lands:
  assumes "dropWhile (\<lambda>p. \<not> lands_on b pl p) ps = q # rest"
  shows "q \<in> set ps" and "lands_on b pl q"
proof -
  have "q \<in> set (dropWhile (\<lambda>p. \<not> lands_on b pl p) ps)" using assms by simp
  then show "q \<in> set ps" by (rule set_dropWhileD)
  show "lands_on b pl q" using assms by (simp add: dropWhile_eq_Cons_conv)
qed

lemma collision_ref_skip:
  "\<not> lands_on b pl p \<Longrightarrow>
     collision_ref b pl (p # ps) =
       (fst (collision_ref b pl ps), fst (snd (collision_ref b pl ps)), p # snd (snd (collision_ref b pl ps)))"
proof (cases "dropWhile (\<lambda>p. \<not> lands_on b pl p) ps")
  case Nil
  assume "\<not> lands_on b pl p"
  then show ?thesis by (simp add: collision_ref_def Nil)
next
  case (Cons q rest)
  assume "\<not> lands_on b pl p"
  then show ?thesis by (simp add: collision_ref_def Cons)
qed

lemma collision_scan_ref: "collision_scan b pl ps = collision_ref b pl ps"
proof (induction ps)
  case Nil
  then show ?case by (simp add: collision_ref_def)
next
  case (Cons p ps)
  show ?case
  proof (cases "lands_on b pl p")
    case True
    then have "near_overlap b pl p" "fst (Player_onPlatformCollision p pl)"
      by (simp_all add: lands_on_def)
    with True show ?thesis by (simp add: collision_ref_def split_def Let_def)
  next
    case False
    then have "collision_scan b pl (p # ps) =
        (fst (collision_scan b pl ps), fst (snd (collision_scan b pl ps)), p # snd (snd (collision_scan b pl ps)))"
      by (cases "near_overlap b pl p") (simp_all add: lands_on_refused split_def Let_def)
    with False show ?thesis by (simp add: Cons.IH collision_ref_skip)
  qed
qed

lemma collision_ref_True:
  assumes "collision_ref b pl ps = (True, pl', ps')"
  shows "\<exists>i < length ps. (\<forall>j < i. \<not> lands_on b pl (ps ! j)) \<and> lands_on b pl (ps ! i) \<and>
           (True, pl', ps' ! i) = Player_onPlatformCollision (ps ! i) pl \<and>
           ps' = ps[i := snd (snd (Player_onPlatformCollision (ps ! i) pl))]"
proof -
  let ?P = "\<lambda>p. \<not> lands_on b pl p"
  define xs where "xs = takeWhile ?P ps"
  obtain q rest where dw: "dropWhile ?P ps = q # rest"
    using assms by (auto simp add: collision_ref_def split: list.splits)
  have ps: "ps = xs @ q # rest"
    using takeWhile_dropWhile_id [of ?P ps] dw by (simp add: xs_def)
  have lq: "lands_on b pl q" using dw by (simp add: dropWhile_eq_Cons_conv)
  have before: "\<forall>j < length xs. \<not> lands_on b pl (ps ! j)"
  proof (intro allI impI)
    fix j assume j: "j < length xs"
    then have "xs ! j \<in> set (takeWhile ?P ps)" unfolding xs_def by (rule nth_mem)
    then have "\<not> lands_on b pl (xs ! j)" by (blast dest: set_takeWhileD)
    then show "\<not> lands_on b pl (ps ! j)" using j by (simp add: ps nth_append)
  qed
  have res: "pl' = fst (snd (Player_onPlatformCollision q pl))"
    "ps' = xs @ snd (snd (Player_onPlatformCollision q pl)) # rest"
    using assms dw by (simp_all add: collision_ref_def xs_def)
  have fstq: "fst (Player_onPlatformCollision q pl)" using lq by (simp add: lands_on_def)
  show ?thesis
  proof (intro exI [of _ "length xs"] conjI)
    show "length xs < length ps" by (simp add: ps)
    show "\<forall>j < length xs. \<not> lands_on b pl (ps ! j)" by (rule before)
    show "lands_on b pl (ps ! length xs)" using lq by (simp add: ps)
    show "(True, pl', ps' ! length xs) = Player_onPlatformCollision (ps ! length xs) pl"
      using res fstq by (simp add: ps prod_eq_iff)
    show "ps' = ps[length xs := snd (snd (Player_onPlatformCollision (ps ! length xs) pl))]"
      using res by (simp add: ps list_update_length)
  qed
qed

lemma ahead_result_frame:
  assumes "ahead_result limit pm pm' new"
  shows "pm_canvasHeight pm' = pm_canvasHeight pm" and "pm_canvasWidth pm' = pm_canvasWidth pm"
proof -
  have eq: "pm'\<lparr>pm_platforms := pm_platforms pm, pm_highestPlatformY := pm_highestPlatformY pm\<rparr> = pm"
    using assms by (simp add: ahead_result_def)
  show "pm_canvasHeight pm' = pm_canvasHeight pm" using arg_cong [OF eq, of pm_canvasHeight] by simp
  show "pm_canvasWidth pm' = pm_canvasWidth pm" using arg_cong [OF eq, of pm_canvasWidth] by simp
qed

lemma PlatformManager_update_Some:
  assumes "PlatformManager_update dt cameraY pm g = Some (pm', g')"
  obtains r where
    "generate_ahead (cameraY - pm_canvasHeight pm * 2)
       (pm\<lparr>pm_platforms := update_backward dt (pm_canvasWidth pm) cameraY (pm_canvasHeight pm)
                               (length (pm_platforms pm)) (pm_platforms pm)\<rparr>) g = Some r"
    and "top_up cameraY (fst r) (snd r) = (pm', g')"
  using assms by (auto simp add: PlatformManager_update_def split_def)

section \<open>Properties of PlatformManager.update\<close>

text \<open>Claim C8. The look-ahead loop of \<open>PlatformManager.update\<close> ends: with valid draws
  and \<open>0 < minGapY \<le> maxGapY\<close> the update returns a result for every camera position.\<close>

theorem PlatformManager_update_terminates:
  assumes "valid_rng g" and "0 < pm_minGapY pm" and "pm_minGapY pm \<le> pm_maxGapY pm"
  shows "\<exists>r. PlatformManager_update dt cameraY pm g = Some r"
proof -
  let ?pm1 = "pm\<lparr>pm_platforms := update_backward dt (pm_canvasWidth pm) cameraY (pm_canvasHeight pm)
                               (length (pm_platforms pm)) (pm_platforms pm)\<rparr>"
  have "\<exists>r. generate_ahead (cameraY - pm_canvasHeight pm * 2) ?pm1 g = Some r"
    using assms by (intro generate_ahead_terminates) simp_all
  then show ?thesis by (auto simp add: PlatformManager_update_def)
qed

theorem PlatformManager_update_terminates_witness:
  "\<exists>r. PlatformManager_update 16 (-3000)
      \<lparr>pm_canvasWidth = 400, pm_canvasHeight = 600, pm_platforms = [],
       pm_minPlatformWidth = 80, pm_maxPlatformWidth = 150, pm_platformHeight = 20,
       pm_minGapY = 70, pm_maxGapY = 110, pm_specialPlatformChance = 0.3,
       pm_highestPlatformY = 500, pm_platformDensity = 1, pm_density = 10,
       pm_minWidth = 60, pm_maxWidth = 120\<rparr> (const_rng 0.5) = Some r"
  by (rule PlatformManager_update_terminates) simp_all

text \<open>Claim C9. What one \<open>PlatformManager.update\<close> leaves: the updated platforms that
  are still active and not too far below the camera, in their order, then a run of
  generated platforms in which every consecutive gap lies in \<open>[minGapY, maxGapY]\<close>
  (starting from the old frontier), then at most two normal filler platforms inside the
  view; and the frontier is no longer above \<open>cameraY - 2 canvasHeight\<close>.\<close>

theorem PlatformManager_update_result:
  assumes "PlatformManager_update dt cameraY pm g = Some (pm', g')" and "valid_rng g"
    and "pm_minGapY pm \<le> pm_maxGapY pm" and "200 \<le> pm_canvasHeight pm"
  shows "\<exists>new fill. pm_platforms pm' =
           filter (\<lambda>p. \<not> remove_platform cameraY (pm_canvasHeight pm) p)
             (map (Platform_update dt (pm_canvasWidth pm)) (pm_platforms pm)) @ new @ fill \<and>
         gap_chain (pm_minGapY pm) (pm_maxGapY pm) (pm_highestPlatformY pm) new \<and>
         pm_highestPlatformY pm' \<le> cameraY - pm_canvasHeight pm * 2 \<and>
         length fill \<le> 2 \<and> (\<forall>p \<in> set fill. filler_in_view cameraY (pm_canvasHeight pm) p)"
proof -
  let ?pm1 = "pm\<lparr>pm_platforms := update_backward dt (pm_canvasWidth pm) cameraY (pm_canvasHeight pm)
                               (length (pm_platforms pm)) (pm_platforms pm)\<rparr>"
  obtain r where r: "generate_ahead (cameraY - pm_canvasHeight pm * 2) ?pm1 g = Some r"
    and res: "top_up cameraY (fst r) (snd r) = (pm', g')"
    using assms(1) by (rule PlatformManager_update_Some)
  obtain new where ar: "ahead_result (cameraY - pm_canvasHeight pm * 2) ?pm1 (fst r) new"
    and v: "valid_rng (snd r)"
    using generate_ahead_chain [OF r] assms(2,3) by auto
  have ch: "pm_canvasHeight (fst r) = pm_canvasHeight pm" using ahead_result_frame(1) [OF ar] by simp
  obtain fill where fill: "pm_platforms pm' = pm_platforms (fst r) @ fill" "length fill \<le> 2"
      "\<forall>p \<in> set fill. filler_in_view cameraY (pm_canvasHeight pm) p"
      "pm'\<lparr>pm_platforms := pm_platforms (fst r)\<rparr> = fst r"
    using top_up_in_view [OF v, of "fst r" cameraY] res ch assms(4) by auto
  have "pm_highestPlatformY pm' = pm_highestPlatformY (fst r)"
    using arg_cong [OF fill(4), of pm_highestPlatformY] by simp
  then show ?thesis using ar fill
    by (intro exI [of _ new] exI [of _ fill])
       (auto simp add: ahead_result_def update_backward_eq)
qed

theorem PlatformManager_update_result_witness:
  "PlatformManager_update 16 0
      \<lparr>pm_canvasWidth = 400, pm_canvasHeight = 600, pm_platforms = [],
       pm_minPlatformWidth = 80, pm_maxPlatformWidth = 150, pm_platformHeight = 20,
       pm_minGapY = 70, pm_maxGapY = 110, pm_specialPlatformChance = 0.3,
       pm_highestPlatformY = -2000, pm_platformDensity = 1, pm_density = 0,
       pm_minWidth = 60, pm_maxWidth = 120\<rparr> (const_rng 0.5) =
    Some (\<lparr>pm_canvasWidth = 400, pm_canvasHeight = 600, pm_platforms = [],
       pm_minPlatformWidth = 80, pm_maxPlatformWidth = 150, pm_platformHeight = 20,
       pm_minGapY = 70, pm_maxGapY = 110, pm_specialPlatformChance = 0.3,
       pm_highestPlatformY = -2000, pm_platformDensity = 1, pm_density = 0,
       pm_minWidth = 60, pm_maxWidth = 120\<rparr>, const_rng 0.5) \<and>
   pm_highestPlatformY (\<lparr>pm_canvasWidth = 400, pm_canvasHeight = 600, pm_platforms = [],
       pm_minPlatformWidth = 80, pm_maxPlatformWidth = 150, pm_platformHeight = 20,
       pm_minGapY = 70, pm_maxGapY = 110, pm_specialPlatformChance = 0.3,
       pm_highestPlatformY = -2000, pm_platformDensity = 1, pm_density = 0,
       pm_minWidth = 60, pm_maxWidth = 120\<rparr> :: platform_manager) \<le> 0 - 600 * 2"
proof -
  let ?pm = "\<lparr>pm_canvasWidth = 400, pm_canvasHeight = 600, pm_platforms = [],
       pm_minPlatformWidth = 80, pm_maxPlatformWidth = 150, pm_platformHeight = 20,
       pm_minGapY = 70, pm_maxGapY = 110, pm_specialPlatformChance = 0.3,
       pm_highestPlatformY = -2000, pm_platformDensity = 1, pm_density = 0,
       pm_minWidth = 60, pm_maxWidth = 120\<rparr> :: platform_manager"
  have run: "PlatformManager_update 16 0 ?pm (const_rng 0.5) = Some (?pm, const_rng 0.5)"
    by (simp add: PlatformManager_update_def generate_ahead.simps top_up_def visible_count_def)
  have "\<exists>new fill. pm_platforms ?pm =
           filter (\<lambda>p. \<not> remove_platform 0 (pm_canvasHeight ?pm) p)
             (map (Platform_update 16 (pm_canvasWidth ?pm)) (pm_platforms ?pm)) @ new @ fill \<and>
         gap_chain (pm_minGapY ?pm) (pm_maxGapY ?pm) (pm_highestPlatformY ?pm) new \<and>
         pm_highestPlatformY ?pm \<le> 0 - pm_canvasHeight ?pm * 2 \<and>
         length fill \<le> 2 \<and> (\<forall>p \<in> set fill. filler_in_view 0 (pm_canvasHeight ?pm) p)"
    by (rule PlatformManager_update_result [OF run valid_rng_half]) simp_all
  with run show ?thesis by auto
qed

text \<open>Claim C10. The backward update-and-splice loop of \<open>PlatformManager.update\<close> computes
  the platforms, each updated once, filtered by the removal test, in their original order.\<close>

theorem update_backward_is_filter_map:
  "update_backward dt cw cameraY ch (length ps) ps =
     filter (\<lambda>p. \<not> remove_platform cameraY ch p) (map (Platform_update dt cw) ps)"
  using update_backward_eq [of "length ps" ps] by simp

section \<open>Properties of PlatformManager.checkCollisions\<close>

text \<open>Claim C11. \<open>checkCollisions\<close> is skipped while the player is not falling: with a
  vertical velocity \<open>\<le> 0\<close> nothing is resolved and nothing changes.\<close>

theorem checkCollisions_skipped_when_rising:
  assumes "pl_velocityY pl \<le> 0"
  shows "PlatformManager_checkCollisions pl pm = (False, pl, pm)"
  using assms by (simp add: PlatformManager_checkCollisions_def)

theorem checkCollisions_skipped_when_rising_witness:
  "PlatformManager_checkCollisions (new_Player 170 400 60 100)
     \<lparr>pm_canvasWidth = 400, pm_canvasHeight = 600,
      pm_platforms = [fst (new_Platform 150 495 100 20 Normal (const_rng 0.5))],
      pm_minPlatformWidth = 80, pm_maxPlatformWidth = 150, pm_platformHeight = 20,
      pm_minGapY = 70, pm_maxGapY = 110, pm_specialPlatformChance = 0.3,
      pm_highestPlatformY = 495, pm_platformDensity = 1, pm_density = 10,
      pm_minWidth = 60, pm_maxWidth = 120\<rparr> =
   (False, new_Player 170 400 60 100,
     \<lparr>pm_canvasWidth = 400, pm_canvasHeight = 600,
      pm_platforms = [fst (new_Platform 150 495 100 20 Normal (const_rng 0.5))],
      pm_minPlatformWidth = 80, pm_maxPlatformWidth = 150, pm_platformHeight = 20,
      pm_minGapY = 70, pm_maxGapY = 110, pm_specialPlatformChance = 0.3,
      pm_highestPlatformY = 495, pm_platformDensity = 1, pm_density = 10,
      pm_minWidth = 60, pm_maxWidth = 120\<rparr>)"
  by (rule checkCollisions_skipped_when_rising) (simp add: new_Player_def)

text \<open>Claim C12. For a falling player, \<open>checkCollisions\<close> is the first-landing reference:
  the platforms before the first one the player lands on are left as they are, that one is
  handed to \<open>Player.onPlatformCollision\<close> and the scan stops; without a landing nothing
  changes.\<close>

theorem checkCollisions_is_first_landing:
  assumes "0 < pl_velocityY pl"
  shows "PlatformManager_checkCollisions pl pm =
    (fst (collision_ref (pl_y pl + pl_height pl) pl (pm_platforms pm)),
     fst (snd (collision_ref (pl_y pl + pl_height pl) pl (pm_platforms pm))),
     pm\<lparr>pm_platforms := snd (snd (collision_ref (pl_y pl + pl_height pl) pl (pm_platforms pm)))\<rparr>)"
  using assms by (simp add: PlatformManager_checkCollisions_def collision_scan_ref split_def Let_def)

theorem checkCollisions_is_first_landing_witness:
  "PlatformManager_checkCollisions ((new_Player 170 400 60 100)\<lparr>pl_velocityY := 5\<rparr>)
     \<lparr>pm_canvasWidth = 400, pm_canvasHeight = 600, pm_platforms = [],
      pm_minPlatformWidth = 80, pm_maxPlatformWidth = 150, pm_platformHeight = 20,
      pm_minGapY = 70, pm_maxGapY = 110, pm_specialPlatformChance = 0.3,
      pm_highestPlatformY = 495, pm_platformDensity = 1, pm_density = 10,
      pm_minWidth = 60, pm_maxWidth = 120\<rparr> =
   (False, (new_Player 170 400 60 100)\<lparr>pl_velocityY := 5\<rparr>,
     \<lparr>pm_canvasWidth = 400, pm_canvasHeight = 600, pm_platforms = [],
      pm_minPlatformWidth = 80, pm_maxPlatformWidth = 150, pm_platformHeight = 20,
      pm_minGapY = 70, pm_maxGapY = 110, pm_specialPlatformChance = 0.3,
      pm_highestPlatformY = 495, pm_platformDensity = 1, pm_density = 10,
      pm_minWidth = 60, pm_maxWidth = 120\<rparr>)"
  by (subst checkCollisions_is_first_landing) (simp_all add: collision_ref_def)

text \<open>When \<open>checkCollisions\<close> reports a collision, the player was falling and
  exactly one platform was resolved: the first one in list order that the player lands on;
  only that platform changed, and the player's vertical velocity is the jump force, times
  the bouncy factor on a bouncy platform.\<close>

theorem checkCollisions_one_landing:
  assumes "fst (PlatformManager_checkCollisions pl pm)"
  shows "0 < pl_velocityY pl \<and>
    (\<exists>i < length (pm_platforms pm).
       (\<forall>j < i. \<not> lands_on (pl_y pl + pl_height pl) pl (pm_platforms pm ! j)) \<and>
       lands_on (pl_y pl + pl_height pl) pl (pm_platforms pm ! i) \<and>
       pm_platforms (snd (snd (PlatformManager_checkCollisions pl pm))) =
         (pm_platforms pm)[i := snd (snd (Player_onPlatformCollision (pm_platforms pm ! i) pl))] \<and>
       pl_velocityY (fst (snd (PlatformManager_checkCollisions pl pm))) =
         (if p_type (pm_platforms pm ! i) = Bouncy then pl_jumpForce pl * bouncy_factor
          else pl_jumpForce pl))"
proof -
  let ?b = "pl_y pl + pl_height pl" and ?ps = "pm_platforms pm"
  have v: "0 < pl_velocityY pl"
    using assms by (cases "pl_velocityY pl \<le> 0") (simp_all add: PlatformManager_checkCollisions_def)
  obtain pl' ps' where ref: "collision_ref ?b pl ?ps = (True, pl', ps')"
    using assms v by (cases "collision_ref ?b pl ?ps")
      (auto simp add: PlatformManager_checkCollisions_def collision_scan_ref)
  have res: "fst (snd (PlatformManager_checkCollisions pl pm)) = pl'"
    "pm_platforms (snd (snd (PlatformManager_checkCollisions pl pm))) = ps'"
    using v ref by (simp_all add: PlatformManager_checkCollisions_def collision_scan_ref)
  obtain i where i: "i < length ?ps" "\<forall>j < i. \<not> lands_on ?b pl (?ps ! j)" "lands_on ?b pl (?ps ! i)"
    "(True, pl', ps' ! i) = Player_onPlatformCollision (?ps ! i) pl"
    "ps' = ?ps[i := snd (snd (Player_onPlatformCollision (?ps ! i) pl))]"
    using collision_ref_True [OF ref] by blast
  have "pl_velocityY pl' = (if p_type (?ps ! i) = Bouncy then pl_jumpForce pl * bouncy_factor
                            else pl_jumpForce pl)"
    using onPlatformCollision_velocity [of "?ps ! i" pl] i(4) by (metis fst_conv snd_conv)
  then show ?thesis using v i res by blast
qed

theorem checkCollisions_one_landing_witness:
  "pl_velocityY (fst (snd (PlatformManager_checkCollisions
      ((new_Player 170 400 60 100)\<lparr>pl_velocityY := 5\<rparr>)
      \<lparr>pm_canvasWidth = 400, pm_canvasHeight = 600,
       pm_platforms = [fst (new_Platform 150 495 100 20 Normal (const_rng 0.5))],
       pm_minPlatformWidth = 80, pm_maxPlatformWidth = 150, pm_platformHeight = 20,
       pm_minGapY = 70, pm_maxGapY = 110, pm_specialPlatformChance = 0.3,
       pm_highestPlatformY = 495, pm_platformDensity = 1, pm_density = 10,
       pm_minWidth = 60, pm_maxWidth = 120\<rparr>))) = -15"
proof -
  let ?pl = "(new_Player 170 400 60 100)\<lparr>pl_velocityY := 5\<rparr>"
  let ?pm = "\<lparr>pm_canvasWidth = 400, pm_canvasHeight = 600,
       pm_platforms = [fst (new_Platform 150 495 100 20 Normal (const_rng 0.5))],
       pm_minPlatformWidth = 80, pm_maxPlatformWidth = 150, pm_platformHeight = 20,
       pm_minGapY = 70, pm_maxGapY = 110, pm_specialPlatformChance = 0.3,
       pm_highestPlatformY = 495, pm_platformDensity = 1, pm_density = 10,
       pm_minWidth = 60, pm_maxWidth = 120\<rparr> :: platform_manager"
  have hit: "fst (PlatformManager_checkCollisions ?pl ?pm)"
    by (simp add: PlatformManager_checkCollisions_def new_Player_def near_overlap_def
        Player_onPlatformCollision_def split_def)
  from checkCollisions_one_landing [OF hit] obtain i where
    "i < 1" "pl_velocityY (fst (snd (PlatformManager_checkCollisions ?pl ?pm))) =
       (if p_type (pm_platforms ?pm ! i) = Bouncy then pl_jumpForce ?pl * bouncy_factor
        else pl_jumpForce ?pl)"
    by auto
  then show ?thesis by (simp add: new_Player_def)
qed

end
