(* ===== verification/Game.thy ===== *)
theory Game
  imports Manager
begin

text \<open>
  The \<open>Game\<close> class of \<open>src/js/auth.js\<close> (the part of the file after the
  authentication script): its state (running and game-over flags, score, high score,
  difficulty, time stamp, camera, milestone timers and the entities it owns), the score and
  difficulty ratchet (\<open>updateScore\<close>, \<open>increaseDifficulty\<close>,
  \<open>showThousandMilestone\<close>), the camera (\<open>updateCamera\<close>) and the clamped frame delta of
  \<open>gameLoop\<close>. The enemy manager is not among the sources; only the two fields the game
  writes (\<open>spawnChance\<close>, \<open>maxSpeed\<close>) and its enemy list are kept, from the spec.
\<close>

section \<open>Data\<close>

record enemy =
  e_x :: num
  e_y :: num
  e_width :: num
  e_height :: num
  e_active :: bool

record enemy_manager =
  em_enemies :: "enemy list"
  em_spawnChance :: num
  em_maxSpeed :: num

record camera =
  cam_y :: num
  cam_targetY :: num
  cam_smoothing :: num

record cloud =
  c_x :: num
  c_y :: num
  c_width :: num
  c_height :: num
  c_speed :: num

record game =
  g_canvasWidth :: num
  g_canvasHeight :: num
  g_isRunning :: bool
  g_isGameOver :: bool
  g_score :: int
  g_highScore :: int
  g_difficulty :: int
  g_lastDifficultyIncrease :: int
  g_lastTime :: num
  g_camera :: camera
  g_clouds :: "cloud list"
  g_milestoneTimers :: "int \<rightharpoonup> int"
  g_player :: player
  g_pm :: platform_manager
  g_em :: enemy_manager

section \<open>Difficulty and score\<close>

text \<open>\<open>Game.increaseDifficulty()\<close>: every parameter is a capped function of the new level.\<close>

definition increaseDifficulty :: "game \<Rightarrow> game" where
  "increaseDifficulty g0 =
     (let g = g0\<lparr>g_difficulty := g_difficulty g0 + 1, g_lastDifficultyIncrease := g_score g0\<rparr>;
          d = real_of_int (g_difficulty g) - 1;
          pl = g_player g;
          pl' = pl\<lparr>pl_gravity := min (0.5 + d * 0.05) 0.8, pl_jumpForce := max (-15 - d) (-20)\<rparr>;
          pm = g_pm g;
          wr = min (d * 10) 40;
          hr = min (d * 2) 10;
          pm' = pm\<lparr>pm_density := max (10 - min d 5) 5,
                   pm_minWidth := max (60 - wr) 20, pm_maxWidth := max (120 - wr) 60,
                   pm_platformHeight := max (20 - hr) 10\<rparr>;
          em = g_em g;
          em' = em\<lparr>em_spawnChance := min (0.2 + d * 0.05) 0.5, em_maxSpeed := min (2 + d * 0.5) 5\<rparr>;
          cam = g_camera g
      in g\<lparr>g_player := pl', g_pm := pm', g_em := em',
           g_camera := cam\<lparr>cam_smoothing := min (0.1 + d * 0.02) 0.2\<rparr>\<rparr>)"

definition showThousandMilestone :: "int \<Rightarrow> game \<Rightarrow> game" where
  "showThousandMilestone milestone g =
     g\<lparr>g_milestoneTimers := (g_milestoneTimers g)(milestone \<mapsto> 120)\<rparr>"

text \<open>\<open>Game.updateScore(newScore)\<close>; the 100-point branch only plays a sound and animates
  the DOM, so it changes no state of the model.\<close>

definition updateScore :: "int \<Rightarrow> game \<Rightarrow> game" where
  "updateScore newScore g =
     (if newScore > g_score g then
        (let g' = (if newScore div 1000 > g_score g div 1000
                   then showThousandMilestone ((newScore div 1000) * 1000) (increaseDifficulty g)
                   else g)
         in g'\<lparr>g_score := newScore\<rparr>)
      else g)"

text \<open>A run of score updates, one per frame.\<close>

fun score_run :: "int list \<Rightarrow> game \<Rightarrow> game" where
  "score_run [] g = g"
| "score_run (n # ns) g = score_run ns (updateScore n g)"

section \<open>The state effect of rendering\<close>

text \<open>What \<open>drawScore\<close> does to \<open>this.milestoneTimers\<close> besides painting: a score
  \<open>Math.floor(this.score)\<close> that is a positive multiple of 100 and has no marker gets one
  for 60 frames; then every marker still above 0 is drawn and counted down, and deleted
  when it reaches 0.\<close>

definition drawScore_tick :: "int \<Rightarrow> (int \<rightharpoonup> int) \<Rightarrow> (int \<rightharpoonup> int)" where
  "drawScore_tick score t0 =
     (let t1 = (if score > 0 \<and> score mod 100 = 0 \<and> t0 score = None then t0(score \<mapsto> 60) else t0)
      in (\<lambda>m. case t1 m of
                None \<Rightarrow> None
              | Some v \<Rightarrow> (if v > 0 then (if v - 1 \<le> 0 then None else Some (v - 1)) else Some v)))"

text \<open>The state effect of \<open>render()\<close> on the game: \<open>drawScore\<close> is the only part of it that
  writes a field of the game (the game-over screen's \<open>restartButtonBounds\<close> is in
  theory \<open>GameOver\<close>).\<close>

definition render_game :: "game \<Rightarrow> game" where
  "render_game g = g\<lparr>g_milestoneTimers := drawScore_tick (g_score g) (g_milestoneTimers g)\<rparr>"

section \<open>Camera\<close>

text \<open>\<open>Game.updateCamera(deltaTime)\<close>: target, easing, and the fall-off-screen death.\<close>

definition updateCamera :: "game \<Rightarrow> game" where
  "updateCamera g =
     (let pl = g_player g; cam = g_camera g; h = g_canvasHeight g;
          screenY = pl_y pl - cam_y cam;
          t1 = (if screenY < h * 0.67 then pl_y pl - h * 0.5 else cam_targetY cam);
          t2 = (if screenY > h * 0.8 \<and> t1 > cam_y cam then cam_y cam else t1);
          easing = (if pl_velocityY pl > 0 then 0.05 else 0.1);
          cam' = cam\<lparr>cam_targetY := t2, cam_y := ease (cam_y cam) t2 easing\<rparr>;
          pl' = (if screenY > h + 50 then pl\<lparr>pl_isAlive := False\<rparr> else pl)
      in g\<lparr>g_camera := cam', g_player := pl'\<rparr>)"

section \<open>Background\<close>

text \<open>\<open>Game.generateClouds()\<close>: ten clouds, five draws each, in the order of the
  object literal's fields.\<close>

fun generate_clouds :: "nat \<Rightarrow> game \<Rightarrow> rng \<Rightarrow> game \<times> rng" where
  "generate_clouds 0 g r = (g, r)"
| "generate_clouds (Suc n) g r =
     (let cw = g_canvasWidth g; ch = g_canvasHeight g;
          (r1, ra) = random r; (r2, rb) = random ra;
          (w, rc) = random_between 50 150 rb; (h, rd) = random_between 30 60 rc;
          (sp, re) = random_between 0.03 0.1 rd;
          c = \<lparr>c_x = r1 * cw, c_y = r2 * ch * 2 - ch, c_width = w, c_height = h, c_speed = sp\<rparr>
      in generate_clouds n (g\<lparr>g_clouds := g_clouds g @ [c]\<rparr>) re)"

definition generateClouds :: "game \<Rightarrow> rng \<Rightarrow> game \<times> rng" where
  "generateClouds g r = generate_clouds 10 g r"

definition move_cloud :: "num \<Rightarrow> cloud \<Rightarrow> cloud" where
  "move_cloud cw c =
     (let x = c_x c + c_speed c * 0.1 in
      if x > cw then c\<lparr>c_x := - c_width c\<rparr> else c\<lparr>c_x := x\<rparr>)"

text \<open>\<open>Game.updateBackground(deltaTime)\<close>: move and wrap every cloud, then add one
  above the camera while there are fewer than ten.\<close>

definition updateBackground :: "game \<Rightarrow> rng \<Rightarrow> game \<times> rng" where
  "updateBackground g r =
     (let cw = g_canvasWidth g; ch = g_canvasHeight g;
          cs = map (move_cloud cw) (g_clouds g)
      in if length cs < 10 then
           (let (x, ra) = random_between (-50) cw r; (w, rb) = random_between 50 150 ra;
                (h, rc) = random_between 30 60 rb; (sp, rd) = random_between 0.03 0.1 rc;
                c = \<lparr>c_x = x, c_y = - ch - cam_y (g_camera g), c_width = w, c_height = h,
                     c_speed = sp\<rparr>
            in (g\<lparr>g_clouds := cs @ [c]\<rparr>, rd))
         else (g\<lparr>g_clouds := cs\<rparr>, r))"

section \<open>Frame time\<close>

text \<open>The delta of \<open>gameLoop(currentTime = 0)\<close>: the difference to the last time stamp,
  capped above at 50 ms; the time stamp is advanced.\<close>

definition safe_delta :: "num \<Rightarrow> game \<Rightarrow> num" where
  "safe_delta currentTime g = min (currentTime - g_lastTime g) 50"

section \<open>Construction\<close>

text \<open>\<open>new EnemyManager(w, h)\<close>: not in the sources; the level-1 values of
  \<open>increaseDifficulty\<close> are taken as its initial values.\<close>

definition new_EnemyManager :: enemy_manager where
  "new_EnemyManager = \<lparr>em_enemies = [], em_spawnChance = 0.2, em_maxSpeed = 2\<rparr>"

text \<open>\<open>Game.initEntities()\<close>: player, platform manager (15 initial platforms), enemy
  manager, and the starting platform under the player.\<close>

definition initEntities :: "game \<Rightarrow> rng \<Rightarrow> game \<times> rng" where
  "initEntities g g0 =
     (let cw = g_canvasWidth g; ch = g_canvasHeight g;
          pl = new_Player (cw / 2 - 30) (ch - 150) 60 100;
          (pm, g1) = new_PlatformManager cw ch 15 g0;
          (sp, g2) = new_Platform (cw / 2 - 40) (ch - 40) 80
                       (if pm_platformHeight pm = 0 then 20 else pm_platformHeight pm) Normal g1
      in (g\<lparr>g_player := pl, g_pm := pm\<lparr>pm_platforms := pm_platforms pm @ [sp]\<rparr>,
            g_em := new_EnemyManager\<rparr>, g2))"

text \<open>\<open>new Game(canvas)\<close>, with the canvas size and the stored high score as inputs:
  the fields, \<open>initEntities()\<close>, then \<open>generateClouds()\<close>.\<close>

definition new_Game :: "num \<Rightarrow> num \<Rightarrow> int \<Rightarrow> rng \<Rightarrow> game \<times> rng" where
  "new_Game cw ch storedHighScore g0 =
     (case initEntities
       \<lparr>g_canvasWidth = cw, g_canvasHeight = ch, g_isRunning = False, g_isGameOver = False,
        g_score = 0, g_highScore = storedHighScore, g_difficulty = 1,
        g_lastDifficultyIncrease = 0, g_lastTime = 0,
        g_camera = \<lparr>cam_y = 0, cam_targetY = 0, cam_smoothing = 0.1\<rparr>, g_clouds = [],
        g_milestoneTimers = Map.empty,
        g_player = new_Player (cw / 2 - 30) (ch - 150) 60 100,
        g_pm = fst (new_PlatformManager cw ch 15 g0), g_em = new_EnemyManager\<rparr> g0 of
      (g1, r1) \<Rightarrow> generateClouds g1 r1)"

section \<open>Session control\<close>

definition Game_start :: "num \<Rightarrow> game \<Rightarrow> game" where
  "Game_start now g =
     (if g_isRunning g then g else g\<lparr>g_isRunning := True, g_isGameOver := False, g_lastTime := now\<rparr>)"

text \<open>The difficulty invariant: the level starts at 1 and is never above one more than
  the number of thousands in the score.\<close>

definition difficulty_inv :: "game \<Rightarrow> bool" where
  "difficulty_inv g \<longleftrightarrow> 1 \<le> g_difficulty g \<and> g_difficulty g \<le> 1 + g_score g div 1000"

section \<open>Lemmas: construction\<close>

lemma initEntities_frame [simp]:
  "g_score (fst (initEntities g r)) = g_score g"
  "g_difficulty (fst (initEntities g r)) = g_difficulty g"
  "g_isRunning (fst (initEntities g r)) = g_isRunning g"
  "g_isGameOver (fst (initEntities g r)) = g_isGameOver g"
  "g_lastTime (fst (initEntities g r)) = g_lastTime g"
  "g_camera (fst (initEntities g r)) = g_camera g"
  "g_highScore (fst (initEntities g r)) = g_highScore g"
  "g_canvasWidth (fst (initEntities g r)) = g_canvasWidth g"
  "g_canvasHeight (fst (initEntities g r)) = g_canvasHeight g"
  "g_milestoneTimers (fst (initEntities g r)) = g_milestoneTimers g"
  "g_clouds (fst (initEntities g r)) = g_clouds g"
  by (simp_all add: initEntities_def Let_def split_def)

lemma generate_clouds_frame:
  "fst (generate_clouds n g r) = g\<lparr>g_clouds := g_clouds (fst (generate_clouds n g r))\<rparr>"
proof (induction n arbitrary: g r)
  case (Suc n)
  show ?case by (simp add: Let_def split_def, subst Suc.IH, simp)
qed simp

lemma generate_clouds_length:
  "length (g_clouds (fst (generate_clouds n g r))) = length (g_clouds g) + n"
  by (induction n arbitrary: g r) (simp_all add: Let_def split_def)

lemma generateClouds_length:
  "length (g_clouds (fst (generateClouds g r))) = length (g_clouds g) + 10"
  by (simp add: generateClouds_def generate_clouds_length)

lemma generateClouds_fields [simp]:
  "g_score (fst (generateClouds g r)) = g_score g"
  "g_difficulty (fst (generateClouds g r)) = g_difficulty g"
  "g_isRunning (fst (generateClouds g r)) = g_isRunning g"
  "g_isGameOver (fst (generateClouds g r)) = g_isGameOver g"
  "g_lastTime (fst (generateClouds g r)) = g_lastTime g"
  "g_highScore (fst (generateClouds g r)) = g_highScore g"
  "g_camera (fst (generateClouds g r)) = g_camera g"
  "g_canvasHeight (fst (generateClouds g r)) = g_canvasHeight g"
  "g_canvasWidth (fst (generateClouds g r)) = g_canvasWidth g"
  "g_milestoneTimers (fst (generateClouds g r)) = g_milestoneTimers g"
  "g_player (fst (generateClouds g r)) = g_player g"
  "g_pm (fst (generateClouds g r)) = g_pm g"
  "g_em (fst (generateClouds g r)) = g_em g"
  unfolding generateClouds_def by (subst generate_clouds_frame, simp)+

lemma new_Game_fields [simp]:
  "g_score (fst (new_Game cw ch hs r)) = 0"
  "g_difficulty (fst (new_Game cw ch hs r)) = 1"
  "g_isRunning (fst (new_Game cw ch hs r)) = False"
  "g_isGameOver (fst (new_Game cw ch hs r)) = False"
  "g_lastTime (fst (new_Game cw ch hs r)) = 0"
  "g_highScore (fst (new_Game cw ch hs r)) = hs"
  "g_camera (fst (new_Game cw ch hs r)) = \<lparr>cam_y = 0, cam_targetY = 0, cam_smoothing = 0.1\<rparr>"
  "g_canvasHeight (fst (new_Game cw ch hs r)) = ch"
  "g_canvasWidth (fst (new_Game cw ch hs r)) = cw"
  "length (g_clouds (fst (new_Game cw ch hs r))) = 10"
  by (simp_all add: new_Game_def split_def generateClouds_length)

section \<open>Lemmas: score and difficulty\<close>

lemma increaseDifficulty_frame [simp]:
  "g_score (increaseDifficulty g) = g_score g"
  "g_difficulty (increaseDifficulty g) = g_difficulty g + 1"
  "g_isRunning (increaseDifficulty g) = g_isRunning g"
  "g_isGameOver (increaseDifficulty g) = g_isGameOver g"
  "pm_minGapY (g_pm (increaseDifficulty g)) = pm_minGapY (g_pm g)"
  "pm_maxGapY (g_pm (increaseDifficulty g)) = pm_maxGapY (g_pm g)"
  "pm_platforms (g_pm (increaseDifficulty g)) = pm_platforms (g_pm g)"
  "pm_canvasWidth (g_pm (increaseDifficulty g)) = pm_canvasWidth (g_pm g)"
  "cam_y (g_camera (increaseDifficulty g)) = cam_y (g_camera g)"
  by (simp_all add: increaseDifficulty_def Let_def)

lemma showThousandMilestone_frame [simp]:
  "g_score (showThousandMilestone m g) = g_score g"
  "g_difficulty (showThousandMilestone m g) = g_difficulty g"
  by (simp_all add: showThousandMilestone_def)

lemma render_game_frame [simp]:
  "g_canvasWidth (render_game g) = g_canvasWidth g" "g_canvasHeight (render_game g) = g_canvasHeight g"
  "g_isRunning (render_game g) = g_isRunning g" "g_isGameOver (render_game g) = g_isGameOver g"
  "g_score (render_game g) = g_score g" "g_highScore (render_game g) = g_highScore g"
  "g_difficulty (render_game g) = g_difficulty g"
  "g_lastDifficultyIncrease (render_game g) = g_lastDifficultyIncrease g"
  "g_lastTime (render_game g) = g_lastTime g" "g_camera (render_game g) = g_camera g"
  "g_clouds (render_game g) = g_clouds g" "g_player (render_game g) = g_player g"
  "g_pm (render_game g) = g_pm g" "g_em (render_game g) = g_em g"
  by (simp_all add: render_game_def)

lemma updateScore_score: "g_score (updateScore n g) = max (g_score g) n"
  by (simp add: updateScore_def Let_def)

lemma updateScore_difficulty:
  "g_difficulty (updateScore n g) =
     g_difficulty g + (if n > g_score g \<and> n div 1000 > g_score g div 1000 then 1 else 0)"
  by (simp add: updateScore_def Let_def)

lemma div_1000_mono: "(a::int) \<le> b \<Longrightarrow> a div 1000 \<le> b div 1000"
  by (simp add: zdiv_mono1)

lemma updateScore_difficulty_inv:
  "difficulty_inv g \<Longrightarrow> difficulty_inv (updateScore n g)"
proof -
  assume inv: "difficulty_inv g"
  have "g_score g div 1000 \<le> max (g_score g) n div 1000" by (intro div_1000_mono) simp
  then show ?thesis using inv
    by (auto simp add: difficulty_inv_def updateScore_difficulty updateScore_score)
qed

section \<open>Properties of the score and the difficulty\<close>

text \<open>Claim C13. The score after any run of \<open>updateScore\<close> calls is the peak of the
  starting score and all scores passed in: it never decreases.\<close>

theorem score_run_is_peak:
  "g_score (score_run ns g) = Max (insert (g_score g) (set ns))"
proof (induction ns arbitrary: g)
  case Nil
  then show ?case by simp
next
  case (Cons n ns)
  have "insert (max (g_score g) n) (set ns) \<subseteq> insert (g_score g) (insert n (set ns))"
    by (auto simp add: max_def)
  then show ?case using Cons.IH [of "updateScore n g"]
    by (cases "ns = []") (simp_all add: updateScore_score Max_insert max.assoc max.left_commute)
qed

text \<open>Every \<open>updateScore\<close> raises the difficulty by at most one, and the level
  stays between 1 and one more than the thousands of the score over any run of updates.\<close>

theorem score_run_difficulty:
  assumes "difficulty_inv g"
  shows "difficulty_inv (score_run ns g) \<and>
         g_difficulty (updateScore n g) \<le> g_difficulty g + 1"
proof -
  have "difficulty_inv (score_run ns g)" using assms
    by (induction ns arbitrary: g) (simp_all add: updateScore_difficulty_inv)
  then show ?thesis by (simp add: updateScore_difficulty)
qed

theorem score_run_difficulty_witness:
  "difficulty_inv (score_run [120, 1500, 2400] (fst (new_Game 400 600 0 (const_rng 0.5))))"
proof -
  have "difficulty_inv (fst (new_Game 400 600 0 (const_rng 0.5)))"
    by (simp add: difficulty_inv_def)
  from score_run_difficulty [OF this, of "[120, 1500, 2400]" 0] show ?thesis by simp
qed

text \<open>Claim C14. One score update raises the difficulty by one level however many
  thousand-boundaries it crosses: the lag of the level behind one more than the thousands
  of the score grows by the number of boundaries crossed minus one, so a jump over two or
  more boundaries (as the score computed from the peak height can make) leaves the level
  behind for the rest of the run.\<close>

theorem updateScore_skips_a_level:
  assumes "g_score g div 1000 < n div 1000"
  shows "g_difficulty (updateScore n g) = g_difficulty g + 1 \<and>
         (1 + g_score (updateScore n g) div 1000) - g_difficulty (updateScore n g) =
           ((1 + g_score g div 1000) - g_difficulty g) + (n div 1000 - g_score g div 1000 - 1)"
proof -
  have "g_score g < n" using assms by (metis div_1000_mono not_le)
  then show ?thesis using assms by (simp add: updateScore_difficulty updateScore_score)
qed

theorem updateScore_skips_a_level_witness:
  "g_difficulty (updateScore 2000 ((fst (new_Game 400 600 0 (const_rng 0.5)))\<lparr>g_score := 999\<rparr>)) = 2 \<and>
   1 + g_score (updateScore 2000 ((fst (new_Game 400 600 0 (const_rng 0.5)))\<lparr>g_score := 999\<rparr>)) div 1000 = 3"
  using updateScore_skips_a_level [of "(fst (new_Game 400 600 0 (const_rng 0.5)))\<lparr>g_score := 999\<rparr>" 2000]
  by simp

section \<open>Properties of the score markers\<close>

lemma drawScore_tick_at_score:
  assumes "0 < score" and "score mod 100 = 0"
  shows "drawScore_tick score t score =
           (case t score of None \<Rightarrow> Some 59
            | Some v \<Rightarrow> (if v > 0 then (if v \<le> 1 then None else Some (v - 1)) else Some v))"
  using assms by (cases "t score") (simp_all add: drawScore_tick_def)

lemma render_game_timers: "g_milestoneTimers (render_game h) = drawScore_tick (g_score h) (g_milestoneTimers h)"
  by (simp add: render_game_def)

lemma render_game_funpow_score [simp]: "g_score ((render_game ^^ n) g) = g_score g"
  by (induction n) simp_all

text \<open>Claim C15. The score marker of \<open>drawScore\<close> does not expire while the score stays
  at a multiple of 100: it is set for 60 frames, deleted when it runs out, and set again at
  the next render because \<open>milestoneTimers[score]\<close> is undefined again, so over any number
  \<open>n\<close> of renders it is absent only every 60th frame.\<close>

theorem milestone_marker_repeats:
  assumes "0 < g_score g" and "g_score g mod 100 = 0" and "g_milestoneTimers g (g_score g) = None"
  shows "g_milestoneTimers ((render_game ^^ n) g) (g_score g) =
           (if n mod 60 = 0 then None else Some (60 - int (n mod 60)))"
proof (induction n)
  case 0
  then show ?case using assms(3) by simp
next
  case (Suc n)
  have "g_milestoneTimers ((render_game ^^ Suc n) g) (g_score g) =
          drawScore_tick (g_score g) (g_milestoneTimers ((render_game ^^ n) g)) (g_score g)"
    by (simp only: funpow.simps(2) comp_apply render_game_timers render_game_funpow_score)
  moreover have "n mod 60 < 60" by simp
  ultimately show ?case
    using Suc.IH drawScore_tick_at_score [OF assms(1,2)] by (auto simp: mod_Suc)
qed

theorem milestone_marker_repeats_witness:
  "g_milestoneTimers ((render_game ^^ 61)
      ((fst (new_Game 400 600 0 (const_rng 0.5)))\<lparr>g_score := 300, g_milestoneTimers := Map.empty\<rparr>)) 300 =
   Some 59"
  using milestone_marker_repeats [of "(fst (new_Game 400 600 0 (const_rng 0.5)))\<lparr>g_score := 300,
      g_milestoneTimers := Map.empty\<rparr>" 61]
  by simp

section \<open>Properties of the difficulty parameters\<close>

lemma increaseDifficulty_params:
  "pm_minWidth (g_pm (increaseDifficulty g)) = max (60 - min (real_of_int (g_difficulty g) * 10) 40) 20"
  "pm_maxWidth (g_pm (increaseDifficulty g)) = max (120 - min (real_of_int (g_difficulty g) * 10) 40) 60"
  "pm_platformHeight (g_pm (increaseDifficulty g)) = max (20 - min (real_of_int (g_difficulty g) * 2) 10) 10"
  "pm_density (g_pm (increaseDifficulty g)) = max (10 - min (real_of_int (g_difficulty g)) 5) 5"
  "pl_gravity (g_player (increaseDifficulty g)) = min (0.5 + real_of_int (g_difficulty g) * 0.05) 0.8"
  "pl_jumpForce (g_player (increaseDifficulty g)) = max (-15 - real_of_int (g_difficulty g)) (-20)"
  "em_spawnChance (g_em (increaseDifficulty g)) = min (0.2 + real_of_int (g_difficulty g) * 0.05) 0.5"
  "em_maxSpeed (g_em (increaseDifficulty g)) = min (2 + real_of_int (g_difficulty g) * 0.5) 5"
  "cam_smoothing (g_camera (increaseDifficulty g)) = min (0.1 + real_of_int (g_difficulty g) * 0.02) 0.2"
  by (simp_all add: increaseDifficulty_def Let_def)

text \<open>Claim C16. From any level \<open>\<ge> 0\<close>, \<open>increaseDifficulty\<close> leaves parameters inside
  their caps that keep the generator well-formed: \<open>20 \<le> minWidth < maxWidth \<le> 120\<close>,
  platform height in \<open>[10, 20]\<close>, density in \<open>[5, 10]\<close>, gravity in \<open>[0.5, 0.8]\<close>,
  jump force in \<open>[-20, -15]\<close>; the gap bounds \<open>minGapY\<close>, \<open>maxGapY\<close> are left as
  they were.\<close>

theorem increaseDifficulty_bounds:
  assumes "0 \<le> g_difficulty g"
  shows "20 \<le> pm_minWidth (g_pm (increaseDifficulty g)) \<and>
         pm_minWidth (g_pm (increaseDifficulty g)) < pm_maxWidth (g_pm (increaseDifficulty g)) \<and>
         pm_maxWidth (g_pm (increaseDifficulty g)) \<le> 120 \<and>
         10 \<le> pm_platformHeight (g_pm (increaseDifficulty g)) \<and>
         pm_platformHeight (g_pm (increaseDifficulty g)) \<le> 20 \<and>
         5 \<le> pm_density (g_pm (increaseDifficulty g)) \<and> pm_density (g_pm (increaseDifficulty g)) \<le> 10 \<and>
         0.5 \<le> pl_gravity (g_player (increaseDifficulty g)) \<and>
         pl_gravity (g_player (increaseDifficulty g)) \<le> 0.8 \<and>
         -20 \<le> pl_jumpForce (g_player (increaseDifficulty g)) \<and>
         pl_jumpForce (g_player (increaseDifficulty g)) \<le> -15 \<and>
         pm_minGapY (g_pm (increaseDifficulty g)) = pm_minGapY (g_pm g) \<and>
         pm_maxGapY (g_pm (increaseDifficulty g)) = pm_maxGapY (g_pm g)"
  using assms by (simp add: increaseDifficulty_params min_def max_def)

theorem increaseDifficulty_bounds_witness:
  "pm_minWidth (g_pm (increaseDifficulty (fst (new_Game 400 600 0 (const_rng 0.5))))) \<ge> 20"
  using increaseDifficulty_bounds [of "fst (new_Game 400 600 0 (const_rng 0.5))"] by simp

text \<open>The difficulty adjustments are one-way ratchets: a second
  \<open>increaseDifficulty\<close> never widens platforms, never raises their height or the density,
  and never lowers gravity, the jump strength, the enemy spawn chance or speed, or the
  camera smoothing, whatever the level.\<close>

theorem increaseDifficulty_ratchet:
  shows "pm_minWidth (g_pm (increaseDifficulty (increaseDifficulty g))) \<le> pm_minWidth (g_pm (increaseDifficulty g)) \<and>
    pm_maxWidth (g_pm (increaseDifficulty (increaseDifficulty g))) \<le> pm_maxWidth (g_pm (increaseDifficulty g)) \<and>
    pm_platformHeight (g_pm (increaseDifficulty (increaseDifficulty g))) \<le> pm_platformHeight (g_pm (increaseDifficulty g)) \<and>
    pm_density (g_pm (increaseDifficulty (increaseDifficulty g))) \<le> pm_density (g_pm (increaseDifficulty g)) \<and>
    pl_gravity (g_player (increaseDifficulty g)) \<le> pl_gravity (g_player (increaseDifficulty (increaseDifficulty g))) \<and>
    pl_jumpForce (g_player (increaseDifficulty (increaseDifficulty g))) \<le> pl_jumpForce (g_player (increaseDifficulty g)) \<and>
    em_spawnChance (g_em (increaseDifficulty g)) \<le> em_spawnChance (g_em (increaseDifficulty (increaseDifficulty g))) \<and>
    em_maxSpeed (g_em (increaseDifficulty g)) \<le> em_maxSpeed (g_em (increaseDifficulty (increaseDifficulty g))) \<and>
    cam_smoothing (g_camera (increaseDifficulty g)) \<le> cam_smoothing (g_camera (increaseDifficulty (increaseDifficulty g)))"
  unfolding increaseDifficulty_params increaseDifficulty_frame
  by (intro conjI min.mono max.mono diff_left_mono; simp)

section \<open>Properties of the camera\<close>

lemma updateCamera_cam_y:
  "cam_y (g_camera (updateCamera g)) =
     ease (cam_y (g_camera g)) (cam_targetY (g_camera (updateCamera g)))
       (if pl_velocityY (g_player g) > 0 then 0.05 else 0.1)"
  by (simp add: updateCamera_def Let_def)

text \<open>Claim C17. \<open>updateCamera\<close> eases towards its new target without overshooting it, and
  while the player is in the bottom fifth of the screen the camera never scrolls down
  (towards larger y).\<close>

theorem updateCamera_no_overshoot:
  assumes "0 < g_canvasHeight g"
  shows "min (cam_y (g_camera g)) (cam_targetY (g_camera (updateCamera g))) \<le> cam_y (g_camera (updateCamera g)) \<and>
         cam_y (g_camera (updateCamera g)) \<le> max (cam_y (g_camera g)) (cam_targetY (g_camera (updateCamera g))) \<and>
         (pl_y (g_player g) - cam_y (g_camera g) > g_canvasHeight g * 0.8 \<longrightarrow>
            cam_y (g_camera (updateCamera g)) \<le> cam_y (g_camera g))"
proof -
  let ?f = "if pl_velocityY (g_player g) > 0 then 0.05 else (0.1::real)"
  have f: "0 \<le> ?f" "?f \<le> 1" by simp_all
  have b: "min (cam_y (g_camera g)) (cam_targetY (g_camera (updateCamera g))) \<le> cam_y (g_camera (updateCamera g)) \<and>
         cam_y (g_camera (updateCamera g)) \<le> max (cam_y (g_camera g)) (cam_targetY (g_camera (updateCamera g)))"
    using ease_between [OF f] by (simp add: updateCamera_cam_y)
  moreover have "pl_y (g_player g) - cam_y (g_camera g) > g_canvasHeight g * 0.8 \<Longrightarrow>
      cam_targetY (g_camera (updateCamera g)) \<le> cam_y (g_camera g)"
    using assms by (auto simp add: updateCamera_def Let_def)
  ultimately show ?thesis by auto
qed

theorem updateCamera_no_overshoot_witness:
  "cam_y (g_camera (updateCamera (fst (new_Game 400 600 0 (const_rng 0.5))))) \<le>
     max 0 (cam_targetY (g_camera (updateCamera (fst (new_Game 400 600 0 (const_rng 0.5))))))"
  using updateCamera_no_overshoot [of "fst (new_Game 400 600 0 (const_rng 0.5))"] by simp

section \<open>Properties of the frame delta\<close>

text \<open>\<open>gameLoop\<close> caps the delta only from above: \<open>start()\<close> stores
  \<open>performance.now()\<close> and then calls \<open>gameLoop()\<close> with the default
  \<open>currentTime = 0\<close>, so the first frame after a start runs with the negative delta
  \<open>-now\<close>.\<close>

theorem first_frame_negative_delta:
  assumes "\<not> g_isRunning g" and "0 < now"
  shows "safe_delta 0 (Game_start now g) = - now \<and> safe_delta 0 (Game_start now g) < 0"
  using assms by (simp add: safe_delta_def Game_start_def)

theorem first_frame_negative_delta_witness:
  "safe_delta 0 (Game_start 1000 (fst (new_Game 400 600 0 (const_rng 0.5)))) = -1000"
  using first_frame_negative_delta [of "fst (new_Game 400 600 0 (const_rng 0.5))" 1000] by simp

section \<open>Properties of the background\<close>

lemma updateBackground_full:
  "\<not> length (g_clouds g) < 10 \<Longrightarrow>
     updateBackground g r = (g\<lparr>g_clouds := map (move_cloud (g_canvasWidth g)) (g_clouds g)\<rparr>, r)"
  by (simp add: updateBackground_def Let_def)

lemma move_cloud_y [simp]: "c_y (move_cloud cw c) = c_y c"
  by (simp add: move_cloud_def Let_def)

text \<open>Claim C18. The cloud layer is static: a new game has ten clouds, so the branch
  of \<open>updateBackground\<close> that adds clouds above the rising camera is never taken; every
  call keeps ten clouds at their heights and draws nothing.\<close>

theorem updateBackground_static:
  assumes "length (g_clouds g) = 10"
  shows "length (g_clouds (fst (updateBackground g r))) = 10 \<and>
         map c_y (g_clouds (fst (updateBackground g r))) = map c_y (g_clouds g) \<and>
         snd (updateBackground g r) = r"
  using assms by (simp add: updateBackground_full comp_def)

theorem updateBackground_static_witness:
  "length (g_clouds (fst (updateBackground (fst (new_Game 400 600 0 (const_rng 0.5))) (const_rng 0.5)))) = 10"
  using updateBackground_static [of "fst (new_Game 400 600 0 (const_rng 0.5))" "const_rng 0.5"] by simp

end
