(* ===== verification/Session.thy ===== *)
theory Session
  imports Game
begin

text \<open>
  The frame loop and the session control of \<open>Game\<close> in \<open>src/js/auth.js\<close>: one
  \<open>Game.update(deltaTime)\<close> composed of its calls in the code's order, \<open>gameLoop\<close>,
  \<open>stop\<close>, \<open>gameOver\<close> (with the write of the high score to \<open>localStorage\<close>),
  \<open>restart\<close>, \<open>pauseGame\<close>, \<open>resumeGame\<close> and the pause-button handler of
  \<open>setupControlButtons\<close>. The mutable world of a session is a record of the game, the
  source of random draws and the stored high score; the host's events (a call of
  \<open>start()\<close>, an animation frame, a click) form a step relation whose reachable worlds
  are characterised by rule induction. An abstract machine over the phases idle, running
  and over (\<open>spec_step\<close>, the machine of section 4.4 of the specification) states what the
  session promises; \<open>phase_of\<close> reads the phase off the flags \<open>isRunning\<close>/\<open>isGameOver\<close>,
  and every concrete step is a step of it or one of the steps the code adds
  (\<open>code_extension\<close>).
\<close>

section \<open>World\<close>

record world =
  w_game :: game
  w_rng :: rng
  w_stored :: int

section \<open>Patches of Game.update\<close>

text \<open>The score 300--310 repositioning at the start of \<open>Game.update\<close>: a player off
  the screen is put in its middle over a new safe platform, and the enemies on the screen
  are removed. \<open>isNaN\<close> is never true of a real number.\<close>

definition fix_300 :: "game \<Rightarrow> rng \<Rightarrow> game \<times> rng" where
  "fix_300 g r =
     (let pl = g_player g; cy = cam_y (g_camera g); h = g_canvasHeight g; screenY = pl_y pl - cy
      in if 300 \<le> g_score g \<and> g_score g \<le> 310 \<and> (screenY < 0 \<or> screenY > h) then
           (let pl' = pl\<lparr>pl_y := cy + h * 0.5, pl_velocityY := -5\<rparr>;
                (sp, r1) = new_Platform (g_canvasWidth g / 2 - 75) (pl_y pl' + pl_height pl' + 20)
                             150 (pm_platformHeight (g_pm g)) Normal r;
                pm = g_pm g; em = g_em g
            in (g\<lparr>g_player := pl', g_pm := pm\<lparr>pm_platforms := pm_platforms pm @ [sp]\<rparr>,
                  g_em := em\<lparr>em_enemies := filter (\<lambda>e. e_y e - cy < 0 \<or> e_y e - cy > h)
                                             (em_enemies em)\<rparr>\<rparr>, r1))
         else (g, r))"

text \<open>\<open>Game.recoverPlayerIfNeeded()\<close>: re-centre a player far off the sides; a player far
  off the screen vertically dies. The NaN branch is not modelled (reals are never NaN).\<close>

definition recoverPlayerIfNeeded :: "game \<Rightarrow> game" where
  "recoverPlayerIfNeeded g =
     (let pl = g_player g; cw = g_canvasWidth g; h = g_canvasHeight g;
          pl1 = (if pl_x pl < - pl_width pl * 2 \<or> pl_x pl > cw + pl_width pl * 2
                 then pl\<lparr>pl_x := cw / 2 - pl_width pl / 2\<rparr> else pl);
          screenY = pl_y pl1 - cam_y (g_camera g)
      in if screenY < - h \<or> screenY > h * 2 then g\<lparr>g_player := pl1\<lparr>pl_isAlive := False\<rparr>\<rparr>
         else g\<lparr>g_player := pl1\<rparr>)"

text \<open>\<open>Game.forcePlayerVisibility()\<close>, called when the score is exactly 300.\<close>

definition forcePlayerVisibility :: "game \<Rightarrow> rng \<Rightarrow> game \<times> rng" where
  "forcePlayerVisibility g r =
     (let pl = g_player g; cy = cam_y (g_camera g); h = g_canvasHeight g; screenY = pl_y pl - cy
      in if screenY < 50 \<or> screenY > h - 50 then
           (let pl' = pl\<lparr>pl_y := cy + h * 0.7, pl_velocityY := pl_jumpForce pl * 0.5\<rparr>;
                (sp, r1) = new_Platform (g_canvasWidth g / 2 - 75) (pl_y pl' + pl_height pl' + 20)
                             150 (pm_platformHeight (g_pm g)) Normal r;
                pm = g_pm g
            in (g\<lparr>g_player := pl', g_pm := pm\<lparr>pm_platforms := pm_platforms pm @ [sp]\<rparr>\<rparr>, r1))
         else (g, r))"

section \<open>Session control\<close>

definition Game_stop :: "game \<Rightarrow> game" where
  "Game_stop g = g\<lparr>g_isRunning := False\<rparr>"

text \<open>\<open>Game.gameOver()\<close>: set the flag, stop, raise and store the high score, and render. The
  listeners it adds lead to \<open>restart\<close>, an event of the step relation below.\<close>

definition Game_gameOver :: "world \<Rightarrow> world" where
  "Game_gameOver w =
     (let g = Game_stop ((w_game w)\<lparr>g_isGameOver := True\<rparr>);
          w1 = (if g_score g > g_highScore g
                then w\<lparr>w_game := g\<lparr>g_highScore := g_score g\<rparr>, w_stored := g_score g\<rparr>
                else w\<lparr>w_game := g\<rparr>)
      in w1\<lparr>w_game := render_game (w_game w1)\<rparr>)"

section \<open>One frame\<close>

text \<open>\<open>Game.update(deltaTime)\<close>, in the order of the code. The enemy and power-up
  managers are not among the sources: their updates and collision tests are the identity
  here. The look-ahead loop of the platform manager may in principle run for ever, so a
  frame is an option.\<close>

definition Game_update :: "num \<Rightarrow> world \<Rightarrow> world option" where
  "Game_update dt w =
     (let g = w_game w in
      if g_isGameOver g then Some w else
      (let (g1, r1) = fix_300 g (w_rng w);
           g2 = recoverPlayerIfNeeded g1;
           g3 = g2\<lparr>g_player := Player_update (g_canvasWidth g2) (g_player g2)\<rparr>
       in if \<not> pl_isAlive (g_player g3) then Some (Game_gameOver (w\<lparr>w_game := g3, w_rng := r1\<rparr>))
          else
          (let g4 = updateCamera g3 in
           case PlatformManager_update dt (cam_y (g_camera g4)) (g_pm g4) r1 of
             None \<Rightarrow> None
           | Some (pm5, r2) \<Rightarrow>
               (let (_, pl6, pm6) = PlatformManager_checkCollisions (g_player g4) pm5;
                    g6 = g4\<lparr>g_player := pl6, g_pm := pm6\<rparr>;
                    (g7, r3) = updateBackground g6 r2;
                    g8 = updateScore (floor (\<bar>cam_y (g_camera g7)\<bar> / 10)) g7;
                    (g9, r4) = (if g_score g8 = 300 then forcePlayerVisibility g8 r3 else (g8, r3))
                in Some (w\<lparr>w_game := g9, w_rng := r4\<rparr>)))))"

text \<open>\<open>Game.gameLoop(currentTime)\<close>: nothing when not running; otherwise the clamped
  delta, the update, and the draw of \<open>Math.random() < 0.001\<close> for the status log.\<close>

definition gameLoop :: "num \<Rightarrow> world \<Rightarrow> world option" where
  "gameLoop currentTime w =
     (let g = w_game w in
      if \<not> g_isRunning g then Some w else
      (let dt = safe_delta currentTime g in
       case Game_update dt (w\<lparr>w_game := g\<lparr>g_lastTime := currentTime\<rparr>\<rparr>) of
         None \<Rightarrow> None
       | Some w' \<Rightarrow> Some (w'\<lparr>w_game := render_game (w_game w'), w_rng := snd (random (w_rng w'))\<rparr>)))"

text \<open>\<open>Game.start()\<close>: ignored while running; then the first frame with
  \<open>currentTime = 0\<close>.\<close>

definition start_world :: "num \<Rightarrow> world \<Rightarrow> world option" where
  "start_world now w =
     (if g_isRunning (w_game w) then Some w
      else gameLoop 0 (w\<lparr>w_game := Game_start now (w_game w)\<rparr>))"

text \<open>The resets of \<open>Game.restart()\<close> before its call of \<open>gameLoop()\<close>.\<close>

definition restart_state :: "num \<Rightarrow> world \<Rightarrow> world" where
  "restart_state now w =
     (let g = w_game w;
          g1 = updateScore 0 (g\<lparr>g_score := 0\<rparr>);
          cam = g_camera g1;
          g2 = g1\<lparr>g_camera := cam\<lparr>cam_y := 0, cam_targetY := 0\<rparr>, g_isGameOver := False,
                  g_difficulty := 1, g_lastDifficultyIncrease := 0\<rparr>;
          (g3, r1) = initEntities g2 (w_rng w)
      in w\<lparr>w_game := g3\<lparr>g_milestoneTimers := Map.empty, g_isRunning := True,
                           g_lastTime := now\<rparr>, w_rng := r1\<rparr>)"

definition Game_restart :: "num \<Rightarrow> world \<Rightarrow> world option" where
  "Game_restart now w = gameLoop 0 (restart_state now w)"

definition pauseGame :: "world \<Rightarrow> world" where
  "pauseGame w = w\<lparr>w_game := Game_stop (w_game w)\<rparr>"

definition resumeGame :: "num \<Rightarrow> world \<Rightarrow> world option" where
  "resumeGame now w =
     gameLoop 0 (w\<lparr>w_game := (w_game w)\<lparr>g_isRunning := True, g_lastTime := now\<rparr>\<rparr>)"

text \<open>The click handler of the pause button (\<open>setupControlButtons\<close>).\<close>

definition pause_click :: "num \<Rightarrow> world \<Rightarrow> world option" where
  "pause_click now w =
     (let g = w_game w in
      if g_isRunning g \<and> \<not> g_isGameOver g then Some (pauseGame w)
      else if \<not> g_isGameOver g then resumeGame now w
      else Some w)"

section \<open>The session as a step relation\<close>

text \<open>The host's events: a call of \<open>start()\<close>, an animation frame at a time stamp, a
  click on the pause button, and a click on the restart button (always listened to) or
  on the canvas restart area (listened to after a game over); \<open>now\<close> is
  \<open>performance.now()\<close>.\<close>

datatype event = Start num | Frame num | PauseClick num | RestartClick num

definition new_World :: "num \<Rightarrow> num \<Rightarrow> int \<Rightarrow> rng \<Rightarrow> world" where
  "new_World cw ch stored r =
     (let (g, r1) = new_Game cw ch stored r in \<lparr>w_game = g, w_rng = r1, w_stored = stored\<rparr>)"

inductive session_step :: "world \<Rightarrow> event \<Rightarrow> world \<Rightarrow> bool" where
  step_start: "start_world now w = Some w' \<Longrightarrow> session_step w (Start now) w'"
| step_frame: "gameLoop t w = Some w' \<Longrightarrow> session_step w (Frame t) w'"
| step_pause: "pause_click now w = Some w' \<Longrightarrow> session_step w (PauseClick now) w'"
| step_restart: "Game_restart now w = Some w' \<Longrightarrow> session_step w (RestartClick now) w'"

inductive reachable :: "world \<Rightarrow> bool" where
  reach_init: "reachable (new_World cw ch stored r)"
| reach_step: "reachable w \<Longrightarrow> session_step w e w' \<Longrightarrow> reachable w'"

text \<open>The session invariant: a finished game is not running and its player is dead, and
  the game's high score is the stored one.\<close>

definition session_inv :: "world \<Rightarrow> bool" where
  "session_inv w \<longleftrightarrow>
     (g_isGameOver (w_game w) \<longrightarrow> \<not> g_isRunning (w_game w) \<and> \<not> pl_isAlive (g_player (w_game w))) \<and>
     g_highScore (w_game w) = w_stored w"

section \<open>The specification's session machine\<close>

text \<open>The abstract phases of the specification (section 4.4): a session is idle, running,
  or over. The code keeps no flag that tells a game that was never started from a paused
  one (both have \<open>isRunning\<close> and \<open>isGameOver\<close> false), so the specification's
  \<open>NotStarted\<close> and \<open>Paused\<close> are the one phase \<open>Idle\<close> here.\<close>

datatype phase = Idle | Running | Over

definition phase_of :: "world \<Rightarrow> phase" where
  "phase_of w =
     (if g_isGameOver (w_game w) then Over else if g_isRunning (w_game w) then Running else Idle)"

text \<open>The specification's machine \<open>NotStarted \<rightarrow> Running \<rightleftharpoons> Paused \<rightarrow> GameOver
  \<rightarrow> (restart) \<rightarrow> Running\<close>, with an event the machine has no transition for leaving
  the phase alone (a frame while idle or over, \<open>start()\<close> while running or over, the pause
  button while over). Restart is a transition of \<open>GameOver\<close> only.\<close>

inductive spec_step :: "phase \<Rightarrow> event \<Rightarrow> phase \<Rightarrow> bool" where
  spec_start: "spec_step Idle (Start t) Running"
| spec_pause: "spec_step Running (PauseClick t) Idle"
| spec_resume: "spec_step Idle (PauseClick t) Running"
| spec_die: "spec_step Running (Frame t) Over"
| spec_restart: "spec_step Over (RestartClick t) Running"
| spec_frame: "spec_step p (Frame t) p"
| spec_start_ignored: "p \<noteq> Idle \<Longrightarrow> spec_step p (Start t) p"
| spec_pause_ignored: "spec_step Over (PauseClick t) Over"

text \<open>What the code adds to the specification's machine: the restart button of the page is
  listened to from the constructor on, so restart is taken in every phase, also while
  running or idle; and \<open>start()\<close>, the resume of the pause button and \<open>restart()\<close> run a
  frame at once, which can end the run (a player that fell while the game was paused).\<close>

fun code_extension :: "phase \<Rightarrow> event \<Rightarrow> phase \<Rightarrow> bool" where
  "code_extension p (RestartClick t) q = (q \<noteq> Idle \<and> (p = Over \<longrightarrow> q = Over))"
| "code_extension p (Start t) q = (p = Idle \<and> q = Over)"
| "code_extension p (PauseClick t) q = (p = Idle \<and> q = Over)"
| "code_extension p (Frame t) q = False"

section \<open>Lemmas: what the parts of a frame leave unchanged\<close>

lemma fix_300_frame [session_frame]:
  "g_isRunning (fst (fix_300 g r)) = g_isRunning g"
  "g_isGameOver (fst (fix_300 g r)) = g_isGameOver g"
  "g_highScore (fst (fix_300 g r)) = g_highScore g"
  "g_canvasWidth (fst (fix_300 g r)) = g_canvasWidth g"
  "pl_isAlive (g_player (fst (fix_300 g r))) = pl_isAlive (g_player g)"
  by (simp_all add: fix_300_def Let_def split_def)

lemma recoverPlayerIfNeeded_frame [session_frame]:
  "g_isRunning (recoverPlayerIfNeeded g) = g_isRunning g"
  "g_isGameOver (recoverPlayerIfNeeded g) = g_isGameOver g"
  "g_highScore (recoverPlayerIfNeeded g) = g_highScore g"
  "g_canvasWidth (recoverPlayerIfNeeded g) = g_canvasWidth g"
  by (simp_all add: recoverPlayerIfNeeded_def Let_def)

lemma recoverPlayerIfNeeded_dead [session_frame]:
  "\<not> pl_isAlive (g_player g) \<Longrightarrow> \<not> pl_isAlive (g_player (recoverPlayerIfNeeded g))"
  by (simp add: recoverPlayerIfNeeded_def Let_def)

lemma Player_update_alive [session_frame]: "pl_isAlive (Player_update cw pl) = pl_isAlive pl"
  by (simp add: Player_update_def Let_def)

lemma updateCamera_frame [session_frame]:
  "g_isRunning (updateCamera g) = g_isRunning g"
  "g_isGameOver (updateCamera g) = g_isGameOver g"
  "g_highScore (updateCamera g) = g_highScore g"
  by (simp_all add: updateCamera_def Let_def)

lemma updateBackground_frame [session_frame]:
  "g_isRunning (fst (updateBackground g r)) = g_isRunning g"
  "g_isGameOver (fst (updateBackground g r)) = g_isGameOver g"
  "g_highScore (fst (updateBackground g r)) = g_highScore g"
  by (simp_all add: updateBackground_def Let_def split_def)

lemma updateScore_frame [session_frame]:
  "g_isRunning (updateScore n g) = g_isRunning g"
  "g_isGameOver (updateScore n g) = g_isGameOver g"
  "g_highScore (updateScore n g) = g_highScore g"
  by (simp_all add: updateScore_def Let_def increaseDifficulty_def showThousandMilestone_def)

lemma forcePlayerVisibility_frame [session_frame]:
  "g_isRunning (fst (forcePlayerVisibility g r)) = g_isRunning g"
  "g_isGameOver (fst (forcePlayerVisibility g r)) = g_isGameOver g"
  "g_highScore (fst (forcePlayerVisibility g r)) = g_highScore g"
  by (simp_all add: forcePlayerVisibility_def Let_def split_def)

lemma score_300_frame [session_frame]:
  "g_isRunning (fst (if b then forcePlayerVisibility g r else (g, r))) = g_isRunning g"
  "g_isGameOver (fst (if b then forcePlayerVisibility g r else (g, r))) = g_isGameOver g"
  "g_highScore (fst (if b then forcePlayerVisibility g r else (g, r))) = g_highScore g"
  by (simp_all add: session_frame)

section \<open>Lemmas: game over and one frame\<close>

lemma Game_gameOver_fields:
  "g_isGameOver (w_game (Game_gameOver w))"
  "\<not> g_isRunning (w_game (Game_gameOver w))"
  "pl_isAlive (g_player (w_game (Game_gameOver w))) = pl_isAlive (g_player (w_game w))"
  "g_score (w_game (Game_gameOver w)) = g_score (w_game w)"
  "g_highScore (w_game (Game_gameOver w)) = max (g_highScore (w_game w)) (g_score (w_game w))"
  "w_stored (Game_gameOver w) =
     (if g_score (w_game w) > g_highScore (w_game w) then g_score (w_game w) else w_stored w)"
  by (simp_all add: Game_gameOver_def Game_stop_def Let_def)

text \<open>A frame of a live game either ends it through \<open>gameOver()\<close> (always, when the player
  is already dead) or keeps the flags, the high score and the stored value.\<close>

lemma Game_update_cases:
  assumes "Game_update dt w = Some w'" and "\<not> g_isGameOver (w_game w)"
  shows "(\<exists>w0. w' = Game_gameOver w0 \<and> w_stored w0 = w_stored w \<and>
             g_highScore (w_game w0) = g_highScore (w_game w) \<and> \<not> pl_isAlive (g_player (w_game w0))) \<or>
         (pl_isAlive (g_player (w_game w)) \<and>
          g_isRunning (w_game w') = g_isRunning (w_game w) \<and> \<not> g_isGameOver (w_game w') \<and>
          g_highScore (w_game w') = g_highScore (w_game w) \<and> w_stored w' = w_stored w)"
  using assms
  by (auto simp: Game_update_def Let_def split_def session_frame split: if_splits option.splits
           dest: recoverPlayerIfNeeded_dead)

lemma Game_gameOver_inv:
  assumes "g_highScore (w_game w) = w_stored w" and "\<not> pl_isAlive (g_player (w_game w))"
  shows "session_inv (Game_gameOver w)"
  using assms by (simp add: session_inv_def Game_gameOver_fields)

lemma session_inv_rng [simp]: "session_inv (w\<lparr>w_rng := r\<rparr>) = session_inv w"
  by (simp add: session_inv_def)

lemma session_inv_render [simp]:
  "session_inv (w\<lparr>w_game := render_game (w_game w)\<rparr>) = session_inv w"
  by (simp add: session_inv_def)

lemma gameLoop_idle: "\<not> g_isRunning (w_game w) \<Longrightarrow> gameLoop t w = Some w"
  by (simp add: gameLoop_def)

lemma gameLoop_inv:
  assumes "session_inv w" and "gameLoop t w = Some w'"
  shows "session_inv w'"
proof (cases "g_isRunning (w_game w)")
  case False
  then show ?thesis using assms by (simp add: gameLoop_idle)
next
  case True
  let ?w = "w\<lparr>w_game := (w_game w)\<lparr>g_lastTime := t\<rparr>\<rparr>"
  obtain w1 where u: "Game_update (safe_delta t (w_game w)) ?w = Some w1"
    and w': "w' = w1\<lparr>w_game := render_game (w_game w1), w_rng := snd (random (w_rng w1))\<rparr>"
    using assms(2) True by (auto simp: gameLoop_def Let_def split: option.splits)
  have "\<not> g_isGameOver (w_game ?w)" using True assms(1) by (simp add: session_inv_def)
  from Game_update_cases [OF u this] have "session_inv w1"
    using assms(1) Game_gameOver_inv by (auto simp: session_inv_def)
  then show ?thesis by (simp add: w')
qed

lemma start_world_inv:
  assumes "session_inv w" and "start_world now w = Some w'"
  shows "session_inv w'"
proof (cases "g_isRunning (w_game w)")
  case True
  then show ?thesis using assms by (simp add: start_world_def)
next
  case False
  have "session_inv (w\<lparr>w_game := Game_start now (w_game w)\<rparr>)"
    using assms(1) False by (simp add: session_inv_def Game_start_def)
  then show ?thesis using assms(2) False by (simp add: start_world_def gameLoop_inv)
qed

lemma pause_click_inv:
  assumes "session_inv w" and "pause_click now w = Some w'"
  shows "session_inv w'"
proof (cases "g_isGameOver (w_game w)")
  case True
  then show ?thesis using assms by (auto simp: pause_click_def session_inv_def)
next
  case False
  have r: "session_inv (w\<lparr>w_game := (w_game w)\<lparr>g_isRunning := True, g_lastTime := now\<rparr>\<rparr>)"
    using assms(1) False by (simp add: session_inv_def)
  show ?thesis
  proof (cases "g_isRunning (w_game w)")
    case True
    then show ?thesis using assms False by (auto simp: pause_click_def pauseGame_def Game_stop_def session_inv_def)
  next
    case False
    then show ?thesis using assms(2) \<open>\<not> g_isGameOver (w_game w)\<close> r
      by (simp add: pause_click_def resumeGame_def gameLoop_inv)
  qed
qed

lemma restart_state_fields:
  "\<not> g_isGameOver (w_game (restart_state now w))"
  "g_isRunning (w_game (restart_state now w))"
  "g_highScore (w_game (restart_state now w)) = g_highScore (w_game w)"
  "w_stored (restart_state now w) = w_stored w"
  by (simp_all add: restart_state_def Let_def split_def session_frame)

lemma Game_restart_inv:
  "session_inv w \<Longrightarrow> Game_restart now w = Some w' \<Longrightarrow> session_inv w'"
  unfolding Game_restart_def
  by (rule gameLoop_inv [of "restart_state now w"]) (simp_all add: session_inv_def restart_state_fields)

inductive_simps session_step_Start [simp]: "session_step w (Start now) w'"
inductive_simps session_step_Frame [simp]: "session_step w (Frame t) w'"
inductive_simps session_step_PauseClick [simp]: "session_step w (PauseClick now) w'"
inductive_simps session_step_RestartClick [simp]: "session_step w (RestartClick now) w'"
inductive_cases session_stepE: "session_step w e w'"

lemma session_step_inv:
  assumes "session_inv w" and "session_step w e w'"
  shows "session_inv w'"
  using assms(2)
  by (cases rule: session_stepE)
     (auto intro: start_world_inv gameLoop_inv pause_click_inv Game_restart_inv assms(1))

lemma new_World_fields [simp]:
  "w_game (new_World cw ch stored r) = fst (new_Game cw ch stored r)"
  "w_stored (new_World cw ch stored r) = stored"
  by (simp_all add: new_World_def split_def Let_def)

lemma session_inv_new_World: "session_inv (new_World cw ch stored r)"
  by (simp add: session_inv_def)

section \<open>Lemmas: the parameters of a fresh platform manager\<close>

lemma generate_n_params:
  "pm_platformHeight (fst (generate_n k pm g)) = pm_platformHeight pm \<and>
   pm_minWidth (fst (generate_n k pm g)) = pm_minWidth pm \<and>
   pm_maxWidth (fst (generate_n k pm g)) = pm_maxWidth pm"
  by (induction k arbitrary: pm g) (simp_all add: split_def Let_def)

lemma initial_low_params:
  "pm_platformHeight (fst (initial_low i k pm g)) = pm_platformHeight pm \<and>
   pm_minWidth (fst (initial_low i k pm g)) = pm_minWidth pm \<and>
   pm_maxWidth (fst (initial_low i k pm g)) = pm_maxWidth pm"
  by (induction k arbitrary: i pm g) (simp_all add: split_def Let_def)

lemma new_PlatformManager_params [simp]:
  "pm_platformHeight (fst (new_PlatformManager cw ch n g)) = 20"
  "pm_minWidth (fst (new_PlatformManager cw ch n g)) = 60"
  "pm_maxWidth (fst (new_PlatformManager cw ch n g)) = 120"
  by (simp_all add: new_PlatformManager_def generateInitialPlatforms_def Let_def split_def
                    generate_n_params initial_low_params)

lemma initEntities_entities:
  "g_player (fst (initEntities g r)) =
     new_Player (g_canvasWidth g / 2 - 30) (g_canvasHeight g - 150) 60 100"
  "g_em (fst (initEntities g r)) = new_EnemyManager"
  "g_lastDifficultyIncrease (fst (initEntities g r)) = g_lastDifficultyIncrease g"
  "pm_minWidth (g_pm (fst (initEntities g r))) = 60"
  "pm_maxWidth (g_pm (fst (initEntities g r))) = 120"
  "pm_platformHeight (g_pm (fst (initEntities g r))) = 20"
  "last (pm_platforms (g_pm (fst (initEntities g r)))) =
     fst (new_Platform (g_canvasWidth g / 2 - 40) (g_canvasHeight g - 40) 80 20 Normal
            (snd (new_PlatformManager (g_canvasWidth g) (g_canvasHeight g) 15 r)))"
  by (simp_all add: initEntities_def Let_def split_def)

lemma restart_state_game:
  "w_game (restart_state now w) =
     (fst (initEntities ((w_game w)\<lparr>g_score := 0,
        g_camera := (g_camera (w_game w))\<lparr>cam_y := 0, cam_targetY := 0\<rparr>, g_isGameOver := False,
        g_difficulty := 1, g_lastDifficultyIncrease := 0\<rparr>) (w_rng w)))
     \<lparr>g_milestoneTimers := Map.empty, g_isRunning := True, g_lastTime := now\<rparr>"
  by (simp add: restart_state_def Let_def split_def updateScore_def)

lemma start_world_dead:
  assumes "session_inv w" and "g_isGameOver (w_game w)" and "start_world now w = Some w'"
  shows "g_isGameOver (w_game w') \<and> \<not> g_isRunning (w_game w')"
proof -
  let ?g = "(w_game w)\<lparr>g_isRunning := True, g_isGameOver := False, g_lastTime := 0\<rparr>"
  have nr: "\<not> g_isRunning (w_game w)" and dead: "\<not> pl_isAlive (g_player (w_game w))"
    using assms(1,2) by (simp_all add: session_inv_def)
  obtain w1 where u: "Game_update (safe_delta 0 (Game_start now (w_game w))) (w\<lparr>w_game := ?g\<rparr>) = Some w1"
    and w': "w' = w1\<lparr>w_game := render_game (w_game w1), w_rng := snd (random (w_rng w1))\<rparr>"
    using assms(3) nr by (auto simp: start_world_def gameLoop_def Game_start_def Let_def split: option.splits)
  from Game_update_cases [OF u] dead obtain w0 where "w1 = Game_gameOver w0" by auto
  then show ?thesis by (simp add: w' Game_gameOver_fields)
qed

section \<open>Properties of the session\<close>

text \<open>Claim C19. Every world reachable from \<open>new Game\<close> by the host's events satisfies the
  session invariant: a game that is over is not running and its player is dead, and the
  game's high score equals the one in \<open>localStorage\<close>.\<close>

theorem session_invariant:
  assumes "reachable w"
  shows "session_inv w"
  using assms
proof (induction rule: reachable.induct)
  case (reach_init cw ch stored r)
  then show ?case by (rule session_inv_new_World)
next
  case (reach_step w e w')
  then show ?case by (blast intro: session_step_inv)
qed

theorem session_invariant_witness: "session_inv (new_World 400 600 0 (const_rng 0.5))"
  using session_invariant [OF reach_init [of 400 600 0 "const_rng 0.5"]] .

text \<open>Game over is terminal until a restart: from a world satisfying the
  session invariant whose game is over, every event other than a restart click (a frame,
  a pause click, even a call of \<open>start()\<close>) leads to a world whose game is still over and
  not running.\<close>

theorem game_over_terminal:
  assumes "session_inv w" and "g_isGameOver (w_game w)" and "session_step w e w'"
    and "\<forall>now. e \<noteq> RestartClick now"
  shows "g_isGameOver (w_game w') \<and> \<not> g_isRunning (w_game w')"
  using assms(3)
proof (cases rule: session_step.cases)
  case (step_start now)
  then show ?thesis using start_world_dead assms(1,2) by blast
next
  case (step_frame t)
  then show ?thesis using assms(1,2) by (simp add: session_inv_def gameLoop_idle)
next
  case (step_pause now)
  then show ?thesis using assms(1,2) by (simp add: session_inv_def pause_click_def)
next
  case (step_restart now)
  then show ?thesis using assms(4) by simp
qed

theorem game_over_terminal_witness:
  "g_isGameOver (w_game ((new_World 400 600 0 (const_rng 0.5))\<lparr>w_game := (w_game (new_World 400 600 0 (const_rng 0.5)))
       \<lparr>g_isGameOver := True,
        g_player := (g_player (w_game (new_World 400 600 0 (const_rng 0.5))))\<lparr>pl_isAlive := False\<rparr>\<rparr>\<rparr>)) \<and> \<not> g_isRunning (w_game ((new_World 400 600 0 (const_rng 0.5))\<lparr>w_game := (w_game (new_World 400 600 0 (const_rng 0.5)))
       \<lparr>g_isGameOver := True,
        g_player := (g_player (w_game (new_World 400 600 0 (const_rng 0.5))))\<lparr>pl_isAlive := False\<rparr>\<rparr>\<rparr>))"
  using game_over_terminal [where w = "((new_World 400 600 0 (const_rng 0.5))\<lparr>w_game := (w_game (new_World 400 600 0 (const_rng 0.5)))
       \<lparr>g_isGameOver := True,
        g_player := (g_player (w_game (new_World 400 600 0 (const_rng 0.5))))\<lparr>pl_isAlive := False\<rparr>\<rparr>\<rparr>)" and w' = "((new_World 400 600 0 (const_rng 0.5))\<lparr>w_game := (w_game (new_World 400 600 0 (const_rng 0.5)))
       \<lparr>g_isGameOver := True,
        g_player := (g_player (w_game (new_World 400 600 0 (const_rng 0.5))))\<lparr>pl_isAlive := False\<rparr>\<rparr>\<rparr>)" and e = "Frame 5"]
  by (simp add: session_inv_def gameLoop_idle)

text \<open>Claim C21. The pause button starts a game that was never started: on a world that
  is neither running nor over, a click on it does exactly what \<open>start()\<close> does, and
  so runs the first frame with the negative delta shown for \<open>safe_delta\<close> in theory \<open>Game\<close>.\<close>

theorem pause_click_starts_game:
  assumes "\<not> g_isRunning (w_game w)" and "\<not> g_isGameOver (w_game w)"
  shows "pause_click now w = start_world now w"
proof -
  have eq: "(w_game w)\<lparr>g_isRunning := True, g_isGameOver := False, g_lastTime := now\<rparr> =
            (w_game w)\<lparr>g_isRunning := True, g_lastTime := now\<rparr>"
    using assms(2) by (cases "w_game w") simp
  have "start_world now w =
      gameLoop 0 (w\<lparr>w_game := (w_game w)\<lparr>g_isRunning := True, g_isGameOver := False, g_lastTime := now\<rparr>\<rparr>)"
    using assms(1) by (simp add: start_world_def Game_start_def)
  also have "\<dots> = gameLoop 0 (w\<lparr>w_game := (w_game w)\<lparr>g_isRunning := True, g_lastTime := now\<rparr>\<rparr>)"
    by (simp only: eq)
  also have "\<dots> = pause_click now w"
    using assms by (simp add: pause_click_def resumeGame_def Let_def)
  finally show ?thesis by simp
qed

theorem pause_click_starts_game_witness:
  "pause_click 1000 (new_World 400 600 0 (const_rng 0.5)) =
     start_world 1000 (new_World 400 600 0 (const_rng 0.5))"
  by (rule pause_click_starts_game) simp_all

text \<open>Claim C22. \<open>restart()\<close> resets the run: score 0, difficulty 1, camera at 0, no
  milestone timers, running and not over, a fresh player (gravity 0.5, jump force -15),
  fresh platform parameters (widths 60..120, height 20) and a fresh enemy manager, and
  keeps the high score; the camera smoothing raised by \<open>increaseDifficulty\<close> is
  \<^emph>\<open>not\<close> reset.\<close>

theorem restart_resets:
  "let g = w_game w; g' = w_game (restart_state now w) in
   g_score g' = 0 \<and> g_difficulty g' = 1 \<and> g_lastDifficultyIncrease g' = 0 \<and>
   cam_y (g_camera g') = 0 \<and> cam_targetY (g_camera g') = 0 \<and>
   g_milestoneTimers g' = Map.empty \<and> g_isRunning g' \<and> \<not> g_isGameOver g' \<and>
   pl_gravity (g_player g') = 0.5 \<and> pl_jumpForce (g_player g') = -15 \<and> pl_isAlive (g_player g') \<and>
   pm_minWidth (g_pm g') = 60 \<and> pm_maxWidth (g_pm g') = 120 \<and> pm_platformHeight (g_pm g') = 20 \<and>
   g_em g' = new_EnemyManager \<and> g_highScore g' = g_highScore g \<and>
   cam_smoothing (g_camera g') = cam_smoothing (g_camera g)"
  by (simp add: restart_state_game initEntities_entities new_Player_def Let_def)

text \<open>After \<open>restart()\<close> the last platform is a normal, active starting
  platform directly under the fresh player: its top is 10 px below the player's feet and it
  spans the player horizontally, so the first fall lands on it.\<close>

theorem restart_start_platform:
  "let g' = w_game (restart_state now w); pl = g_player g'; p = last (pm_platforms (g_pm g')) in
   p_type p = Normal \<and> p_active p \<and> p_y p - (pl_y pl + pl_height pl) = 10 \<and>
   p_x p \<le> pl_x pl \<and> pl_x pl + pl_width pl \<le> p_x p + p_width p"
  by (simp add: restart_state_game initEntities_entities new_Player_def Let_def)

section \<open>Refinement of the specification's machine\<close>

lemma gameLoop_live_phase:
  assumes "g_isRunning (w_game w)" and "\<not> g_isGameOver (w_game w)" and "gameLoop t w = Some w'"
  shows "phase_of w' = Running \<or> phase_of w' = Over"
proof -
  let ?w = "w\<lparr>w_game := (w_game w)\<lparr>g_lastTime := t\<rparr>\<rparr>"
  obtain w1 where u: "Game_update (safe_delta t (w_game w)) ?w = Some w1"
    and w': "w' = w1\<lparr>w_game := render_game (w_game w1), w_rng := snd (random (w_rng w1))\<rparr>"
    using assms(1,3) by (auto simp: gameLoop_def Let_def split: option.splits)
  from Game_update_cases [OF u] assms(1,2) show ?thesis
    by (auto simp: w' phase_of_def Game_gameOver_fields)
qed

lemma phase_of_idle: "\<not> g_isRunning (w_game w) \<Longrightarrow> \<not> g_isGameOver (w_game w) \<Longrightarrow> phase_of w = Idle"
  by (simp add: phase_of_def)

text \<open>Claim C20. The session refines the specification's machine up to the code's named
  extension: for a world satisfying the session invariant, every step the host's events
  cause is, under the abstraction to phases, either a step of \<open>spec_step\<close> (section 4.4)
  or one of \<open>code_extension\<close>: a restart taken while running or idle, or a start, resume
  or restart whose first frame ends the run. In particular a finished game is left only by
  restart, and it is never made idle.\<close>

theorem session_refines_spec:
  assumes "session_inv w" and "session_step w e w'"
  shows "spec_step (phase_of w) e (phase_of w') \<or> code_extension (phase_of w) e (phase_of w')"
  using assms(2)
proof (cases rule: session_step.cases)
  case (step_start now)
  show ?thesis
  proof (cases "g_isRunning (w_game w)")
    case True
    then have "phase_of w \<noteq> Idle" by (simp add: phase_of_def)
    then show ?thesis using True step_start by (simp add: start_world_def spec_start_ignored)
  next
    case nr: False
    show ?thesis
    proof (cases "g_isGameOver (w_game w)")
      case True
      then have "g_isGameOver (w_game w')" using start_world_dead assms(1) step_start by blast
      then show ?thesis using True step_start(1) by (simp add: phase_of_def spec_start_ignored)
    next
      case False
      have "phase_of w' = Running \<or> phase_of w' = Over"
        using step_start nr by (intro gameLoop_live_phase [of "w\<lparr>w_game := Game_start now (w_game w)\<rparr>" 0])
                                (simp_all add: start_world_def Game_start_def)
      then show ?thesis using nr False step_start
        by (auto simp: phase_of_idle intro: spec_start)
    qed
  qed
next
  case (step_frame t)
  show ?thesis
  proof (cases "g_isRunning (w_game w)")
    case False
    then show ?thesis using step_frame by (simp add: gameLoop_idle spec_frame)
  next
    case True
    then have "\<not> g_isGameOver (w_game w)" "phase_of w = Running"
      using assms(1) by (auto simp: session_inv_def phase_of_def)
    then show ?thesis using gameLoop_live_phase [OF True _ step_frame(2)] step_frame(1)
      by (auto intro: spec_frame spec_die)
  qed
next
  case (step_pause now)
  show ?thesis
  proof (cases "g_isGameOver (w_game w)")
    case True
    then show ?thesis using step_pause by (simp add: pause_click_def phase_of_def spec_pause_ignored)
  next
    case no: False
    show ?thesis
    proof (cases "g_isRunning (w_game w)")
      case True
      have "w' = pauseGame w" using step_pause no True by (simp add: pause_click_def)
      then show ?thesis using step_pause True no
        by (simp add: pauseGame_def Game_stop_def phase_of_def spec_pause)
    next
      case False
      have "phase_of w' = Running \<or> phase_of w' = Over"
        using step_pause no False
        by (intro gameLoop_live_phase [of "w\<lparr>w_game := (w_game w)\<lparr>g_isRunning := True, g_lastTime := now\<rparr>\<rparr>" 0])
           (simp_all add: pause_click_def resumeGame_def)
      then show ?thesis using no False step_pause
        by (auto simp: phase_of_idle intro: spec_resume)
    qed
  qed
next
  case (step_restart now)
  have "phase_of w' = Running \<or> phase_of w' = Over"
    using step_restart
    by (intro gameLoop_live_phase [of "restart_state now w" 0])
       (simp_all add: Game_restart_def restart_state_fields)
  then show ?thesis using step_restart by (cases "phase_of w") (auto intro: spec_restart)
qed

theorem session_refines_spec_witness:
  "spec_step (phase_of (new_World 400 600 0 (const_rng 0.5))) (Frame 5)
             (phase_of (new_World 400 600 0 (const_rng 0.5)))"
  using session_refines_spec [where w = "new_World 400 600 0 (const_rng 0.5)"
      and w' = "new_World 400 600 0 (const_rng 0.5)" and e = "Frame 5"]
  by (simp add: session_inv_new_World gameLoop_idle)

end
