(* ===== verification/Auth.thy ===== *)
theory Auth
  imports Prelude
begin

text \<open>
  The authentication pages: the script of \<open>src/js/auth.js\<close> before the \<open>Game\<close> class
  (form validation, \<open>isValidEmail\<close>, the handling of the login and register responses,
  \<open>checkExistingAuth\<close>) and \<open>src/js/auth-checker.js\<close> (\<open>checkAuthentication\<close>, the logout
  button, the high-score display). The browser's \<open>localStorage\<close> and
  \<open>sessionStorage\<close> are maps from keys to strings; the page shown is part of the state, so
  redirects are steps. The backend is outside the sources: its answer to a request is an
  input of the model. JavaScript strings are lists of (8-bit) characters; \<open>parseInt\<close> and
  the number-to-string conversion of \<open>setItem\<close> are written out for decimal integers.
\<close>

section \<open>Browser state\<close>

type_synonym storage = "string \<rightharpoonup> string"

datatype page = AuthPage | GamePage

record browser =
  b_local :: storage
  b_session :: storage
  b_page :: page

text \<open>JavaScript truthiness of \<open>getItem\<close>'s result: \<open>null\<close> and \<open>''''\<close> are falsy.\<close>

definition truthy :: "string option \<Rightarrow> bool" where
  "truthy v = (case v of None \<Rightarrow> False | Some s \<Rightarrow> s \<noteq> [])"

section \<open>Characters, numbers and strings\<close>

text \<open>The characters of the class \<open>\s\<close> (and of \<open>StrWhiteSpaceChar\<close>) that a character of
  the model can be: tab, line feed, vertical tab, form feed, carriage return, space and
  no-break space.\<close>

definition is_space :: "char \<Rightarrow> bool" where
  "is_space c \<longleftrightarrow> of_char c \<in> {9, 10, 11, 12, 13, 32, 160::nat}"

definition is_digit :: "char \<Rightarrow> bool" where
  "is_digit c \<longleftrightarrow> 48 \<le> (of_char c :: nat) \<and> (of_char c :: nat) \<le> 57"

definition digit_value :: "char \<Rightarrow> int" where
  "digit_value c = int (of_char c) - 48"

definition digits_value :: "string \<Rightarrow> int" where
  "digits_value ds = foldl (\<lambda>acc c. acc * 10 + digit_value c) 0 ds"

text \<open>\<open>parseInt(s)\<close> (radix 10): leading white space, an optional sign, the longest run of
  digits; \<open>NaN\<close> (here \<open>None\<close>) when there is no digit.\<close>

definition parseInt :: "string \<Rightarrow> int option" where
  "parseInt s =
     (let t = dropWhile is_space s;
          (sgn, u) = (case t of
                        c # r \<Rightarrow> if c = CHR ''-'' then (-1, r) else if c = CHR ''+'' then (1, r) else (1, t)
                      | [] \<Rightarrow> (1, t));
          ds = takeWhile is_digit u
      in if ds = [] then None else Some (sgn * digits_value ds))"

text \<open>\<open>parseInt(localStorage.getItem(k))\<close>: a missing item is \<open>null\<close>, read as the string
  \<open>''null''\<close>; then \<open>|| 0\<close>.\<close>

definition parseInt_item :: "string option \<Rightarrow> int option" where
  "parseInt_item v = parseInt (case v of None \<Rightarrow> ''null'' | Some s \<Rightarrow> s)"

definition or_zero :: "int option \<Rightarrow> int" where
  "or_zero v = (case v of None \<Rightarrow> 0 | Some n \<Rightarrow> n)"

text \<open>\<open>String(n)\<close> for an integer, as \<open>setItem\<close> stores it.\<close>

fun decimal :: "nat \<Rightarrow> string" where
  "decimal n = (if n < 10 then [char_of (48 + n)] else decimal (n div 10) @ [char_of (48 + n mod 10)])"

declare decimal.simps [simp del]

definition string_of_int :: "int \<Rightarrow> string" where
  "string_of_int i = (if i < 0 then CHR ''-'' # decimal (nat (- i)) else decimal (nat i))"

section \<open>Validation\<close>

text \<open>\<open>isValidEmail\<close>: the regular expression \<open>^[^\s@]+@[^\s@]+\.[^\s@]+$\<close>, matched the
  way a backtracking matcher does: a split into a non-empty run, \<open>@\<close>, a non-empty run, a
  dot, a non-empty run, each run free of white space and \<open>@\<close>.\<close>

definition run_char :: "char \<Rightarrow> bool" where
  "run_char c \<longleftrightarrow> \<not> is_space c \<and> c \<noteq> CHR ''@''"

definition plus_run :: "string \<Rightarrow> bool" where
  "plus_run s \<longleftrightarrow> s \<noteq> [] \<and> list_all run_char s"

definition domain_match :: "string \<Rightarrow> bool" where
  "domain_match d \<longleftrightarrow>
     list_ex (\<lambda>j. plus_run (take j d) \<and>
                   (case drop j d of c # r \<Rightarrow> c = CHR ''.'' \<and> plus_run r | [] \<Rightarrow> False))
             [0..<length d]"

definition isValidEmail :: "string \<Rightarrow> bool" where
  "isValidEmail s \<longleftrightarrow>
     list_ex (\<lambda>i. plus_run (take i s) \<and>
                   (case drop i s of c # r \<Rightarrow> c = CHR ''@'' \<and> domain_match r | [] \<Rightarrow> False))
             [0..<length s]"

text \<open>The error messages of the forms and of the responses.\<close>

datatype auth_error =
    FillAllFields | InvalidEmail | PasswordsMismatch | PasswordTooShort
  | ServerError string

definition error_message :: "auth_error \<Rightarrow> string" where
  "error_message e = (case e of
      FillAllFields \<Rightarrow> ''Please fill in all fields''
    | InvalidEmail \<Rightarrow> ''Please enter a valid email''
    | PasswordsMismatch \<Rightarrow> ''Passwords do not match''
    | PasswordTooShort \<Rightarrow> ''Password must be at least 6 characters''
    | ServerError m \<Rightarrow> m)"

text \<open>The click handler of the login button: \<open>Inl\<close> is the message shown by
  \<open>showError\<close>, \<open>Inr\<close> the call of \<open>login(email, password)\<close>.\<close>

definition validate_login :: "string \<Rightarrow> string \<Rightarrow> auth_error + unit" where
  "validate_login email password =
     (if email = [] \<or> password = [] then Inl FillAllFields
      else if \<not> isValidEmail email then Inl InvalidEmail
      else Inr ())"

definition validate_register :: "string \<Rightarrow> string \<Rightarrow> string \<Rightarrow> string \<Rightarrow> auth_error + unit" where
  "validate_register username email password confirm =
     (if username = [] \<or> email = [] \<or> password = [] \<or> confirm = [] then Inl FillAllFields
      else if \<not> isValidEmail email then Inl InvalidEmail
      else if password \<noteq> confirm then Inl PasswordsMismatch
      else if length password < 6 then Inl PasswordTooShort
      else Inr ())"

section \<open>The backend's answers\<close>

text \<open>The JSON body of a \<open>/api/login\<close> response: \<open>response.ok\<close> with token, user id, user
  name and optional high score, or an error with an optional message. A body that is not
  JSON makes \<open>response.json()\<close> throw, which is a failure with the parser's message.\<close>

datatype login_response =
    LoginOk string string string "int option"
  | LoginFailed "string option"

datatype register_response =
    RegisterOk "string option"
  | RegisterFailed "string option"

definition store_user :: "storage \<Rightarrow> string \<Rightarrow> string \<Rightarrow> string \<Rightarrow> int option \<Rightarrow> storage" where
  "store_user st token userId username hs =
     st(''token'' \<mapsto> token, ''userId'' \<mapsto> userId, ''username'' \<mapsto> username,
        ''highScore'' \<mapsto> string_of_int (or_zero hs))"

text \<open>\<open>login(email, password)\<close> after the request: the error branch shows the message
  (\<open>data.message || 'Login failed'\<close>); the success branch stores the user in
  \<open>localStorage\<close> or \<open>sessionStorage\<close> after the remember-me box, sets the
  \<open>loginRedirect\<close> flag and goes to the game page.\<close>

definition login :: "bool \<Rightarrow> login_response \<Rightarrow> browser \<Rightarrow> auth_error + browser" where
  "login rememberMe resp b =
     (case resp of
        LoginFailed m \<Rightarrow>
          Inl (ServerError (case m of None \<Rightarrow> ''Login failed''
                                   | Some s \<Rightarrow> if s = [] then ''Login failed'' else s))
      | LoginOk token userId username hs \<Rightarrow>
          (let b1 = (if rememberMe then b\<lparr>b_local := store_user (b_local b) token userId username hs\<rparr>
                     else b\<lparr>b_session := store_user (b_session b) token userId username hs\<rparr>)
           in Inr (b1\<lparr>b_local := (b_local b1)(''loginRedirect'' \<mapsto> ''true''), b_page := GamePage\<rparr>)))"

text \<open>The form of the register tab, cleared after a successful registration.\<close>

record register_form =
  f_username :: string
  f_email :: string
  f_password :: string
  f_confirm :: string

definition register :: "register_response \<Rightarrow> register_form \<Rightarrow> auth_error + string \<times> register_form" where
  "register resp f =
     (case resp of
        RegisterFailed m \<Rightarrow>
          Inl (ServerError (case m of None \<Rightarrow> ''Registration failed''
                                   | Some s \<Rightarrow> if s = [] then ''Registration failed'' else s))
      | RegisterOk m \<Rightarrow>
          Inr (case m of None \<Rightarrow> ''Registration successful! You can now log in.''
                       | Some s \<Rightarrow> if s = [] then ''Registration successful! You can now log in.'' else s,
               \<lparr>f_username = [], f_email = [], f_password = [], f_confirm = []\<rparr>))"

section \<open>Page loads, redirects and logout\<close>

text \<open>\<open>checkExistingAuth()\<close> on loading the authentication page, with the redirect of its
  caller: a set \<open>loginRedirect\<close> flag is removed and counts as authenticated.\<close>

definition checkExistingAuth :: "browser \<Rightarrow> bool \<times> browser" where
  "checkExistingAuth b =
     (if truthy (b_local b ''loginRedirect'')
      then (True, b\<lparr>b_local := (b_local b)(''loginRedirect'' := None)\<rparr>)
      else (truthy (b_local b ''token'') \<or> truthy (b_session b ''token''), b))"

definition load_auth_page :: "browser \<Rightarrow> browser" where
  "load_auth_page b =
     (let (authed, b1) = checkExistingAuth b in if authed then b1\<lparr>b_page := GamePage\<rparr> else b1)"

text \<open>\<open>checkAuthentication()\<close> of \<open>auth-checker.js\<close> on loading the game page.\<close>

definition checkAuthentication :: "browser \<Rightarrow> bool" where
  "checkAuthentication b \<longleftrightarrow> truthy (b_local b ''token'') \<or> truthy (b_session b ''token'')"

definition load_game_page :: "browser \<Rightarrow> browser" where
  "load_game_page b = (if checkAuthentication b then b else b\<lparr>b_page := AuthPage\<rparr>)"

definition load_page :: "browser \<Rightarrow> browser" where
  "load_page b = (case b_page b of AuthPage \<Rightarrow> load_auth_page b | GamePage \<Rightarrow> load_game_page b)"

text \<open>Following redirects: each step loads the current page; the navigation has settled
  when a load changes nothing.\<close>

fun navigate :: "nat \<Rightarrow> browser \<Rightarrow> browser" where
  "navigate 0 b = b"
| "navigate (Suc n) b = navigate n (load_page b)"

definition auth_keys :: "string list" where
  "auth_keys = [''token'', ''userId'', ''username'', ''highScore'']"

definition remove_keys :: "string list \<Rightarrow> storage \<Rightarrow> storage" where
  "remove_keys ks st = foldl (\<lambda>m k. m(k := None)) st ks"

text \<open>The click handler of the logout button of \<open>auth-checker.js\<close>.\<close>

definition logout :: "browser \<Rightarrow> browser" where
  "logout b = b\<lparr>b_local := remove_keys auth_keys (b_local b),
                b_session := remove_keys auth_keys (b_session b), b_page := AuthPage\<rparr>"

text \<open>The high score shown on the start screen:
  \<open>localStorage.getItem('highScore') || sessionStorage.getItem('highScore') || 0\<close>.\<close>

definition displayed_high_score :: "browser \<Rightarrow> string" where
  "displayed_high_score b =
     (if truthy (b_local b ''highScore'') then the (b_local b ''highScore'')
      else if truthy (b_session b ''highScore'') then the (b_session b ''highScore'')
      else ''0'')"

section \<open>Lemmas: the e-mail pattern\<close>

lemma domain_match_iff:
  "domain_match d \<longleftrightarrow> (\<exists>x y. d = x @ CHR ''.'' # y \<and> plus_run x \<and> plus_run y)"
proof -
  let ?Q = "\<lambda>a b. plus_run a \<and> (case b of c # r \<Rightarrow> c = CHR ''.'' \<and> plus_run r | [] \<Rightarrow> False)"
  have "domain_match d \<longleftrightarrow> list_ex (\<lambda>j. ?Q (take j d) (drop j d)) [0..<length d]"
    by (simp add: domain_match_def)
  also have "\<dots> \<longleftrightarrow> (\<exists>a c r. d = a @ c # r \<and> ?Q a (c # r))" by (rule list_ex_splits)
  finally show ?thesis by auto
qed

lemma isValidEmail_split:
  "isValidEmail s \<longleftrightarrow> (\<exists>a d. s = a @ CHR ''@'' # d \<and> plus_run a \<and> domain_match d)"
proof -
  let ?Q = "\<lambda>a b. plus_run a \<and> (case b of c # r \<Rightarrow> c = CHR ''@'' \<and> domain_match r | [] \<Rightarrow> False)"
  have "isValidEmail s \<longleftrightarrow> list_ex (\<lambda>i. ?Q (take i s) (drop i s)) [0..<length s]"
    by (simp add: isValidEmail_def)
  also have "\<dots> \<longleftrightarrow> (\<exists>a c r. s = a @ c # r \<and> ?Q a (c # r))" by (rule list_ex_splits)
  finally show ?thesis by auto
qed

lemma run_char_at_dot [simp]: "\<not> is_space CHR ''@''" "\<not> is_space CHR ''.''" "run_char CHR ''.''"
  by (simp_all add: is_space_def run_char_def)

lemma email_shape_iff:
  "(\<exists>a x y. s = a @ CHR ''@'' # x @ CHR ''.'' # y \<and> plus_run a \<and> plus_run x \<and> plus_run y) \<longleftrightarrow>
   \<not> list_ex is_space s \<and> length (filter (\<lambda>c. c = CHR ''@'') s) = 1 \<and> hd s \<noteq> CHR ''@'' \<and>
   CHR ''.'' \<in> set (butlast (tl (tl (dropWhile (\<lambda>c. c \<noteq> CHR ''@'') s))))"
  (is "?L \<longleftrightarrow> ?R")
proof
  assume ?L
  then obtain a x y where s: "s = a @ CHR ''@'' # x @ CHR ''.'' # y"
    and r: "plus_run a" "plus_run x" "plus_run y" by blast
  have na: "\<forall>c\<in>set a. \<not> is_space c \<and> c \<noteq> CHR ''@''"
    "\<forall>c\<in>set x. \<not> is_space c \<and> c \<noteq> CHR ''@''" "\<forall>c\<in>set y. \<not> is_space c \<and> c \<noteq> CHR ''@''"
    using r by (auto simp: plus_run_def run_char_def list_all_iff)
  have d: "dropWhile (\<lambda>c. c \<noteq> CHR ''@'') s = CHR ''@'' # x @ CHR ''.'' # y"
    using na(1) by (simp add: s dropWhile_append2)
  have "hd s \<noteq> CHR ''@''" using r(1) na(1) by (cases a) (auto simp: s plus_run_def)
  moreover have "CHR ''.'' \<in> set (butlast (tl x @ CHR ''.'' # y))"
    using r(3) by (simp add: butlast_append plus_run_def)
  moreover have "filter (\<lambda>c. c = CHR ''@'') s = [CHR ''@'']"
    using na by (simp add: s filter_empty_conv)
  ultimately show ?R using na r(2) by (auto simp: s d list_ex_iff plus_run_def)
next
  assume R: ?R
  let ?P = "\<lambda>c. c \<noteq> CHR ''@''"
  define a where "a = takeWhile ?P s"
  have sp: "\<forall>c\<in>set s. \<not> is_space c" using R by (simp add: list_ex_iff)
  have cnt: "length (filter (\<lambda>c. c = CHR ''@'') s) = 1" using R by simp
  have "dropWhile ?P s \<noteq> []"
  proof
    assume "dropWhile ?P s = []"
    then have "\<forall>c\<in>set s. ?P c" by (simp add: dropWhile_eq_Nil_conv)
    then show False using cnt by (simp add: filter_empty_conv)
  qed
  then obtain c0 d where r0: "dropWhile ?P s = c0 # d" by (cases "dropWhile ?P s") auto
  have "\<not> ?P (hd (dropWhile ?P s))" by (rule hd_dropWhile) (simp add: r0)
  then have r: "dropWhile ?P s = CHR ''@'' # d" using r0 by simp
  have s: "s = a @ CHR ''@'' # d" using takeWhile_dropWhile_id [of ?P s] r by (simp add: a_def)
  have na: "\<forall>c\<in>set a. c \<noteq> CHR ''@''" unfolding a_def by (auto dest: set_takeWhileD)
  have "filter (\<lambda>c. c = CHR ''@'') d = []" using cnt na s by (simp add: filter_empty_conv)
  then have nd: "\<forall>c\<in>set d. c \<noteq> CHR ''@''" by (simp add: filter_empty_conv)
  have "a \<noteq> []" using R s by (cases a) auto
  then have pa: "plus_run a" using sp s na by (auto simp: plus_run_def run_char_def list_all_iff)
  have dot: "CHR ''.'' \<in> set (butlast (tl d))" using R r by simp
  then obtain c m where dm: "d = c # m" by (cases d) auto
  from dot dm obtain u v where uv: "butlast m = u @ CHR ''.'' # v" by (auto dest: split_list)
  then have "m \<noteq> []" by auto
  then have m: "m = u @ CHR ''.'' # v @ [last m]" using uv append_butlast_last_id by fastforce
  then obtain l where ml: "m = u @ CHR ''.'' # v @ [l]" by blast
  have rd: "\<forall>c'\<in>set d. run_char c'" using nd sp s by (auto simp: run_char_def)
  have "s = a @ CHR ''@'' # (c # u) @ CHR ''.'' # (v @ [l])" using s dm ml by simp
  moreover have "plus_run (c # u)" "plus_run (v @ [l])"
    using rd unfolding dm ml by (auto simp: plus_run_def list_all_iff)
  ultimately show ?L using pa by blast
qed

section \<open>Lemmas: numbers as strings\<close>

lemma decimal_ne [simp]: "decimal n \<noteq> []"
  by (subst decimal.simps) simp

lemma digit_char: "d < 10 \<Longrightarrow> is_digit (char_of (48 + d)) \<and> digit_value (char_of (48 + d)) = int d"
  by (simp add: is_digit_def digit_value_def)

lemma decimal_digits: "list_all is_digit (decimal n) \<and> digits_value (decimal n) = int n"
proof (induction n rule: decimal.induct)
  case (1 n)
  show ?case
  proof (cases "n < 10")
    case True
    then show ?thesis using digit_char [of n] by (simp add: digits_value_def decimal.simps [of n])
  next
    case False
    have m: "n mod 10 < 10" by simp
    have "n div 10 * 10 + n mod 10 = n" by simp
    then have "int n = int (n div 10) * 10 + int (n mod 10)" by linarith
    then show ?thesis using 1 False digit_char [OF m]
      by (simp add: digits_value_def decimal.simps [of n])
  qed
qed

lemma decimal_hd: "hd (decimal n) \<noteq> CHR ''-'' \<and> hd (decimal n) \<noteq> CHR ''+'' \<and> \<not> is_space (hd (decimal n))"
proof -
  obtain c r where d: "decimal n = c # r" using decimal_ne [of n] by (meson list.exhaust)
  have "list_all is_digit (decimal n)" using decimal_digits by blast
  then have "is_digit (hd (decimal n))" by (simp add: d)
  then show ?thesis by (auto simp: is_digit_def is_space_def)
qed

lemma parseInt_digits:
  assumes "ds \<noteq> []" and "list_all is_digit ds" and "\<not> is_space (hd ds)"
    and "hd ds \<noteq> CHR ''-''" and "hd ds \<noteq> CHR ''+''"
  shows "parseInt ds = Some (digits_value ds)"
proof -
  obtain c r where ds: "ds = c # r" using assms(1) by (cases ds) auto
  have dw: "dropWhile is_space ds = ds" using assms(3) by (simp add: ds)
  have tw: "takeWhile is_digit ds = ds" using assms(2) by (simp add: list_all_iff)
  show ?thesis using assms(1,4,5) by (simp add: parseInt_def Let_def dw tw list.case_eq_if)
qed

lemma parseInt_neg:
  assumes "ds \<noteq> []" and "list_all is_digit ds"
  shows "parseInt (CHR ''-'' # ds) = Some (- digits_value ds)"
proof -
  have tw: "takeWhile is_digit ds = ds" using assms(2) by (simp add: list_all_iff)
  show ?thesis using assms(1) by (simp add: parseInt_def is_space_def Let_def tw)
qed

section \<open>Lemmas: storage\<close>

lemma remove_keys_lookup [simp]: "remove_keys ks st k = (if k \<in> set ks then None else st k)"
  by (simp add: remove_keys_def foldl_upd_None)

lemma truthy_simps [simp]: "truthy None = False" "truthy (Some s) = (s \<noteq> [])"
  by (simp_all add: truthy_def)

lemma string_of_int_nonempty [simp]: "string_of_int n \<noteq> []"
  by (simp add: string_of_int_def)

lemma parseInt_null [simp]: "parseInt ''null'' = None"
  by (simp add: parseInt_def is_space_def is_digit_def)

lemma load_page_cases:
  "b_page b = AuthPage \<Longrightarrow> truthy (b_local b ''loginRedirect'') \<Longrightarrow>
     load_page b = b\<lparr>b_local := (b_local b)(''loginRedirect'' := None), b_page := GamePage\<rparr>"
  "b_page b = AuthPage \<Longrightarrow> \<not> truthy (b_local b ''loginRedirect'') \<Longrightarrow> checkAuthentication b \<Longrightarrow>
     load_page b = b\<lparr>b_page := GamePage\<rparr>"
  "b_page b = AuthPage \<Longrightarrow> \<not> truthy (b_local b ''loginRedirect'') \<Longrightarrow> \<not> checkAuthentication b \<Longrightarrow>
     load_page b = b"
  "b_page b = GamePage \<Longrightarrow> checkAuthentication b \<Longrightarrow> load_page b = b"
  "b_page b = GamePage \<Longrightarrow> \<not> checkAuthentication b \<Longrightarrow> load_page b = b\<lparr>b_page := AuthPage\<rparr>"
  by (simp_all add: load_page_def load_auth_page_def load_game_page_def checkExistingAuth_def
      checkAuthentication_def)

lemma parseInt_decimal_roundtrip: "parseInt (string_of_int n) = Some n"
proof (cases "n < 0")
  case True
  have "parseInt (CHR ''-'' # decimal (nat (- n))) = Some (- int (nat (- n)))"
    using parseInt_neg [of "decimal (nat (- n))"] decimal_digits [of "nat (- n)"] by simp
  then show ?thesis using True by (simp add: string_of_int_def)
next
  case False
  have "parseInt (decimal (nat n)) = Some (int (nat n))"
    using parseInt_digits [of "decimal (nat n)"] decimal_digits [of "nat n"] decimal_hd [of "nat n"]
    by simp
  then show ?thesis using False by (simp add: string_of_int_def)
qed

section \<open>Properties of the authentication pages\<close>

text \<open>Claim C32. What \<open>isValidEmail\<close> accepts, in terms of counts and positions
  rather than the pattern: a string is accepted exactly when it has no white space, exactly
  one \<open>@\<close>, which is not its first character, and a dot strictly inside the part after the
  \<open>@\<close> (neither its first nor its last character). So \<open>a@.b.c\<close> and \<open>a@b..c\<close> pass,
  and \<open>a@b.\<close>, \<open>a@.b\<close>, \<open>@b.c\<close> and \<open>a@b@c.d\<close> do not.\<close>

theorem isValidEmail_characterised:
  "isValidEmail s \<longleftrightarrow>
     \<not> list_ex is_space s \<and> length (filter (\<lambda>c. c = CHR ''@'') s) = 1 \<and> hd s \<noteq> CHR ''@'' \<and>
     CHR ''.'' \<in> set (butlast (tl (tl (dropWhile (\<lambda>c. c \<noteq> CHR ''@'') s))))"
proof -
  have "isValidEmail s \<longleftrightarrow>
          (\<exists>a x y. s = a @ CHR ''@'' # x @ CHR ''.'' # y \<and> plus_run a \<and> plus_run x \<and> plus_run y)"
    by (auto simp: isValidEmail_split domain_match_iff)
  then show ?thesis by (simp only: email_shape_iff)
qed

text \<open>A successful login stores token, user id, name and high score in
  \<open>localStorage\<close> with remember-me and in \<open>sessionStorage\<close> without, leaves the other
  storage alone except for the \<open>loginRedirect\<close> flag it always sets in
  \<open>localStorage\<close>, and goes to the game page.\<close>

theorem login_stores_user:
  "\<exists>b'. login remember (LoginOk t u n hs) b = Inr b' \<and> b_page b' = GamePage \<and>
     b_local b' ''loginRedirect'' = Some ''true'' \<and>
     (let st = (if remember then b_local b' else b_session b') in
        st ''token'' = Some t \<and> st ''userId'' = Some u \<and> st ''username'' = Some n \<and>
        parseInt_item (st ''highScore'') = Some (or_zero hs)) \<and>
     (if remember then b_session b' = b_session b
      else b_local b' = (b_local b)(''loginRedirect'' \<mapsto> ''true''))"
  by (simp add: login_def store_user_def Let_def parseInt_item_def parseInt_decimal_roundtrip)

text \<open>Claim C33. Following redirects always settles: from any browser state, after three
  page loads a further load changes nothing (no redirect loop between the two pages).\<close>

theorem navigation_settles: "load_page (navigate 3 b) = navigate 3 b"
  by (cases "b_page b"; cases "truthy (b_local b ''loginRedirect'')"; cases "checkAuthentication b")
     (simp_all add: numeral_3_eq_3 load_page_cases checkAuthentication_def)

text \<open>Claim C34. Logout after a login leaves the \<open>loginRedirect\<close> flag behind: the
  authentication page then redirects to the game page although no token is stored, and
  the game page sends the browser back.\<close>

theorem logout_bounce:
  assumes "login remember (LoginOk t u n hs) b = Inr b1"
  shows "b_page (load_page (logout b1)) = GamePage \<and> \<not> checkAuthentication (load_page (logout b1)) \<and>
         b_page (navigate 2 (logout b1)) = AuthPage"
proof -
  have b1: "b_local b1 ''loginRedirect'' = Some ''true''" and nt: "\<not> checkAuthentication (logout b1)"
    using assms by (auto simp: login_def logout_def store_user_def Let_def checkAuthentication_def
                      auth_keys_def split: if_splits)
  have "b_page (logout b1) = AuthPage" "truthy (b_local (logout b1) ''loginRedirect'')"
    using b1 by (simp_all add: logout_def auth_keys_def)
  then show ?thesis using nt by (simp add: numeral_2_eq_2 load_page_cases checkAuthentication_def)
qed

theorem logout_bounce_witness:
  "b_page (navigate 2 (logout (projr (login True (LoginOk ''tk'' ''7'' ''bun'' (Some 12))
       \<lparr>b_local = Map.empty, b_session = Map.empty, b_page = AuthPage\<rparr>)))) = AuthPage"
  using logout_bounce [of True "''tk''" "''7''" "''bun''" "Some 12"
      "\<lparr>b_local = Map.empty, b_session = Map.empty, b_page = AuthPage\<rparr>"
      "projr (login True (LoginOk ''tk'' ''7'' ''bun'' (Some 12))
       \<lparr>b_local = Map.empty, b_session = Map.empty, b_page = AuthPage\<rparr>)"]
  by (simp add: login_def)

end
