(* ===== verification/Leaderboard.thy ===== *)
theory Leaderboard
  imports Auth "HOL-Library.Multiset"
begin

text \<open>
  The leaderboard page, \<open>src/js/leaderboard.js\<close>: the users of the \<open>GET /users\<close>
  answer sorted by high score, the top ten displayed with ranks and medal classes,
  \<open>formatNumber\<close> (the comma-grouping regular expression), the sample data used when the
  request fails, the user bar (\<open>loadUserInfo\<close>), \<open>loadPlayerStats\<close> (which writes the
  backend's high score back into the browser storage) and \<open>refreshLeaderboard\<close>. The page's
  state is a record of the rendered rows, \<open>window.allUsers\<close>, the user bar, the last
  message and the browser storage; the backend's answer is an input.
\<close>

section \<open>Data\<close>

record user =
  u_userId :: string
  u_username :: string
  u_email :: string
  u_highScore :: int
  u_gamesPlayed :: int
  u_createdAt :: string

text \<open>The answer to \<open>GET /users\<close>: \<open>response.ok\<close> with \<open>data.users\<close> (possibly absent), or
  a failure (HTTP error, network error, invalid JSON).\<close>

datatype users_response = UsersOk "user list option" | UsersFailed

record row =
  r_rank :: nat
  r_class :: string
  r_player :: string
  r_score :: string

record lb_state =
  lb_rows :: "row list"
  lb_allUsers :: "user list option"
  lb_userName :: string
  lb_userScore :: string
  lb_message :: "string option"
  lb_browser :: browser

section \<open>formatNumber\<close>

text \<open>\<open>num.toString().replace(/\B(?=(\d{3})+(?!\d))/g, ",")\<close>: a comma goes before
  position \<open>i\<close> when \<open>i\<close> is not a word boundary and the run of digits starting there has
  a length that is a positive multiple of three (the greedy \<open>(\d{3})+\<close> must end where the
  digits end). The position after the last character never matches (the look-ahead needs a
  digit).\<close>

definition is_word :: "char \<Rightarrow> bool" where
  "is_word c \<longleftrightarrow> is_digit c \<or> (65 \<le> (of_char c :: nat) \<and> (of_char c :: nat) \<le> 90) \<or>
                 (97 \<le> (of_char c :: nat) \<and> (of_char c :: nat) \<le> 122) \<or> c = CHR ''_''"

definition comma_at :: "string \<Rightarrow> nat \<Rightarrow> bool" where
  "comma_at s i \<longleftrightarrow>
     ((0 < i \<and> is_word (s ! (i - 1))) = (i < length s \<and> is_word (s ! i))) \<and>
     (let l = length (takeWhile is_digit (drop i s)) in 3 \<le> l \<and> l mod 3 = 0)"

definition formatNumber :: "string \<Rightarrow> string" where
  "formatNumber s =
     concat (map (\<lambda>i. (if comma_at s i then [CHR '','']  else []) @ [s ! i]) [0..<length s])"

text \<open>A reference: groups of three digits from the right.\<close>

function group3 :: "string \<Rightarrow> string" where
  "group3 ds =
     (if length ds \<le> 3 then ds
      else group3 (take (length ds - 3) ds) @ CHR '','' # drop (length ds - 3) ds)"
  by auto
termination by (relation "measure length") auto

declare group3.simps [simp del]

section \<open>Sorting and display\<close>

text \<open>\<open>users.sort((a, b) => b.highScore - a.highScore)\<close>: \<open>Array.prototype.sort\<close> is
  stable, so this is a stable sort by descending high score.\<close>

definition sort_users :: "user list \<Rightarrow> user list" where
  "sort_users us = sort_key (\<lambda>u. - u_highScore u) us"

definition rank_class :: "nat \<Rightarrow> string" where
  "rank_class rank =
     (if rank = 1 then ''leaderboard-row top-player gold''
      else if rank = 2 then ''leaderboard-row top-player silver''
      else if rank = 3 then ''leaderboard-row top-player bronze''
      else ''leaderboard-row'')"

definition user_row :: "nat \<Rightarrow> user \<Rightarrow> row" where
  "user_row rank u =
     \<lparr>r_rank = rank, r_class = rank_class rank,
      r_player = (if u_username u = [] then ''Anonymous'' else u_username u),
      r_score = formatNumber (string_of_int (u_highScore u))\<rparr>"

definition displayLeaderboardData :: "user list \<Rightarrow> row list" where
  "displayLeaderboardData us = map (\<lambda>(i, u). user_row (Suc i) u) (enumerate 0 us)"

definition sample_users :: "user list" where
  "sample_users =
     [\<lparr>u_userId = ''PCwtU7YgdQbw13r24rNHj0ix5Xx1'', u_username = ''Delo'',
       u_email = ''testimonyalade191@gmail.com'', u_highScore = 297, u_gamesPlayed = 8,
       u_createdAt = ''2025-04-10T08:54:55.039Z''\<rparr>,
      \<lparr>u_userId = ''jA8IwqYgdQbw13r24rNHj0ix5Xx2'', u_username = ''PepeHop'',
       u_email = ''pepe@example.com'', u_highScore = 512, u_gamesPlayed = 15,
       u_createdAt = ''2025-04-11T10:25:12.039Z''\<rparr>,
      \<lparr>u_userId = ''K9PrT7YgdQbw13r24rNHj0ix5Xx3'', u_username = ''BunnyMaster'',
       u_email = ''bunny@example.com'', u_highScore = 756, u_gamesPlayed = 23,
       u_createdAt = ''2025-04-09T14:30:45.039Z''\<rparr>,
      \<lparr>u_userId = ''M5QtW2YgdQbw13r24rNHj0ix5Xx4'', u_username = ''HopKing'',
       u_email = ''king@example.com'', u_highScore = 421, u_gamesPlayed = 12,
       u_createdAt = ''2025-04-12T09:15:22.039Z''\<rparr>,
      \<lparr>u_userId = ''N7RsX4YgdQbw13r24rNHj0ix5Xx5'', u_username = ''JumpQueen'',
       u_email = ''queen@example.com'', u_highScore = 689, u_gamesPlayed = 19,
       u_createdAt = ''2025-04-08T11:45:33.039Z''\<rparr>]"

text \<open>\<open>loadSampleUserData()\<close>: sort, display all, store as \<open>window.allUsers\<close>.\<close>

definition loadSampleUserData :: "lb_state \<Rightarrow> lb_state" where
  "loadSampleUserData st =
     (let sorted = sort_users sample_users
      in st\<lparr>lb_rows := displayLeaderboardData sorted, lb_allUsers := Some sorted\<rparr>)"

text \<open>\<open>loadLeaderboardData()\<close> once the answer is in: the returned list and the page.\<close>

definition loadLeaderboardData :: "users_response \<Rightarrow> lb_state \<Rightarrow> user list \<times> lb_state" where
  "loadLeaderboardData resp st =
     (case resp of
        UsersFailed \<Rightarrow> ([], loadSampleUserData st)
      | UsersOk us \<Rightarrow>
          (let users = (case us of None \<Rightarrow> [] | Some l \<Rightarrow> l);
               sorted = sort_users users
           in (sorted, st\<lparr>lb_rows := displayLeaderboardData (take 10 sorted),
                          lb_allUsers := Some sorted\<rparr>)))"

section \<open>The user bar and the player's stats\<close>

text \<open>\<open>a || b\<close> on two stored items.\<close>

definition either_item :: "string option \<Rightarrow> string option \<Rightarrow> string option" where
  "either_item a b = (if truthy a then a else if truthy b then b else None)"

definition guest_names :: "string list" where
  "guest_names = [''Hopper'', ''JumpMaster'', ''BunnyFan'', ''SkipJoy'', ''LeapFrog'']"

text \<open>\<open>loadUserInfo()\<close>: the stored name and high score, or a random guest name (one
  draw of \<open>Math.random()\<close>).\<close>

definition loadUserInfo :: "lb_state \<Rightarrow> rng \<Rightarrow> lb_state \<times> rng" where
  "loadUserInfo st r =
     (let b = lb_browser st;
          username = either_item (b_local b ''username'') (b_session b ''username'');
          hs = either_item (b_local b ''highScore'') (b_session b ''highScore'')
      in case username of
           Some name \<Rightarrow>
             (st\<lparr>lb_userName := name,
                 lb_userScore := formatNumber (case hs of Some h \<Rightarrow> h | None \<Rightarrow> ''0'')\<rparr>, r)
         | None \<Rightarrow>
             (let (x, r1) = random r
              in (st\<lparr>lb_userName := ''Guest_'' @ guest_names ! nat \<lfloor>x * 5\<rfloor>, lb_userScore := ''0''\<rparr>,
                  r1)))"

text \<open>\<open>loadPlayerStats()\<close>: find the logged-in user in \<open>window.allUsers\<close> (loading it
  first when it is unset) and copy the backend's name and high score into the bar and into
  the storage that holds the token.\<close>

definition store_stats :: "user \<Rightarrow> browser \<Rightarrow> browser" where
  "store_stats u b =
     (if truthy (b_local b ''token'')
      then b\<lparr>b_local := (b_local b)(''username'' \<mapsto> u_username u,
                                     ''highScore'' \<mapsto> string_of_int (u_highScore u))\<rparr>
      else if truthy (b_session b ''token'')
      then b\<lparr>b_session := (b_session b)(''username'' \<mapsto> u_username u,
                                         ''highScore'' \<mapsto> string_of_int (u_highScore u))\<rparr>
      else b)"

text \<open>The part of \<open>loadPlayerStats()\<close> after \<open>allUsers\<close> is known: find the user and
  update the bar and the storage.\<close>

definition stats_update :: "string \<Rightarrow> user list \<Rightarrow> lb_state \<Rightarrow> lb_state" where
  "stats_update uid allUsers st1 =
     (case find (\<lambda>u. u_userId u = uid) allUsers of
        None \<Rightarrow> st1
      | Some u \<Rightarrow>
          st1\<lparr>lb_userName := (if u_username u = [] then ''Guest Player'' else u_username u),
              lb_userScore := formatNumber (string_of_int (u_highScore u)),
              lb_browser := store_stats u (lb_browser st1)\<rparr>)"

definition loadPlayerStats :: "users_response \<Rightarrow> lb_state \<Rightarrow> lb_state" where
  "loadPlayerStats resp st =
     (let b = lb_browser st in
      case either_item (b_local b ''userId'') (b_session b ''userId'') of
        None \<Rightarrow> st
      | Some uid \<Rightarrow>
          (let (allUsers, st1) = (case lb_allUsers st of
                                    Some us \<Rightarrow> (us, st)
                                  | None \<Rightarrow> loadLeaderboardData resp st)
           in stats_update uid allUsers st1))"

text \<open>\<open>refreshLeaderboard()\<close>: reload, report, then reload the player's stats.\<close>

definition refreshLeaderboard :: "users_response \<Rightarrow> lb_state \<Rightarrow> lb_state" where
  "refreshLeaderboard resp st =
     (let (users, st1) = loadLeaderboardData resp st;
          st2 = st1\<lparr>lb_message := Some (if users \<noteq> [] then ''Leaderboard refreshed successfully!''
                                          else ''Leaderboard refreshed with sample data.'')\<rparr>
      in loadPlayerStats resp st2)"

text \<open>The page load: \<open>initLeaderboard()\<close> calls \<open>loadUserInfo()\<close>, then
  \<open>loadLeaderboardData()\<close> (request A, answer \<open>ra\<close>) and \<open>loadPlayerStats()\<close> without
  awaiting either. When a user id is stored and \<open>window.allUsers\<close> is unset,
  \<open>loadPlayerStats()\<close> sends its own request B (answer \<open>rb\<close>) and continues when B
  answers; \<open>a_first\<close> says whether A answers before B. Each request clears the table before
  it waits, and each answer overwrites it, so the clearing is not visible at the end.\<close>

definition initLeaderboard ::
  "bool \<Rightarrow> users_response \<Rightarrow> users_response \<Rightarrow> lb_state \<Rightarrow> rng \<Rightarrow> lb_state \<times> rng" where
  "initLeaderboard a_first ra rb st r =
     (let (st1, r1) = loadUserInfo st r;
          b = lb_browser st1
      in (case either_item (b_local b ''userId'') (b_session b ''userId'') of
            None \<Rightarrow> snd (loadLeaderboardData ra st1)
          | Some uid \<Rightarrow>
              (case lb_allUsers st1 of
                 Some us \<Rightarrow> snd (loadLeaderboardData ra (stats_update uid us st1))
               | None \<Rightarrow>
                   (if a_first
                    then (let st2 = snd (loadLeaderboardData ra st1);
                              (usb, st3) = loadLeaderboardData rb st2
                          in stats_update uid usb st3)
                    else (let (usb, st2) = loadLeaderboardData rb st1
                          in snd (loadLeaderboardData ra (stats_update uid usb st2))))), r1))"

section \<open>Lemmas: formatNumber\<close>

lemma comma_at_digits:
  assumes "list_all is_digit ds" and "i < length ds"
  shows "comma_at ds i \<longleftrightarrow> 0 < i \<and> (length ds - i) mod 3 = 0"
proof -
  have w: "\<And>j. j < length ds \<Longrightarrow> is_word (ds ! j)"
    using assms(1) by (auto simp: list_all_length is_word_def)
  have tw: "takeWhile is_digit (drop i ds) = drop i ds"
    using assms(1) by (auto simp: list_all_iff takeWhile_eq_all_conv dest: in_set_dropD)
  show ?thesis
    unfolding comma_at_def Let_def tw
    using assms(2) w [of i] w [of "i - 1"] by (cases "0 < i"; simp; presburger)
qed

text \<open>The reference, written as one comma test per position.\<close>

lemma group3_positions:
  "group3 ds =
     concat (map (\<lambda>i. (if 0 < i \<and> (length ds - i) mod 3 = 0 then [CHR '','']  else []) @ [ds ! i])
                 [0..<length ds])"
proof (induction ds rule: group3.induct)
  case (1 ds)
  define f where "f n i = (if 0 < i \<and> (n - i) mod 3 = 0 then [CHR '','']  else []) @ [ds ! i]" for n i
  have goal: "group3 ds = concat (map (f (length ds)) [0..<length ds])"
  proof (cases "length ds \<le> 3")
    case True
    have m: "map (f (length ds)) [0..<length ds] = map (\<lambda>i. [ds ! i]) [0..<length ds]"
      using True by (intro map_cong) (auto simp: f_def, presburger)
    have "group3 ds = ds" using True by (simp add: group3.simps [of ds])
    also have "\<dots> = concat (map (\<lambda>i. [ds ! i]) [0..<length ds])" by (simp add: map_nth)
    also have "\<dots> = concat (map (f (length ds)) [0..<length ds])" by (simp only: m)
    finally show ?thesis .
  next
    case False
    define k where "k = length ds - 3"
    have n: "length ds = k + 3" using False by (simp add: k_def)
    have IH: "group3 (take k ds) = concat (map (f k) [0..<k])"
    proof -
      have "group3 (take k ds) =
          concat (map (\<lambda>i. (if 0 < i \<and> (k - i) mod 3 = 0 then [CHR '','']  else []) @ [take k ds ! i])
                      [0..<k])"
        using "1" False by (simp add: k_def)
      also have "\<dots> = concat (map (f k) [0..<k])"
        by (intro arg_cong [where f = concat] map_cong) (auto simp: f_def)
      finally show ?thesis .
    qed
    have split: "[0..<length ds] = [0..<k] @ [k, Suc k, Suc (Suc k)]"
    proof -
      have "[0..<length ds] = [0..<k] @ [k..<k + 3]" unfolding n by (rule upt_add_eq_append) simp
      moreover have "[k..<k + 3] = [k, Suc k, Suc (Suc k)]" by (simp add: numeral_3_eq_3)
      ultimately show ?thesis by simp
    qed
    have low: "map (f (length ds)) [0..<k] = map (f k) [0..<k]"
    proof (intro map_cong refl)
      fix i assume "i \<in> set [0..<k]"
      then have "length ds - i = (k - i) + 3" using n by simp
      then show "f (length ds) i = f k i" by (simp add: f_def)
    qed
    have d: "drop k ds = [ds ! k, ds ! Suc k, ds ! Suc (Suc k)]"
    proof (rule nth_equalityI)
      show "length (drop k ds) = length [ds ! k, ds ! Suc k, ds ! Suc (Suc k)]" using n by simp
      fix j assume "j < length (drop k ds)"
      then have "j = 0 \<or> j = 1 \<or> j = 2" using n by auto
      then show "drop k ds ! j = [ds ! k, ds ! Suc k, ds ! Suc (Suc k)] ! j" using n by auto
    qed
    have e: "length ds - k = 3" "length ds - Suc k = 2" "length ds - Suc (Suc k) = 1" "0 < k"
      using n False by simp_all
    have high: "concat (map (f (length ds)) [k, Suc k, Suc (Suc k)]) = CHR '','' # drop k ds"
      by (simp add: f_def d e)
    have "group3 ds = group3 (take k ds) @ CHR '','' # drop k ds"
      using False by (simp add: group3.simps [of ds] k_def)
    also have "\<dots> = concat (map (f (length ds)) [0..<k]) @ concat (map (f (length ds)) [k, Suc k, Suc (Suc k)])"
      by (simp only: IH low high)
    also have "\<dots> = concat (map (f (length ds)) [0..<length ds])" by (simp only: split map_append concat_append)
    finally show ?thesis .
  qed
  then show ?case by (simp add: f_def [abs_def])
qed

lemma formatNumber_digits:
  assumes "list_all is_digit ds"
  shows "formatNumber ds = group3 ds"
  unfolding formatNumber_def group3_positions
  by (intro arg_cong [where f = concat] map_cong refl) (simp add: comma_at_digits [OF assms])

lemma comma_at_Cons:
  assumes "\<not> is_word c"
  shows "comma_at (c # s) (Suc i) = comma_at s i"
proof -
  have "(is_word ((c # s) ! i)) = (0 < i \<and> is_word (s ! (i - 1)))"
    using assms by (cases i) simp_all
  then show ?thesis by (simp add: comma_at_def)
qed

lemma formatNumber_Cons:
  assumes "\<not> is_word c" and "\<not> is_digit c"
  shows "formatNumber (c # s) = c # formatNumber s"
proof -
  have "\<not> comma_at (c # s) 0" using assms(2) by (simp add: comma_at_def)
  moreover have "[0..<length (c # s)] = 0 # map Suc [0..<length s]"
    by (simp add: upt_conv_Cons map_Suc_upt del: upt_Suc)
  ultimately show ?thesis
    using comma_at_Cons [OF assms(1)] by (simp add: formatNumber_def comp_def)
qed

section \<open>Lemmas: sorting\<close>

lemma sort_users_props:
  "mset (sort_users us) = mset us" "sorted (map (\<lambda>u. - u_highScore u) (sort_users us))"
  "filter (\<lambda>u. u_highScore u = k) (sort_users us) = filter (\<lambda>u. u_highScore u = k) us"
proof -
  show "mset (sort_users us) = mset us" by (simp add: sort_users_def)
  show "sorted (map (\<lambda>u. - u_highScore u) (sort_users us))" by (simp add: sort_users_def)
  have "filter (\<lambda>u. - u_highScore u = - k) (sort_users us) = filter (\<lambda>u. - u_highScore u = - k) us"
    unfolding sort_users_def by (rule sort_key_stable)
  then show "filter (\<lambda>u. u_highScore u = k) (sort_users us) = filter (\<lambda>u. u_highScore u = k) us"
    by simp
qed

lemma length_sort_users [simp]: "length (sort_users us) = length us"
  by (simp add: sort_users_def)

lemma displayLeaderboardData_rows:
  "length (displayLeaderboardData us) = length us"
  "i < length us \<Longrightarrow> displayLeaderboardData us ! i = user_row (Suc i) (us ! i)"
  by (simp_all add: displayLeaderboardData_def nth_enumerate_eq)

lemma set_sort_users [simp]: "set (sort_users us) = set us"
  by (metis sort_users_props(1) set_mset_mset)

lemma sample_scores:
  "map r_score (displayLeaderboardData (sort_users sample_users)) =
     [''756'', ''689'', ''512'', ''421'', ''297'']"
  by code_simp

lemma loadPlayerStats_absent:
  assumes "lb_allUsers st = Some us"
    and "either_item (b_local (lb_browser st) ''userId'') (b_session (lb_browser st) ''userId'') \<notin>
           Some ` set (map u_userId us)"
  shows "loadPlayerStats resp st = st"
proof (cases "either_item (b_local (lb_browser st) ''userId'') (b_session (lb_browser st) ''userId'')")
  case (Some uid)
  then have "find (\<lambda>u. u_userId u = uid) us = None" using assms(2) by (auto simp: find_None_iff)
  then show ?thesis using Some assms(1) by (simp add: loadPlayerStats_def stats_update_def)
qed (simp add: loadPlayerStats_def stats_update_def)

lemma loadLeaderboardData_page:
  "lb_rows (snd (loadLeaderboardData resp st)) =
     (case resp of UsersFailed \<Rightarrow> displayLeaderboardData (sort_users sample_users)
      | UsersOk us \<Rightarrow> displayLeaderboardData (take 10 (sort_users (case us of None \<Rightarrow> [] | Some l \<Rightarrow> l))))"
  "lb_allUsers (snd (loadLeaderboardData resp st)) =
     (case resp of UsersFailed \<Rightarrow> Some (sort_users sample_users)
      | UsersOk us \<Rightarrow> Some (sort_users (case us of None \<Rightarrow> [] | Some l \<Rightarrow> l)))"
  "lb_browser (snd (loadLeaderboardData resp st)) = lb_browser st"
  by (cases resp; simp add: loadLeaderboardData_def loadSampleUserData_def Let_def)+

lemma stats_update_page [simp]:
  "lb_rows (stats_update uid us st) = lb_rows st" "lb_allUsers (stats_update uid us st) = lb_allUsers st"
  by (simp_all add: stats_update_def split: option.splits)

lemma loadUserInfo_page [simp]:
  "lb_rows (fst (loadUserInfo st r)) = lb_rows st" "lb_allUsers (fst (loadUserInfo st r)) = lb_allUsers st"
  "lb_browser (fst (loadUserInfo st r)) = lb_browser st"
  by (simp_all add: loadUserInfo_def Let_def split_def split: option.splits)

section \<open>Properties of the leaderboard\<close>

text \<open>Claim C36. With a successful answer, \<open>loadLeaderboardData\<close> returns and stores as
  \<open>window.allUsers\<close> a permutation of the users sorted by descending high score that keeps
  the answer's order among equal scores, and displays the first \<open>min 10 n\<close> of them, the
  \<open>i\<close>-th row with rank \<open>i + 1\<close>.\<close>

theorem loadLeaderboardData_top_ten:
  "let (ret, st') = loadLeaderboardData (UsersOk (Some us)) st in
   mset ret = mset us \<and> sorted (map (\<lambda>u. - u_highScore u) ret) \<and>
   (\<forall>k. filter (\<lambda>u. u_highScore u = k) ret = filter (\<lambda>u. u_highScore u = k) us) \<and>
   lb_allUsers st' = Some ret \<and> length (lb_rows st') = min 10 (length us) \<and>
   (\<forall>i < length (lb_rows st'). lb_rows st' ! i = user_row (Suc i) (ret ! i))"
  by (simp add: loadLeaderboardData_def Let_def sort_users_props displayLeaderboardData_rows)

theorem loadLeaderboardData_top_ten_witness:
  "length (lb_rows (snd (loadLeaderboardData (UsersOk (Some sample_users))
     \<lparr>lb_rows = [], lb_allUsers = None, lb_userName = [], lb_userScore = [], lb_message = None,
      lb_browser = \<lparr>b_local = Map.empty, b_session = Map.empty, b_page = GamePage\<rparr>\<rparr>))) = 5"
  using loadLeaderboardData_top_ten [of sample_users
      "\<lparr>lb_rows = [], lb_allUsers = None, lb_userName = [], lb_userScore = [], lb_message = None,
        lb_browser = \<lparr>b_local = Map.empty, b_session = Map.empty, b_page = GamePage\<rparr>\<rparr>"]
  by (simp add: Let_def split_def sample_users_def)

text \<open>Claim C39. The comma-grouping regular expression of \<open>formatNumber\<close>, applied to
  \<open>String(n)\<close>, equals grouping the digits in threes from the right, after the sign.\<close>

theorem formatNumber_groups:
  "formatNumber (string_of_int n) =
     (if n < 0 then CHR ''-'' # group3 (decimal (nat (- n))) else group3 (decimal (nat n)))"
proof -
  have nw: "\<not> is_word CHR ''-''" "\<not> is_digit CHR ''-''" by (simp_all add: is_word_def is_digit_def)
  have "\<And>m. formatNumber (decimal m) = group3 (decimal m)"
    using decimal_digits by (blast intro: formatNumber_digits)
  then show ?thesis using formatNumber_Cons [OF nw] by (simp add: string_of_int_def)
qed

text \<open>Claim C37. The error paths of \<open>refreshLeaderboard\<close>: when the request fails the
  table shows the five sample users by descending score, \<open>window.allUsers\<close> holds them,
  the message says sample data is shown, and (unless the logged-in id is a sample id) the
  storage is untouched; a successful answer without users shows an empty table with the
  same sample-data message.\<close>

theorem refresh_error_paths:
  assumes "either_item (b_local (lb_browser st) ''userId'') (b_session (lb_browser st) ''userId'') \<notin>
             Some ` set (map u_userId sample_users)"
  shows "map r_score (lb_rows (refreshLeaderboard UsersFailed st)) = [''756'', ''689'', ''512'', ''421'', ''297''] \<and>
         lb_allUsers (refreshLeaderboard UsersFailed st) = Some (sort_users sample_users) \<and>
         lb_message (refreshLeaderboard UsersFailed st) = Some ''Leaderboard refreshed with sample data.'' \<and>
         lb_browser (refreshLeaderboard UsersFailed st) = lb_browser st \<and>
         lb_rows (refreshLeaderboard (UsersOk None) st) = [] \<and>
         lb_message (refreshLeaderboard (UsersOk None) st) = Some ''Leaderboard refreshed with sample data.''"
proof -
  let ?s1 = "(loadSampleUserData st)\<lparr>lb_message := Some ''Leaderboard refreshed with sample data.''\<rparr>"
  let ?s2 = "(st\<lparr>lb_rows := displayLeaderboardData [], lb_allUsers := Some []\<rparr>)
               \<lparr>lb_message := Some ''Leaderboard refreshed with sample data.''\<rparr>"
  have f: "refreshLeaderboard UsersFailed st = loadPlayerStats UsersFailed ?s1"
    and e: "refreshLeaderboard (UsersOk None) st = loadPlayerStats (UsersOk None) ?s2"
    by (simp_all add: refreshLeaderboard_def loadLeaderboardData_def sort_users_def)
  have "loadPlayerStats UsersFailed ?s1 = ?s1"
    using assms by (intro loadPlayerStats_absent [where us = "sort_users sample_users"])
                   (simp_all add: loadSampleUserData_def Let_def)
  moreover have "loadPlayerStats (UsersOk None) ?s2 = ?s2"
    by (intro loadPlayerStats_absent [where us = "[]"]) simp_all
  ultimately show ?thesis
    by (simp add: f e loadSampleUserData_def Let_def sample_scores displayLeaderboardData_rows(1)
        [of "[]", simplified])
qed

theorem refresh_error_paths_witness:
  "lb_message (refreshLeaderboard UsersFailed
     \<lparr>lb_rows = [], lb_allUsers = None, lb_userName = [], lb_userScore = [], lb_message = None,
      lb_browser = \<lparr>b_local = Map.empty, b_session = Map.empty, b_page = GamePage\<rparr>\<rparr>) =
   Some ''Leaderboard refreshed with sample data.''"
  using refresh_error_paths [of
      "\<lparr>lb_rows = [], lb_allUsers = None, lb_userName = [], lb_userScore = [], lb_message = None,
        lb_browser = \<lparr>b_local = Map.empty, b_session = Map.empty, b_page = GamePage\<rparr>\<rparr>"]
  by (simp add: either_item_def)

text \<open>Claim C38. The table after the page load depends on the order of the two answers:
  with a logged-in user and \<open>window.allUsers\<close> unset, \<open>initLeaderboard()\<close> leaves the
  rows and \<open>window.allUsers\<close> of the request that answers last, whatever the other one
  returned.\<close>

theorem initLeaderboard_last_answer_wins:
  assumes "either_item (b_local (lb_browser st) ''userId'') (b_session (lb_browser st) ''userId'') \<noteq> None"
    and "lb_allUsers st = None"
  shows "lb_rows (fst (initLeaderboard True ra rb st r)) = lb_rows (snd (loadLeaderboardData rb st)) \<and>
         lb_allUsers (fst (initLeaderboard True ra rb st r)) = lb_allUsers (snd (loadLeaderboardData rb st)) \<and>
         lb_rows (fst (initLeaderboard False ra rb st r)) = lb_rows (snd (loadLeaderboardData ra st)) \<and>
         lb_allUsers (fst (initLeaderboard False ra rb st r)) = lb_allUsers (snd (loadLeaderboardData ra st))"
proof -
  obtain uid where u: "either_item (b_local (lb_browser st) ''userId'') (b_session (lb_browser st) ''userId'') = Some uid"
    using assms(1) by blast
  obtain st1 r1 where l: "loadUserInfo st r = (st1, r1)" by fastforce
  have "lb_browser st1 = lb_browser st" and "lb_allUsers st1 = None"
    using loadUserInfo_page [of st r] assms(2) by (simp_all add: l)
  then show ?thesis using u by (simp add: initLeaderboard_def l split_def Let_def loadLeaderboardData_page)
qed

theorem initLeaderboard_last_answer_wins_witness:
  "lb_rows (fst (initLeaderboard True (UsersOk (Some [])) UsersFailed
      \<lparr>lb_rows = [], lb_allUsers = None, lb_userName = [], lb_userScore = [], lb_message = None,
       lb_browser = \<lparr>b_local = [''userId'' \<mapsto> ''u1''], b_session = Map.empty, b_page = GamePage\<rparr>\<rparr>
      (const_rng 0.5))) \<noteq>
   lb_rows (fst (initLeaderboard False (UsersOk (Some [])) UsersFailed
      \<lparr>lb_rows = [], lb_allUsers = None, lb_userName = [], lb_userScore = [], lb_message = None,
       lb_browser = \<lparr>b_local = [''userId'' \<mapsto> ''u1''], b_session = Map.empty, b_page = GamePage\<rparr>\<rparr>
      (const_rng 0.5)))"
proof -
  have "displayLeaderboardData (sort_users sample_users) \<noteq> []"
    using sample_scores by (metis list.simps(8) list.distinct(1))
  then show ?thesis
    using initLeaderboard_last_answer_wins [where ra = "UsersOk (Some [])" and rb = UsersFailed
        and r = "const_rng 0.5" and st = "\<lparr>lb_rows = [], lb_allUsers = None, lb_userName = [],
          lb_userScore = [], lb_message = None,
          lb_browser = \<lparr>b_local = [''userId'' \<mapsto> ''u1''], b_session = Map.empty, b_page = GamePage\<rparr>\<rparr>"]
    by (simp add: either_item_def truthy_def sort_users_def loadLeaderboardData_page
        displayLeaderboardData_rows(1) [of "[]", simplified])
qed

end
