(* ===== verification/Audio.thy ===== *)
theory Audio
  imports Auth
begin

text \<open>
  The sound effects of \<open>Game\<close> in \<open>src/js/auth.js\<close> and the mute preference:
  \<open>loadAudio()\<close> (five \<open>Audio\<close> objects at volume 0.5, or five \<open>null\<close>s when the
  \<open>try\<close> block throws), \<open>setAudioMuted(muted)\<close> (the \<open>muted\<close> flag of every sound that
  is not \<open>null\<close>, in the order of \<open>Object.values\<close>), and the audio-button part of
  \<open>setupControlButtons()\<close>: the initial read of \<open>localStorage.gameMuted\<close> and the click
  handler that flips it. The button is \<open>null\<close> when the page has no \<open>#audioButton\<close>; the
  listener is attached only otherwise. The button's \<open>innerHTML\<close> is one of its two icons.
\<close>

section \<open>Sounds\<close>

text \<open>An \<open>HTMLAudioElement\<close>: its source, volume and \<open>muted\<close> flag. A new element has
  volume 1 and is not muted.\<close>

record sound =
  snd_src :: string
  snd_volume :: num
  snd_muted :: bool

definition new_Audio :: "string \<Rightarrow> sound" where
  "new_Audio src = \<lparr>snd_src = src, snd_volume = 1, snd_muted = False\<rparr>"

text \<open>\<open>this.sounds\<close>: five entries, each an element or \<open>null\<close>.\<close>

record sounds =
  s_jump :: "sound option"
  s_powerUp :: "sound option"
  s_enemyDeath :: "sound option"
  s_playerDeath :: "sound option"
  s_milestone :: "sound option"

definition no_sounds :: sounds where
  "no_sounds = \<lparr>s_jump = None, s_powerUp = None, s_enemyDeath = None, s_playerDeath = None,
                s_milestone = None\<rparr>"

text \<open>\<open>Object.values(this.sounds)\<close>, in the order the object literal lists the keys.\<close>

definition sound_values :: "sounds \<Rightarrow> sound option list" where
  "sound_values ss = [s_jump ss, s_powerUp ss, s_enemyDeath ss, s_playerDeath ss, s_milestone ss]"

text \<open>\<open>if (sound) sound.muted = muted\<close> on one entry.\<close>

definition set_muted :: "bool \<Rightarrow> sound option \<Rightarrow> sound option" where
  "set_muted m = map_option (\<lambda>s. s\<lparr>snd_muted := m\<rparr>)"

text \<open>\<open>setAudioMuted(muted)\<close>. The guard \<open>if (this.sounds)\<close> always holds: the constructor
  assigns \<open>this.sounds\<close> before any call.\<close>

definition setAudioMuted :: "bool \<Rightarrow> sounds \<Rightarrow> sounds" where
  "setAudioMuted m ss =
     ss\<lparr>s_jump := set_muted m (s_jump ss), s_powerUp := set_muted m (s_powerUp ss),
        s_enemyDeath := set_muted m (s_enemyDeath ss), s_playerDeath := set_muted m (s_playerDeath ss),
        s_milestone := set_muted m (s_milestone ss)\<rparr>"

text \<open>\<open>localStorage.getItem('gameMuted') === 'true'\<close>.\<close>

definition stored_muted :: "storage \<Rightarrow> bool" where
  "stored_muted ls \<longleftrightarrow> ls ''gameMuted'' = Some ''true''"

text \<open>\<open>String(b)\<close> of a boolean, as \<open>setItem\<close> stores it.\<close>

definition bool_string :: "bool \<Rightarrow> string" where
  "bool_string b = (if b then ''true'' else ''false'')"

text \<open>\<open>loadAudio()\<close>: \<open>audio_ok\<close> is whether the \<open>try\<close> block runs to its end (the
  \<open>Audio\<close> constructor and \<open>localStorage\<close> may throw); otherwise the \<open>catch\<close> block
  leaves five \<open>null\<close>s.\<close>

definition loadAudio :: "bool \<Rightarrow> storage \<Rightarrow> sounds" where
  "loadAudio audio_ok ls =
     (if audio_ok then
        (let mk = (\<lambda>src. Some ((new_Audio src)\<lparr>snd_volume := 0.5\<rparr>));
             ss = \<lparr>s_jump = mk ''assets/jump.mp3'', s_powerUp = mk ''assets/powerup.mp3'',
                   s_enemyDeath = mk ''assets/enemy_death.mp3'',
                   s_playerDeath = mk ''assets/player_death.mp3'',
                   s_milestone = mk ''assets/milestone.mp3''\<rparr>
         in setAudioMuted (stored_muted ls) ss)
      else no_sounds)"

section \<open>The audio button\<close>

datatype icon = VolumeUp | VolumeMute

record audio_button =
  ab_icon :: icon
  ab_active :: bool

record audio =
  a_sounds :: sounds
  a_button :: "audio_button option"

text \<open>\<open>setupControlButtons()\<close>, audio part: with a button, the stored preference is
  applied again and, when muted, shown on the button.\<close>

definition setup_audio_button :: "storage \<Rightarrow> audio \<Rightarrow> audio" where
  "setup_audio_button ls a =
     (case a_button a of
        None \<Rightarrow> a
      | Some bt \<Rightarrow>
          (let m = stored_muted ls;
               bt' = (if m then bt\<lparr>ab_icon := VolumeMute, ab_active := True\<rparr> else bt)
           in a\<lparr>a_sounds := setAudioMuted m (a_sounds a), a_button := Some bt'\<rparr>))"

text \<open>The click handler of the audio button: it reads the stored flag, negates it,
  applies it to the sounds, stores it and updates the button.\<close>

definition audio_click :: "storage \<Rightarrow> audio \<Rightarrow> audio \<times> storage" where
  "audio_click ls a =
     (case a_button a of
        None \<Rightarrow> (a, ls)
      | Some bt \<Rightarrow>
          (let newMuted = \<not> stored_muted ls;
               ss = setAudioMuted newMuted (a_sounds a);
               ls' = ls(''gameMuted'' \<mapsto> bool_string newMuted);
               bt' = (if newMuted then bt\<lparr>ab_icon := VolumeMute, ab_active := True\<rparr>
                      else bt\<lparr>ab_icon := VolumeUp, ab_active := False\<rparr>)
           in (a\<lparr>a_sounds := ss, a_button := Some bt'\<rparr>, ls')))"

text \<open>The audio of a new \<open>Game\<close>: the constructor's \<open>loadAudio()\<close>, then the audio part
  of its \<open>setupControlButtons()\<close>; \<open>btn\<close> is the page's button, if any.\<close>

definition game_audio :: "bool \<Rightarrow> audio_button option \<Rightarrow> storage \<Rightarrow> audio" where
  "game_audio audio_ok btn ls = setup_audio_button ls \<lparr>a_sounds = loadAudio audio_ok ls, a_button = btn\<rparr>"

text \<open>\<open>n\<close> clicks on the audio button.\<close>

fun audio_clicks :: "nat \<Rightarrow> audio \<times> storage \<Rightarrow> audio \<times> storage" where
  "audio_clicks 0 s = s"
| "audio_clicks (Suc n) (a, ls) = audio_clicks n (audio_click ls a)"

text \<open>The button shows the stored preference.\<close>

definition button_agrees :: "storage \<Rightarrow> audio_button \<Rightarrow> bool" where
  "button_agrees ls bt \<longleftrightarrow>
     ab_active bt = stored_muted ls \<and> ab_icon bt = (if stored_muted ls then VolumeMute else VolumeUp)"

text \<open>The sounds agree with the stored preference: every sound that is loaded is muted
  exactly when \<open>gameMuted\<close> reads \<open>'true'\<close>.\<close>

definition sounds_agree :: "storage \<Rightarrow> sounds \<Rightarrow> bool" where
  "sounds_agree ls ss \<longleftrightarrow> list_all (pred_option (\<lambda>s. snd_muted s = stored_muted ls)) (sound_values ss)"

section \<open>Lemmas\<close>

lemma set_muted_twice [simp]: "set_muted m (set_muted m' x) = set_muted m x"
  by (cases x) (simp_all add: set_muted_def)

lemma setAudioMuted_twice [simp]: "setAudioMuted m (setAudioMuted m' ss) = setAudioMuted m ss"
  by (simp add: setAudioMuted_def)

lemma set_muted_pred [simp]: "pred_option (\<lambda>s. snd_muted s = m) (set_muted m x)"
  by (cases x) (simp_all add: set_muted_def)

lemma setAudioMuted_agree: "sounds_agree ls (setAudioMuted (stored_muted ls) ss)"
  by (simp add: sounds_agree_def sound_values_def setAudioMuted_def)

lemma stored_muted_upd [simp]: "stored_muted (ls(''gameMuted'' \<mapsto> bool_string b)) = b"
  by (simp add: stored_muted_def bool_string_def)

lemma set_muted_same: "pred_option (\<lambda>s. snd_muted s = m) x \<Longrightarrow> set_muted m x = x"
  by (cases x) (simp_all add: set_muted_def)

lemma setAudioMuted_same:
  "sounds_agree ls ss \<Longrightarrow> setAudioMuted (stored_muted ls) ss = ss"
  by (simp add: sounds_agree_def sound_values_def setAudioMuted_def set_muted_same)

lemma audio_click_Some:
  "a_button a = Some bt \<Longrightarrow> audio_click ls a =
     (a\<lparr>a_sounds := setAudioMuted (\<not> stored_muted ls) (a_sounds a),
        a_button := Some (if \<not> stored_muted ls then bt\<lparr>ab_icon := VolumeMute, ab_active := True\<rparr>
                          else bt\<lparr>ab_icon := VolumeUp, ab_active := False\<rparr>)\<rparr>,
      ls(''gameMuted'' \<mapsto> bool_string (\<not> stored_muted ls)))"
  by (simp add: audio_click_def Let_def)

lemma audio_click_None: "a_button a = None \<Longrightarrow> audio_click ls a = (a, ls)"
  by (simp add: audio_click_def)

lemma audio_click_agree:
  "case audio_click ls a of (a', ls') \<Rightarrow> sounds_agree ls (a_sounds a) \<longrightarrow> sounds_agree ls' (a_sounds a')"
  by (cases "a_button a")
     (auto simp: audio_click_None audio_click_Some simp del: stored_muted_upd
           intro: setAudioMuted_agree [of "ls(''gameMuted'' \<mapsto> bool_string (\<not> stored_muted ls))",
                    simplified stored_muted_upd])

lemma setup_audio_button_agree: "sounds_agree ls (a_sounds (setup_audio_button ls \<lparr>a_sounds = setAudioMuted (stored_muted ls) ss, a_button = btn\<rparr>))"
  by (cases btn) (simp_all add: setup_audio_button_def Let_def setAudioMuted_agree)

lemma setAudioMuted_no_sounds [simp]: "setAudioMuted m no_sounds = no_sounds"
  by (simp add: setAudioMuted_def no_sounds_def set_muted_def)

lemma game_audio_button: "a_button (game_audio ok btn ls) = None \<longleftrightarrow> btn = None"
  by (cases btn) (simp_all add: game_audio_def setup_audio_button_def Let_def)

lemma game_audio_agree: "sounds_agree ls (a_sounds (game_audio ok btn ls))"
proof (cases ok)
  case True
  then show ?thesis by (simp add: game_audio_def loadAudio_def Let_def setup_audio_button_agree)
next
  case False
  have "no_sounds = setAudioMuted (stored_muted ls) no_sounds" by simp
  then show ?thesis using False
    by (simp only: game_audio_def loadAudio_def if_False) (metis setup_audio_button_agree)
qed

lemma audio_clicks_agree:
  "sounds_agree ls (a_sounds a) \<Longrightarrow> case audio_clicks n (a, ls) of (a', ls') \<Rightarrow> sounds_agree ls' (a_sounds a')"
proof (induction n arbitrary: a ls)
  case 0
  then show ?case by simp
next
  case (Suc n)
  obtain a1 ls1 where c: "audio_click ls a = (a1, ls1)" by fastforce
  then have "sounds_agree ls1 (a_sounds a1)" using audio_click_agree [of ls a] Suc.prems by simp
  then show ?case using Suc.IH c by simp
qed

text \<open>The stored flag under a sequence of clicks: the button stays, each click flips the
  flag that \<open>=== 'true'\<close> reads, no other key changes, and from the first click on the
  stored value is \<open>String\<close> of a boolean.\<close>

lemma audio_clicks_flag:
  "a_button a \<noteq> None \<Longrightarrow> case audio_clicks n (a, ls) of (a', ls') \<Rightarrow>
     a_button a' \<noteq> None \<and> stored_muted ls' = (stored_muted ls \<noteq> odd n) \<and>
     (\<forall>k. k \<noteq> ''gameMuted'' \<longrightarrow> ls' k = ls k) \<and>
     (0 < n \<longrightarrow> ls' ''gameMuted'' \<in> {Some ''true'', Some ''false''})"
proof (induction n arbitrary: a ls)
  case 0
  then show ?case by simp
next
  case (Suc n)
  then obtain bt where bt: "a_button a = Some bt" by blast
  let ?ls1 = "ls(''gameMuted'' \<mapsto> bool_string (\<not> stored_muted ls))"
  obtain a1 where c: "audio_click ls a = (a1, ?ls1)" and b1: "a_button a1 \<noteq> None"
    using audio_click_Some [OF bt, of ls] by simp
  obtain a' ls' where r: "audio_clicks n (a1, ?ls1) = (a', ls')" by fastforce
  have ih: "a_button a' \<noteq> None \<and> stored_muted ls' = (stored_muted ?ls1 \<noteq> odd n) \<and>
      (\<forall>k. k \<noteq> ''gameMuted'' \<longrightarrow> ls' k = ?ls1 k) \<and>
      (0 < n \<longrightarrow> ls' ''gameMuted'' \<in> {Some ''true'', Some ''false''})"
    using Suc.IH [OF b1, of ?ls1] by (simp only: r prod.case) blast
  have "ls' ''gameMuted'' \<in> {Some ''true'', Some ''false''}"
  proof (cases n)
    case 0
    then show ?thesis using r by (auto simp: bool_string_def)
  next
    case (Suc m)
    then show ?thesis using ih by simp
  qed
  then show ?case using ih c r by simp
qed

lemma audio_clicks_Suc_last:
  "audio_clicks (Suc n) s = (case audio_clicks n s of (a, ls) \<Rightarrow> audio_click ls a)"
proof (induction n arbitrary: s)
  case 0
  then show ?case by (cases s) simp
next
  case (Suc n)
  then show ?case by (cases s) simp
qed

lemma audio_click_button_agrees:
  "case audio_click ls a of (a', ls') \<Rightarrow> pred_option (button_agrees ls') (a_button a')"
  by (cases "a_button a") (simp_all add: audio_click_None audio_click_Some button_agrees_def)

lemma audio_clicks_no_sounds:
  "a_sounds a = no_sounds \<Longrightarrow> a_sounds (fst (audio_clicks n (a, ls))) = no_sounds"
proof (induction n arbitrary: a ls)
  case (Suc n)
  have "a_sounds (fst (audio_click ls a)) = no_sounds"
    using Suc.prems by (cases "a_button a") (simp_all add: audio_click_None audio_click_Some)
  then show ?case using Suc.IH [of "fst (audio_click ls a)" "snd (audio_click ls a)"] by simp
qed simp

lemma game_audio_failed: "a_sounds (game_audio False btn ls) = no_sounds"
  by (cases btn) (simp_all add: game_audio_def loadAudio_def setup_audio_button_def Let_def)

section \<open>Properties\<close>

text \<open>Claim C29. The mute preference is stored as a boolean: on a page with an audio
  button, after the game has loaded its audio and the button has been clicked \<open>n \<ge> 1\<close>
  times, \<open>localStorage.gameMuted\<close> holds \<open>'true'\<close> or \<open>'false'\<close>, it reads back as the
  initial preference flipped \<open>n\<close> times, and no other key of \<open>localStorage\<close> changes.\<close>

theorem gameMuted_boolean:
  assumes "btn \<noteq> None" and "0 < n"
  shows "case audio_clicks n (game_audio ok btn ls, ls) of (a, ls') \<Rightarrow>
           ls' ''gameMuted'' \<in> {Some ''true'', Some ''false''} \<and>
           stored_muted ls' = (stored_muted ls \<noteq> odd n) \<and>
           (\<forall>k. k \<noteq> ''gameMuted'' \<longrightarrow> ls' k = ls k)"
  using audio_clicks_flag [where a = "game_audio ok btn ls" and n = n and ls = ls] assms game_audio_button
  by (auto split: prod.splits)

theorem gameMuted_boolean_witness:
  "case audio_clicks 3 (game_audio True (Some \<lparr>ab_icon = VolumeUp, ab_active = False\<rparr>) Map.empty,
                        Map.empty) of (a, ls') \<Rightarrow> ls' ''gameMuted'' \<in> {Some ''true'', Some ''false''}"
  using gameMuted_boolean [where btn = "Some \<lparr>ab_icon = VolumeUp, ab_active = False\<rparr>" and n = 3
      and ok = True and ls = Map.empty]
  by (auto split: prod.splits)

text \<open>Claim C28. The sounds follow the stored preference: after the game has loaded its
  audio and after any number of clicks on the audio button, every loaded sound is muted
  exactly when \<open>gameMuted\<close> reads \<open>'true'\<close>, and once the button has been clicked it
  shows that preference.\<close>

theorem mute_state_consistent:
  "case audio_clicks n (game_audio ok btn ls, ls) of (a, ls') \<Rightarrow>
     sounds_agree ls' (a_sounds a) \<and> (0 < n \<longrightarrow> pred_option (button_agrees ls') (a_button a))"
proof -
  have "case audio_clicks n (game_audio ok btn ls, ls) of (a, ls') \<Rightarrow> sounds_agree ls' (a_sounds a)"
    by (rule audio_clicks_agree [OF game_audio_agree])
  moreover have "0 < n \<Longrightarrow> case audio_clicks n (game_audio ok btn ls, ls) of (a, ls') \<Rightarrow>
      pred_option (button_agrees ls') (a_button a)"
  proof -
    assume "0 < n"
    then obtain m where n: "n = Suc m" by (cases n) auto
    obtain a1 ls1 where r: "audio_clicks m (game_audio ok btn ls, ls) = (a1, ls1)" by fastforce
    show ?thesis using audio_click_button_agrees [of ls1 a1] by (simp add: n audio_clicks_Suc_last r)
  qed
  ultimately show ?thesis by (auto split: prod.splits)
qed

theorem mute_state_consistent_witness:
  "case audio_clicks 1 (game_audio True (Some \<lparr>ab_icon = VolumeUp, ab_active = False\<rparr>)
          [''gameMuted'' \<mapsto> ''true''], [''gameMuted'' \<mapsto> ''true'']) of (a, ls') \<Rightarrow>
     pred_option (button_agrees ls') (a_button a)"
  using mute_state_consistent [where n = 1 and ok = True
      and btn = "Some \<lparr>ab_icon = VolumeUp, ab_active = False\<rparr>" and ls = "[''gameMuted'' \<mapsto> ''true'']"]
  by (simp split: prod.splits)

text \<open>Two clicks on the audio button undo each other: when the stored value is
  a boolean string and the sounds and the button show it, two clicks give back the same
  sounds, button and \<open>localStorage\<close>.\<close>

theorem audio_click_twice:
  assumes "a_button a = Some bt" and "button_agrees ls bt" and "sounds_agree ls (a_sounds a)"
    and "ls ''gameMuted'' \<in> {Some ''true'', Some ''false''}"
  shows "audio_clicks 2 (a, ls) = (a, ls)"
proof -
  have ls: "ls(''gameMuted'' \<mapsto> bool_string (stored_muted ls)) = ls"
    using assms(4) by (auto simp: stored_muted_def bool_string_def)
  have bt: "stored_muted ls \<Longrightarrow> bt\<lparr>ab_icon := VolumeMute, ab_active := True\<rparr> = bt"
    "\<not> stored_muted ls \<Longrightarrow> bt\<lparr>ab_icon := VolumeUp, ab_active := False\<rparr> = bt"
    using assms(2) by (simp_all add: button_agrees_def)
  have a: "a\<lparr>a_button := Some bt\<rparr> = a" using assms(1) by simp
  show ?thesis
    using assms(1) ls bt a setAudioMuted_same [OF assms(3)]
    by (simp add: numeral_2_eq_2 audio_click_Some del: fun_upd_apply)
qed

theorem audio_click_twice_witness:
  "audio_clicks 2 (game_audio True (Some \<lparr>ab_icon = VolumeUp, ab_active = False\<rparr>) [''gameMuted'' \<mapsto> ''true''],
                   [''gameMuted'' \<mapsto> ''true'']) =
   (game_audio True (Some \<lparr>ab_icon = VolumeUp, ab_active = False\<rparr>) [''gameMuted'' \<mapsto> ''true''],
    [''gameMuted'' \<mapsto> ''true''])"
proof -
  let ?ls = "[''gameMuted'' \<mapsto> ''true'']"
  let ?a = "game_audio True (Some \<lparr>ab_icon = VolumeUp, ab_active = False\<rparr>) ?ls"
  have b: "a_button ?a = Some \<lparr>ab_icon = VolumeMute, ab_active = True\<rparr>"
    by (simp add: game_audio_def setup_audio_button_def stored_muted_def)
  have "button_agrees ?ls \<lparr>ab_icon = VolumeMute, ab_active = True\<rparr>"
    by (simp add: button_agrees_def stored_muted_def)
  moreover have "sounds_agree ?ls (a_sounds ?a)" by (rule game_audio_agree)
  moreover have "?ls ''gameMuted'' \<in> {Some ''true'', Some ''false''}" by simp
  ultimately show ?thesis by (rule audio_click_twice [OF b])
qed

text \<open>When \<open>loadAudio()\<close> fails, the game runs without sound: every entry of
  \<open>this.sounds\<close> stays \<open>null\<close> through any number of clicks, while the audio button
  still flips and stores the preference.\<close>

theorem audio_load_failure:
  "case audio_clicks n (game_audio False btn ls, ls) of (a, ls') \<Rightarrow>
     a_sounds a = no_sounds \<and> (btn \<noteq> None \<longrightarrow> stored_muted ls' = (stored_muted ls \<noteq> odd n))"
proof -
  have "a_sounds (fst (audio_clicks n (game_audio False btn ls, ls))) = no_sounds"
    by (rule audio_clicks_no_sounds [OF game_audio_failed])
  moreover have "btn \<noteq> None \<Longrightarrow> stored_muted (snd (audio_clicks n (game_audio False btn ls, ls))) =
      (stored_muted ls \<noteq> odd n)"
    using audio_clicks_flag [where a = "game_audio False btn ls" and n = n and ls = ls] game_audio_button
    by (auto split: prod.splits)
  ultimately show ?thesis by (auto split: prod.splits)
qed

theorem audio_load_failure_witness:
  "case audio_clicks 1 (game_audio False (Some \<lparr>ab_icon = VolumeUp, ab_active = False\<rparr>) Map.empty, Map.empty)
     of (a, ls') \<Rightarrow> a_sounds a = no_sounds \<and> stored_muted ls'"
  using audio_load_failure [where n = 1 and btn = "Some \<lparr>ab_icon = VolumeUp, ab_active = False\<rparr>"
      and ls = Map.empty]
  by (simp add: stored_muted_def split: prod.splits)

end
