(* ===== verification/Resize.thy ===== *)
theory Resize
  imports Game
begin

text \<open>
  Window resizing in the \<open>Game\<close> class of \<open>src/js/auth.js\<close>: \<open>resizeCanvas()\<close> (run on
  \<open>resize\<close>, \<open>orientationchange\<close> and \<open>visibilitychange\<close>) sets the canvas to the window
  size, calls \<open>adjustEntitiesForResize(isPortrait, isMobile)\<close>, and then puts the camera so
  that the player is at 70\% of the screen height. The constructor's own first call runs
  before the player, the camera and the managers exist, so there it only sets the canvas
  size, which \<open>new_Game\<close> takes as its arguments; the model covers the later calls on a
  constructed game. The enemy and power-up managers are not among the sources and have no
  canvas size in the model; the render that follows while the game runs is part of the
  resize event of theory \<open>GameOver\<close>.
\<close>

section \<open>Operations\<close>

text \<open>\<open>adjustEntitiesForResize(isPortrait, isMobile)\<close>, in the order of the code.\<close>

definition adjustEntitiesForResize :: "bool \<Rightarrow> bool \<Rightarrow> game \<Rightarrow> game" where
  "adjustEntitiesForResize isPortrait isMobile g =
     (let cw = g_canvasWidth g; ch = g_canvasHeight g;
          pm = (g_pm g)\<lparr>pm_canvasWidth := cw, pm_canvasHeight := ch\<rparr>;
          pl0 = g_player g;
          pl1 = pl0\<lparr>pl_x := min (cw - pl_width pl0) (max 0 (cw / 2 - pl_width pl0 / 2))\<rparr>;
          screenY = pl_y pl1 - cam_y (g_camera g);
          pl2 = (if screenY < 0 \<or> screenY > ch then pl1\<lparr>pl_y := cam_y (g_camera g) + ch * 0.7\<rparr>
                 else pl1);
          cam = g_camera g;
          cam' = (if isMobile \<and> isPortrait
                  then (let y = cam_y cam - ch * 0.1 in cam\<lparr>cam_y := y, cam_targetY := y\<rparr>)
                  else cam)
      in g\<lparr>g_pm := pm, g_player := pl2, g_camera := cam'\<rparr>)"

text \<open>The end of \<open>resizeCanvas()\<close>: the forced camera position.\<close>

definition resize_camera :: "game \<Rightarrow> game" where
  "resize_camera g =
     (let y = pl_y (g_player g) - g_canvasHeight g * 0.7
      in g\<lparr>g_camera := (g_camera g)\<lparr>cam_y := y, cam_targetY := y\<rparr>\<rparr>)"

text \<open>\<open>resizeCanvas()\<close> with the window size \<open>ww \<times> wh\<close>.\<close>

definition resizeCanvas :: "num \<Rightarrow> num \<Rightarrow> game \<Rightarrow> game" where
  "resizeCanvas ww wh g =
     (let g1 = g\<lparr>g_canvasWidth := ww, g_canvasHeight := wh\<rparr>
      in resize_camera (adjustEntitiesForResize (wh > ww) (ww \<le> 430) g1))"

section \<open>Lemmas\<close>

lemma adjustEntitiesForResize_fields [simp]:
  "g_canvasWidth (adjustEntitiesForResize p m g) = g_canvasWidth g"
  "g_canvasHeight (adjustEntitiesForResize p m g) = g_canvasHeight g"
  "pl_width (g_player (adjustEntitiesForResize p m g)) = pl_width (g_player g)"
  "pl_x (g_player (adjustEntitiesForResize p m g)) =
     min (g_canvasWidth g - pl_width (g_player g)) (max 0 (g_canvasWidth g / 2 - pl_width (g_player g) / 2))"
  "pm_canvasWidth (g_pm (adjustEntitiesForResize p m g)) = g_canvasWidth g"
  "pm_canvasHeight (g_pm (adjustEntitiesForResize p m g)) = g_canvasHeight g"
  "g_isRunning (adjustEntitiesForResize p m g) = g_isRunning g"
  "g_score (adjustEntitiesForResize p m g) = g_score g"
  by (simp_all add: adjustEntitiesForResize_def Let_def)

lemma resize_camera_fields [simp]:
  "g_player (resize_camera g) = g_player g" "g_pm (resize_camera g) = g_pm g"
  "g_canvasWidth (resize_camera g) = g_canvasWidth g" "g_canvasHeight (resize_camera g) = g_canvasHeight g"
  "cam_y (g_camera (resize_camera g)) = pl_y (g_player g) - g_canvasHeight g * 0.7"
  "cam_targetY (g_camera (resize_camera g)) = pl_y (g_player g) - g_canvasHeight g * 0.7"
  by (simp_all add: resize_camera_def Let_def)

lemma new_Game_player:
  "g_player (fst (new_Game cw ch hs r)) = new_Player (cw / 2 - 30) (ch - 150) 60 100"
  by (simp add: new_Game_def split_def initEntities_def Let_def)

lemma centre_in_canvas:
  fixes cw w :: num
  assumes "w \<le> cw"
  shows "min (cw - w) (max 0 (cw / 2 - w / 2)) = (cw - w) / 2"
  using assms by (simp add: min_def max_def field_simps)

lemma adjustEntitiesForResize_visible:
  "0 \<le> pl_y (g_player g) - cam_y (g_camera g) \<Longrightarrow> pl_y (g_player g) - cam_y (g_camera g) \<le> g_canvasHeight g \<Longrightarrow>
   pl_y (g_player (adjustEntitiesForResize p m g)) = pl_y (g_player g)"
  by (simp add: adjustEntitiesForResize_def Let_def)

section \<open>Properties\<close>

text \<open>Claim C30. After a resize to a window at least as wide as the player, the player is
  centred horizontally inside the canvas and the camera puts it at 70\% of the new screen
  height, with the camera target equal to the camera; the platform manager gets the new
  canvas size; a player that was on the old screen keeps its height.\<close>

theorem resize_player_in_view:
  assumes "pl_width (g_player g) \<le> ww"
  shows "let g' = resizeCanvas ww wh g; p = g_player g' in
     0 \<le> pl_x p \<and> pl_x p + pl_width p \<le> ww \<and> pl_x p = (ww - pl_width p) / 2 \<and>
     pl_y p - cam_y (g_camera g') = wh * 0.7 \<and> cam_targetY (g_camera g') = cam_y (g_camera g') \<and>
     pm_canvasWidth (g_pm g') = ww \<and> pm_canvasHeight (g_pm g') = wh \<and>
     (0 \<le> pl_y (g_player g) - cam_y (g_camera g) \<and> pl_y (g_player g) - cam_y (g_camera g) \<le> wh \<longrightarrow>
      pl_y p = pl_y (g_player g))"
proof -
  let ?g1 = "g\<lparr>g_canvasWidth := ww, g_canvasHeight := wh\<rparr>"
  have x: "pl_x (g_player (adjustEntitiesForResize (wh > ww) (ww \<le> 430) ?g1)) = (ww - pl_width (g_player g)) / 2"
    using centre_in_canvas [OF assms] by simp
  have "0 \<le> (ww - pl_width (g_player g)) / 2" using assms by simp
  moreover have "(ww - pl_width (g_player g)) / 2 + pl_width (g_player g) \<le> ww"
    using assms by (simp add: field_simps)
  ultimately show ?thesis
    using adjustEntitiesForResize_visible [of ?g1] by (simp add: resizeCanvas_def Let_def x)
qed

theorem resize_player_in_view_witness:
  "let g' = resizeCanvas 800 600 (fst (new_Game 400 600 0 (const_rng 0.5))) in
     pl_x (g_player g') + pl_width (g_player g') \<le> 800"
  using resize_player_in_view [where ww = 800 and wh = 600 and g = "fst (new_Game 400 600 0 (const_rng 0.5))"]
  by (simp add: Let_def new_Game_player new_Player_def)

text \<open>Claim C31. The camera adjustment for phones in portrait orientation has no effect:
  \<open>adjustEntitiesForResize\<close> lowers the camera by 10\% of the height when
  \<open>innerWidth \<le> 430\<close> and the window is portrait, but \<open>resizeCanvas\<close> overwrites the camera
  right after, so every resize gives the result of the desktop path.\<close>

theorem resize_mobile_adjustment_lost:
  "resizeCanvas ww wh g =
     resize_camera (adjustEntitiesForResize False False (g\<lparr>g_canvasWidth := ww, g_canvasHeight := wh\<rparr>))"
  by (simp add: resizeCanvas_def resize_camera_def adjustEntitiesForResize_def Let_def)

end
