(* ===== verification/GameOver.thy ===== *)
theory GameOver
  imports Session Resize
begin

text \<open>
  The game-over screen of \<open>Game\<close> in \<open>src/js/auth.js\<close> and its canvas restart area.
  \<open>drawGameOverScreen()\<close> draws a \<open>TRY AGAIN\<close> button whose rectangle it stores in
  \<open>this.restartButtonBounds\<close>; \<open>render()\<close> calls it while the game is over. Each call of
  \<open>gameOver()\<close> registers a new \<open>handleInteraction\<close> closure for \<open>click\<close> and
  \<open>touchend\<close> on the canvas; a handler removes itself and calls \<open>restart()\<close> when the
  pointer is inside the stored rectangle, and nothing else removes it. A \<open>screen\<close> is the
  session's world together with the stored rectangle and the number of registered
  handlers; the host's events are those of the session, with the restart button of the
  page and the canvas told apart. All handlers registered when a pointer event arrives
  run on it in registration order; a handler registered during the dispatch does not. The
  window's \<open>resize\<close>, \<open>orientationchange\<close> and \<open>visibilitychange\<close> listeners call
  \<open>resizeCanvas()\<close>, which renders the screen again only while the game runs.
\<close>

section \<open>The button of the game-over screen\<close>

record rect =
  rc_x :: num
  rc_y :: num
  rc_width :: num
  rc_height :: num

text \<open>The centre of the screen's layout, \<open>(canvas.width / 2, canvas.height * 0.4)\<close>.\<close>

definition game_over_center :: "num \<Rightarrow> num \<Rightarrow> num \<times> num" where
  "game_over_center cw ch = (cw / 2, ch * 0.4)"

text \<open>The score panel, 280 by 150, 50 px below the centre.\<close>

definition game_over_panel :: "num \<Rightarrow> num \<Rightarrow> rect" where
  "game_over_panel cw ch =
     (let (centerX, centerY) = game_over_center cw ch
      in \<lparr>rc_x = centerX - 280 / 2, rc_y = centerY + 50, rc_width = 280, rc_height = 150\<rparr>)"

text \<open>The \<open>TRY AGAIN\<close> button, 200 by 60, 30 px below the panel.\<close>

definition restart_button :: "num \<Rightarrow> num \<Rightarrow> rect" where
  "restart_button cw ch =
     (let centerX = fst (game_over_center cw ch); panel = game_over_panel cw ch
      in \<lparr>rc_x = centerX - 200 / 2, rc_y = rc_y panel + rc_height panel + 30,
          rc_width = 200, rc_height = 60\<rparr>)"

text \<open>What \<open>drawGameOverScreen()\<close> stores in \<open>this.restartButtonBounds\<close>.\<close>

definition drawGameOverScreen :: "game \<Rightarrow> rect" where
  "drawGameOverScreen g = restart_button (g_canvasWidth g) (g_canvasHeight g)"

text \<open>The effect of \<open>render()\<close> on \<open>this.restartButtonBounds\<close>.\<close>

definition render :: "game \<Rightarrow> rect option \<Rightarrow> rect option" where
  "render g b = (if g_isGameOver g then Some (drawGameOverScreen g) else b)"

section \<open>The canvas handler\<close>

text \<open>A pointer event in client coordinates: a mouse click, or a \<open>touchend\<close> with its
  changed touches.\<close>

datatype pointer_event = MouseClick num num | TouchEnd "(num \<times> num) list"

text \<open>The canvas coordinates \<open>handleInteraction\<close> computes, given the canvas's
  \<open>getBoundingClientRect()\<close> origin; \<open>None\<close> is the early return of a \<open>touchend\<close>
  without touches.\<close>

definition interaction_point :: "num \<times> num \<Rightarrow> pointer_event \<Rightarrow> (num \<times> num) option" where
  "interaction_point origin e =
     (case e of
        MouseClick cx cy \<Rightarrow> Some (cx - fst origin, cy - snd origin)
      | TouchEnd ts \<Rightarrow>
          (case ts of [] \<Rightarrow> None | (cx, cy) # _ \<Rightarrow> Some (cx - fst origin, cy - snd origin)))"

text \<open>The bounds test of \<open>handleInteraction\<close>.\<close>

definition in_rect :: "rect \<Rightarrow> num \<times> num \<Rightarrow> bool" where
  "in_rect b p \<longleftrightarrow>
     fst p \<ge> rc_x b \<and> fst p \<le> rc_x b + rc_width b \<and> snd p \<ge> rc_y b \<and> snd p \<le> rc_y b + rc_height b"

record screen =
  sc_world :: world
  sc_bounds :: "rect option"
  sc_listeners :: nat

text \<open>The screen after an operation of the session that went from \<open>sc_world sc\<close> to
  \<open>w'\<close>. \<open>gameOver()\<close> was called when \<open>w'\<close> is over and the operation's frame started
  on a game that was not over: either the game was not over before, or the operation set
  \<open>isGameOver = false\<close> before its frame (\<open>fresh\<close>: \<open>restart()\<close>, and \<open>start()\<close> on a
  stopped game, which reruns the death of a dead player). Each call registers one more
  handler and renders.\<close>

definition screen_after :: "bool \<Rightarrow> world \<Rightarrow> screen \<Rightarrow> screen" where
  "screen_after fresh w' sc =
     (if g_isGameOver (w_game w') \<and> (fresh \<or> \<not> g_isGameOver (w_game (sc_world sc)))
      then sc\<lparr>sc_world := w', sc_listeners := Suc (sc_listeners sc),
              sc_bounds := render (w_game w') (sc_bounds sc)\<rparr>
      else sc\<lparr>sc_world := w'\<rparr>)"

text \<open>\<open>resizeCanvas()\<close> on the screen: the canvas gets the window size, and the screen is
  rendered again (the score timers advance and \<open>restartButtonBounds\<close> is recomputed)
  only if the game is running.\<close>

definition screen_resize :: "num \<Rightarrow> num \<Rightarrow> screen \<Rightarrow> screen" where
  "screen_resize ww wh sc =
     (let w = sc_world sc; g' = resizeCanvas ww wh (w_game w)
      in sc\<lparr>sc_world := w\<lparr>w_game := (if g_isRunning g' then render_game g' else g')\<rparr>,
            sc_bounds := (if g_isRunning g' then render g' (sc_bounds sc) else sc_bounds sc)\<rparr>)"

definition screen_restart :: "num \<Rightarrow> screen \<Rightarrow> screen option" where
  "screen_restart now sc = map_option (\<lambda>w'. screen_after True w' sc) (Game_restart now (sc_world sc))"

text \<open>The \<open>k\<close> handlers registered when a pointer event at canvas point \<open>p\<close> arrives,
  in order: each one that finds \<open>p\<close> inside the stored rectangle removes itself and
  restarts the game.\<close>

fun fire :: "nat \<Rightarrow> num \<Rightarrow> num \<times> num \<Rightarrow> screen \<Rightarrow> screen option" where
  "fire 0 now p sc = Some sc"
| "fire (Suc k) now p sc =
     (case sc_bounds sc of
        Some b \<Rightarrow>
          (if in_rect b p
           then (case screen_restart now (sc\<lparr>sc_listeners := sc_listeners sc - 1\<rparr>) of
                   None \<Rightarrow> None
                 | Some sc' \<Rightarrow> fire k now p sc')
           else fire k now p sc)
      | None \<Rightarrow> fire k now p sc)"

text \<open>The host's events: \<open>start()\<close>, an animation frame, the pause button, the restart
  button of the page (listened to from the constructor on), a pointer event on the canvas
  with the canvas's origin, and a \<open>resize\<close>, \<open>orientationchange\<close> or
  \<open>visibilitychange\<close> of the window, each of which calls \<open>resizeCanvas()\<close> with the
  window's size.\<close>

datatype ui_event =
  UStart num | UFrame num | UPause num | URestartButton num | UCanvas num "num \<times> num" pointer_event
  | UResize num num

definition screen_step :: "ui_event \<Rightarrow> screen \<Rightarrow> screen option" where
  "screen_step e sc =
     (case e of
        UStart now \<Rightarrow>
          map_option (\<lambda>w'. screen_after (\<not> g_isRunning (w_game (sc_world sc))) w' sc)
            (start_world now (sc_world sc))
      | UFrame t \<Rightarrow> map_option (\<lambda>w'. screen_after False w' sc) (gameLoop t (sc_world sc))
      | UPause now \<Rightarrow> map_option (\<lambda>w'. screen_after False w' sc) (pause_click now (sc_world sc))
      | URestartButton now \<Rightarrow> screen_restart now sc
      | UCanvas now origin pe \<Rightarrow>
          (case interaction_point origin pe of
             None \<Rightarrow> Some sc
           | Some p \<Rightarrow> fire (sc_listeners sc) now p sc)
      | UResize ww wh \<Rightarrow> Some (screen_resize ww wh sc))"

text \<open>The stored rectangle is the button of the current canvas, and there is one as soon
  as a handler is registered.\<close>

definition screen_inv :: "screen \<Rightarrow> bool" where
  "screen_inv sc \<longleftrightarrow>
     (case sc_bounds sc of
        None \<Rightarrow> sc_listeners sc = 0
      | Some b \<Rightarrow> b = drawGameOverScreen (w_game (sc_world sc)))"

text \<open>\<open>k\<close> restarts in a row.\<close>

fun restart_n :: "nat \<Rightarrow> num \<Rightarrow> world \<Rightarrow> world option" where
  "restart_n 0 now w = Some w"
| "restart_n (Suc k) now w = (case Game_restart now w of None \<Rightarrow> None | Some w' \<Rightarrow> restart_n k now w')"

section \<open>Lemmas: the canvas size does not change in a session\<close>

definition canvas_of :: "world \<Rightarrow> num \<times> num" where
  "canvas_of w = (g_canvasWidth (w_game w), g_canvasHeight (w_game w))"

lemmas canvas_defs = fix_300_def recoverPlayerIfNeeded_def updateCamera_def updateBackground_def
  updateScore_def increaseDifficulty_def showThousandMilestone_def forcePlayerVisibility_def

lemma canvas_parts [simp]:
  "g_canvasWidth (fst (fix_300 g r)) = g_canvasWidth g" "g_canvasHeight (fst (fix_300 g r)) = g_canvasHeight g"
  "g_canvasWidth (recoverPlayerIfNeeded g) = g_canvasWidth g"
  "g_canvasHeight (recoverPlayerIfNeeded g) = g_canvasHeight g"
  "g_canvasWidth (updateCamera g) = g_canvasWidth g" "g_canvasHeight (updateCamera g) = g_canvasHeight g"
  "g_canvasWidth (fst (updateBackground g r)) = g_canvasWidth g"
  "g_canvasHeight (fst (updateBackground g r)) = g_canvasHeight g"
  "g_canvasWidth (updateScore n g) = g_canvasWidth g" "g_canvasHeight (updateScore n g) = g_canvasHeight g"
  "g_canvasWidth (fst (forcePlayerVisibility g r)) = g_canvasWidth g"
  "g_canvasHeight (fst (forcePlayerVisibility g r)) = g_canvasHeight g"
  by (simp_all add: canvas_defs Let_def split_def)

lemma Game_update_canvas: "Game_update dt w = Some w' \<Longrightarrow> canvas_of w' = canvas_of w"
  by (auto simp: Game_update_def canvas_of_def Let_def split_def Game_gameOver_def Game_stop_def
      split: if_splits option.splits)

lemma gameLoop_canvas: "gameLoop t w = Some w' \<Longrightarrow> canvas_of w' = canvas_of w"
  by (auto simp: gameLoop_def Let_def canvas_of_def dest!: Game_update_canvas split: if_splits option.splits)

lemma start_world_canvas: "start_world now w = Some w' \<Longrightarrow> canvas_of w' = canvas_of w"
  by (auto simp: start_world_def Game_start_def canvas_of_def dest!: gameLoop_canvas split: if_splits)

lemma pause_click_canvas: "pause_click now w = Some w' \<Longrightarrow> canvas_of w' = canvas_of w"
  by (auto simp: pause_click_def pauseGame_def resumeGame_def Game_stop_def canvas_of_def Let_def
      dest!: gameLoop_canvas split: if_splits)

lemma Game_restart_canvas: "Game_restart now w = Some w' \<Longrightarrow> canvas_of w' = canvas_of w"
  by (auto simp: Game_restart_def restart_state_def Let_def split_def canvas_of_def dest!: gameLoop_canvas)

lemma drawGameOverScreen_canvas:
  "canvas_of w' = canvas_of w \<Longrightarrow> drawGameOverScreen (w_game w') = drawGameOverScreen (w_game w)"
  by (simp add: drawGameOverScreen_def canvas_of_def)

section \<open>Lemmas: the screen\<close>

lemma screen_after_bounds:
  "sc_bounds sc = Some (drawGameOverScreen (w_game (sc_world sc))) \<Longrightarrow> canvas_of w' = canvas_of (sc_world sc) \<Longrightarrow>
   sc_bounds (screen_after b w' sc) = Some (drawGameOverScreen (w_game w'))"
  by (simp add: screen_after_def render_def drawGameOverScreen_def canvas_of_def)

lemma screen_restart_Some:
  "screen_restart now sc = Some sc' \<Longrightarrow>
   \<exists>w'. Game_restart now (sc_world sc) = Some w' \<and> sc' = screen_after True w' sc \<and>
        canvas_of w' = canvas_of (sc_world sc)"
  by (auto simp: screen_restart_def dest: Game_restart_canvas)

lemma screen_after_world [simp]: "sc_world (screen_after b w' sc) = w'"
  by (simp add: screen_after_def)

lemma restart_button_eq_iff [simp]:
  "restart_button cw ch = restart_button cw' ch' \<longleftrightarrow> cw = cw' \<and> ch = ch'"
  by (auto simp: restart_button_def game_over_panel_def game_over_center_def)

lemma screen_resize_parts [simp]:
  "canvas_of (sc_world (screen_resize ww wh sc)) = (ww, wh)"
  "g_isRunning (w_game (sc_world (screen_resize ww wh sc))) = g_isRunning (w_game (sc_world sc))"
  "\<not> g_isRunning (w_game (sc_world sc)) \<Longrightarrow> sc_bounds (screen_resize ww wh sc) = sc_bounds sc"
  by (simp_all add: screen_resize_def resizeCanvas_def resize_camera_def canvas_of_def Let_def)

lemma fire_restarts:
  assumes "sc_bounds sc = Some (drawGameOverScreen (w_game (sc_world sc)))"
    and "in_rect (drawGameOverScreen (w_game (sc_world sc))) p"
  shows "map_option sc_world (fire k now p sc) = restart_n k now (sc_world sc)"
  using assms
proof (induction k arbitrary: sc)
  case (Suc k)
  let ?sc0 = "sc\<lparr>sc_listeners := sc_listeners sc - 1\<rparr>"
  show ?case
  proof (cases "Game_restart now (sc_world sc)")
    case None
    then show ?thesis using Suc.prems by (simp add: screen_restart_def)
  next
    case (Some w')
    have c: "canvas_of w' = canvas_of (sc_world sc)" using Game_restart_canvas [OF Some] .
    let ?sc1 = "screen_after True w' ?sc0"
    have r: "screen_restart now ?sc0 = Some ?sc1" using Some by (simp add: screen_restart_def)
    have b: "sc_bounds ?sc1 = Some (drawGameOverScreen (w_game w'))"
      using screen_after_bounds [of ?sc0 w' True] Suc.prems(1) c by simp
    have i: "in_rect (drawGameOverScreen (w_game (sc_world ?sc1))) p"
      using Suc.prems(2) drawGameOverScreen_canvas [OF c] by simp
    have "map_option sc_world (fire k now p ?sc1) = restart_n k now w'"
      using Suc.IH [of ?sc1] b i by simp
    then show ?thesis using Suc.prems r Some by simp
  qed
qed simp

section \<open>Properties\<close>

text \<open>Claim C26. The \<open>TRY AGAIN\<close> button of the game-over screen can be hit on the canvas
  only when the canvas is at least \<open>383 1/3\<close> px high (\<open>0.6 \<cdot> height \<ge> 230\<close>), and it lies
  wholly inside the canvas only when the canvas is at least 200 px wide and
  \<open>483 1/3\<close> px high: on lower canvases (phones held sideways) the canvas restart area
  is drawn below the visible canvas.\<close>

theorem restart_button_on_canvas:
  assumes "0 \<le> cw"
  shows "((\<exists>x y. 0 \<le> x \<and> x \<le> cw \<and> 0 \<le> y \<and> y \<le> ch \<and> in_rect (restart_button cw ch) (x, y)) \<longleftrightarrow>
            230 \<le> ch * 0.6) \<and>
         ((0 \<le> rc_x (restart_button cw ch) \<and> rc_x (restart_button cw ch) + rc_width (restart_button cw ch) \<le> cw \<and>
           0 \<le> rc_y (restart_button cw ch) \<and> rc_y (restart_button cw ch) + rc_height (restart_button cw ch) \<le> ch)
          \<longleftrightarrow> 200 \<le> cw \<and> 290 \<le> ch * 0.6)"
proof
  have rb: "restart_button cw ch = \<lparr>rc_x = cw / 2 - 100, rc_y = ch * 0.4 + 230, rc_width = 200, rc_height = 60\<rparr>"
    by (simp add: restart_button_def game_over_panel_def game_over_center_def)
  show "(\<exists>x y. 0 \<le> x \<and> x \<le> cw \<and> 0 \<le> y \<and> y \<le> ch \<and> in_rect (restart_button cw ch) (x, y)) \<longleftrightarrow>
           230 \<le> ch * 0.6"
  proof
    assume "\<exists>x y. 0 \<le> x \<and> x \<le> cw \<and> 0 \<le> y \<and> y \<le> ch \<and> in_rect (restart_button cw ch) (x, y)"
    then obtain y where "y \<le> ch" and "ch * 0.4 + 230 \<le> y" by (auto simp: rb in_rect_def)
    then show "230 \<le> ch * 0.6" by simp
  next
    assume h: "230 \<le> ch * 0.6"
    have "0 \<le> cw / 2 \<and> cw / 2 \<le> cw \<and> 0 \<le> ch * 0.4 + 230 \<and> ch * 0.4 + 230 \<le> ch \<and>
          in_rect (restart_button cw ch) (cw / 2, ch * 0.4 + 230)"
      using assms h by (simp add: rb in_rect_def)
    then show "\<exists>x y. 0 \<le> x \<and> x \<le> cw \<and> 0 \<le> y \<and> y \<le> ch \<and> in_rect (restart_button cw ch) (x, y)"
      by blast
  qed
  show "(0 \<le> rc_x (restart_button cw ch) \<and> rc_x (restart_button cw ch) + rc_width (restart_button cw ch) \<le> cw \<and>
          0 \<le> rc_y (restart_button cw ch) \<and> rc_y (restart_button cw ch) + rc_height (restart_button cw ch) \<le> ch)
         \<longleftrightarrow> 200 \<le> cw \<and> 290 \<le> ch * 0.6"
    by (simp add: rb) linarith
qed

theorem restart_button_on_canvas_witness:
  "\<not> (\<exists>x y. 0 \<le> x \<and> x \<le> 400 \<and> 0 \<le> y \<and> y \<le> 360 \<and> in_rect (restart_button 400 360) (x, y))"
  using restart_button_on_canvas [of 400 360] by simp

text \<open>Claim C23. A resize makes the canvas restart area stale: \<open>resizeCanvas()\<close> renders
  again only while the game is running, so on a stopped game (the game-over screen) whose
  stored rectangle is the button of its canvas, a resize to any other size keeps the old
  rectangle, which is no longer the button of the new canvas: canvas taps are tested
  against a button that is not drawn.\<close>

theorem resize_leaves_bounds_stale:
  assumes "\<not> g_isRunning (w_game (sc_world sc))"
    and "sc_bounds sc = Some (drawGameOverScreen (w_game (sc_world sc)))"
    and "canvas_of (sc_world sc) \<noteq> (ww, wh)"
  shows "\<exists>sc'. screen_step (UResize ww wh) sc = Some sc' \<and> sc_bounds sc' = sc_bounds sc \<and>
           canvas_of (sc_world sc') = (ww, wh) \<and> \<not> screen_inv sc'"
proof -
  let ?sc' = "screen_resize ww wh sc"
  have "sc_bounds ?sc' = Some (drawGameOverScreen (w_game (sc_world sc)))"
    using assms(1,2) by simp
  moreover have "drawGameOverScreen (w_game (sc_world sc)) \<noteq> drawGameOverScreen (w_game (sc_world ?sc'))"
    using assms(3) screen_resize_parts(1) [of ww wh sc]
    by (auto simp: drawGameOverScreen_def canvas_of_def)
  ultimately have "\<not> screen_inv ?sc'" by (simp add: screen_inv_def)
  then show ?thesis using assms(1,2) by (simp add: screen_step_def)
qed

theorem resize_leaves_bounds_stale_witness:
  "\<exists>sc'. screen_step (UResize 600 300)
      \<lparr>sc_world = new_World 400 600 0 (const_rng 0.5), sc_bounds = Some (restart_button 400 600),
       sc_listeners = 1\<rparr> = Some sc' \<and> sc_bounds sc' = Some (restart_button 400 600) \<and>
      canvas_of (sc_world sc') = (600, 300) \<and> \<not> screen_inv sc'"
  using resize_leaves_bounds_stale [where sc = "\<lparr>sc_world = new_World 400 600 0 (const_rng 0.5),
      sc_bounds = Some (restart_button 400 600), sc_listeners = 1\<rparr>" and ww = 600 and wh = 300]
  by (simp add: drawGameOverScreen_def canvas_of_def)



text \<open>Claim C25. The canvas handlers are never cleaned up: the restart button of the page
  leaves every handler registered, and a later tap inside the \<open>TRY AGAIN\<close> rectangle, also
  during a run, makes each of the \<open>k\<close> registered handlers call \<open>restart()\<close>, which is
  \<open>k\<close> restarts in a row.\<close>

theorem canvas_handlers_accumulate:
  assumes "screen_inv sc" and "interaction_point origin pe = Some p"
    and "in_rect (drawGameOverScreen (w_game (sc_world sc))) p"
  shows "map_option sc_world (screen_step (UCanvas now origin pe) sc) =
           restart_n (sc_listeners sc) now (sc_world sc) \<and>
         pred_option (\<lambda>sc'. sc_listeners sc \<le> sc_listeners sc') (screen_step (URestartButton t) sc)"
proof
  show "map_option sc_world (screen_step (UCanvas now origin pe) sc) = restart_n (sc_listeners sc) now (sc_world sc)"
  proof (cases "sc_bounds sc")
    case None
    then have "sc_listeners sc = 0" using assms(1) by (simp add: screen_inv_def)
    then show ?thesis using assms(2) by (simp add: screen_step_def)
  next
    case (Some b)
    then have "sc_bounds sc = Some (drawGameOverScreen (w_game (sc_world sc)))"
      using assms(1) by (simp add: screen_inv_def)
    then show ?thesis using fire_restarts assms(2,3) by (simp add: screen_step_def)
  qed
  show "pred_option (\<lambda>sc'. sc_listeners sc \<le> sc_listeners sc') (screen_step (URestartButton t) sc)"
    by (cases "Game_restart t (sc_world sc)")
       (auto simp: screen_step_def screen_restart_def screen_after_def)
qed

theorem canvas_handlers_accumulate_witness:
  "map_option sc_world (screen_step (UCanvas 5000 (0, 0) (TouchEnd [(200, 500)]))
      \<lparr>sc_world = new_World 400 600 0 (const_rng 0.5), sc_bounds = Some (restart_button 400 600),
       sc_listeners = 2\<rparr>) =
   restart_n 2 5000 (new_World 400 600 0 (const_rng 0.5))"
  using canvas_handlers_accumulate [where sc = "\<lparr>sc_world = new_World 400 600 0 (const_rng 0.5),
      sc_bounds = Some (restart_button 400 600), sc_listeners = 2\<rparr>" and origin = "(0, 0)"
      and pe = "TouchEnd [(200, 500)]" and p = "(200, 500)" and now = 5000 and t = 0]
  by (simp add: screen_inv_def drawGameOverScreen_def interaction_point_def in_rect_def restart_button_def
      game_over_panel_def game_over_center_def)

end
