(* ===== verification/Spec2Isabelle.thy ===== *)
theory Spec2Isabelle
  imports Session Leaderboard Audio Resize GameOver
begin

text \<open>
  \<^bold>\<open>Hop Bunny\<close>: a verification development of the browser platformer in \<open>src/\<close>.

  \<^bold>\<open>The program.\<close> \<open>src/unnamed/part_000\<close> holds the classes \<open>Platform\<close> (one
  platform of a given type, its per-frame \<open>update\<close>, \<open>break\<close> and
  \<open>startDisappearing\<close>) and \<open>PlatformManager\<close> (procedural generation, the per-frame
  update with its look-ahead loop and density top-up, and collision detection).
  \<open>src/js/auth.js\<close> holds the script of the authentication page (form validation,
  \<open>login\<close>, \<open>register\<close>, \<open>checkExistingAuth\<close>) followed by the \<open>Game\<close> class, which owns
  a \<open>PlatformManager\<close>, a \<open>Player\<close> and an \<open>EnemyManager\<close> and drives them from
  \<open>gameLoop\<close>. \<open>src/js/auth-checker.js\<close> guards the game page and logs out;
  \<open>src/js/leaderboard.js\<close> fetches, sorts and shows the users. The pages talk to each
  other only through \<open>localStorage\<close>/\<open>sessionStorage\<close> and \<open>window.location\<close>.

  \<^bold>\<open>Theories.\<close>
  \<^item> \<open>Prelude\<close>: \<open>Math.random\<close> as an explicit stream \<open>rng\<close> (record of draws and a
    cursor) threaded through every operation that draws; \<open>Utils.randomBetween\<close> and
    \<open>Utils.ease\<close>; generic lemmas on lists and maps; the collections \<open>rng_simps\<close> and
    \<open>session_frame\<close>.
  \<^item> \<open>Platform\<close>: record \<open>platform\<close>, datatype \<open>platform_type\<close>, \<open>new_Platform\<close>,
    \<open>Platform_update\<close>, \<open>Platform_break\<close>, \<open>Platform_startDisappearing\<close>; lemmas on
    iterated frames: breaking and disappearing platforms fade and become inactive,
    moving platforms stay in their band or are stuck when started off the canvas.
  \<^item> \<open>Generator\<close>: \<open>generatePlatform\<close> and its parts (\<open>choose_type\<close>, \<open>band_type\<close>,
    \<open>special_type\<close>, \<open>last_few_types\<close>), \<open>generateInitialPlatforms\<close>; lemmas: gaps
    between consecutive platforms lie in \<open>[minGapY, maxGapY]\<close>, platforms lie on the
    canvas, the type rules of the score bands and of the anti-repetition check, which
    forgets everything before the last three entries of the list.
  \<^item> \<open>Player\<close>: the \<open>Player\<close> class is not in the repository; the few operations the
    game calls are modelled from the specification (marked so in the manifest).
  \<^item> \<open>Manager\<close>: \<open>PlatformManager_update\<close> (backward update and removal loop
    \<open>update_backward\<close>, look-ahead loop \<open>generate_ahead\<close>, top-up \<open>top_up\<close>) and
    \<open>PlatformManager_checkCollisions\<close> (\<open>collision_scan\<close>); lemmas: the update returns,
    the removal loop equals a filter of a map, the scan finds the first landing platform
    of a reference definition and lands on at most one.
  \<^item> \<open>Game\<close>: record \<open>game\<close> with camera, clouds, score and difficulty; \<open>new_Game\<close>,
    \<open>Game_start\<close>, \<open>safe_delta\<close>, \<open>updateScore\<close>, \<open>increaseDifficulty\<close>,
    \<open>updateCamera\<close>, \<open>updateBackground\<close>, and the state effect of \<open>render\<close>
    (\<open>render_game\<close>: \<open>drawScore\<close>'s \<open>milestoneTimers\<close>, \<open>drawScore_tick\<close>); lemmas: the
    score is the running peak, one update raises the level by one however many
    thousand-boundaries it crosses, the difficulty parameters are bounded and only
    tighten, the camera never overshoots, the score marker comes back every 60 frames
    while the score stays at a multiple of 100, the first frame after \<open>start\<close> gets a
    negative delta.
  \<^item> \<open>Session\<close>: record \<open>world\<close> (the game, the random stream and the stored
    \<open>highScore\<close>), \<open>Game_update\<close>, \<open>gameLoop\<close> (update, then render), \<open>Game_gameOver\<close>
    (ending with its render), \<open>Game_restart\<close>,
    \<open>pauseGame\<close>/\<open>resumeGame\<close>/\<open>pause_click\<close>, the datatype \<open>event\<close> of the four
    inputs and the step relation \<open>session_step\<close> with \<open>reachable\<close>; lemmas: the
    invariant \<open>session_inv\<close> holds in every reachable world (rule induction), game over
    is terminal but for restart, restart resets the run, and the refinement through
    \<open>phase_of\<close> of \<open>spec_step\<close>, the machine of section 4.4 with restart only from
    \<open>GameOver\<close>, up to \<open>code_extension\<close>, the steps the code adds (restart from every
    phase, a first frame that ends the run). The specification's \<open>NotStarted\<close> and
    \<open>Paused\<close> are one phase: the code keeps no value that tells them apart.
  \<^item> \<open>Audio\<close>: records \<open>sound\<close>, \<open>sounds\<close> (the five entries of \<open>this.sounds\<close>, each an
    element or \<open>null\<close>) and \<open>audio\<close> (the sounds and the page's audio button);
    \<open>loadAudio\<close> with its \<open>catch\<close> path, \<open>setAudioMuted\<close>, the audio part of
    \<open>setupControlButtons\<close> (\<open>setup_audio_button\<close>, \<open>audio_click\<close>) and their composition
    \<open>game_audio\<close> in the constructor; lemmas: \<open>gameMuted\<close> is stored as a boolean string and
    reads back as the preference, the sounds and the button follow it after any number
    of clicks, two clicks undo each other, and a failed load leaves every sound \<open>null\<close>.
  \<^item> \<open>Resize\<close>: \<open>resizeCanvas\<close> and \<open>adjustEntitiesForResize\<close> on a constructed game;
    lemmas: the player is centred and at 70\% of the screen height after a resize, and the
    camera adjustment for portrait phones is overwritten and has no effect.
  \<^item> \<open>GameOver\<close>: the game-over screen on top of the session. Record \<open>screen\<close> (the
    world, \<open>this.restartButtonBounds\<close> and the number of canvas handlers registered by
    \<open>gameOver()\<close>), the button geometry of \<open>drawGameOverScreen\<close>, the state effect of
    \<open>render\<close>, the \<open>handleInteraction\<close> closure (\<open>interaction_point\<close>, \<open>in_rect\<close>) and the
    dispatch of one pointer event to every registered handler (\<open>fire\<close>,
    \<open>screen_step\<close>), and the window's resize events (\<open>screen_resize\<close>, which renders
    only while the game runs, as \<open>resizeCanvas\<close> does); lemmas: no session operation
    changes the canvas size, the button can be hit only on canvases at least 384 px high,
    a resize on the stopped game-over screen leaves a stale restart rectangle,
    \<open>start()\<close> on that screen registers one more handler, and the handlers are never
    removed by the page's restart button, so one tap restarts the game once per game
    over.
  \<^item> \<open>Auth\<close>: storages as maps \<open>string \<rightharpoonup> string\<close>, record \<open>browser\<close> (both storages
    and the current page), \<open>parseInt\<close>, \<open>String(n)\<close> as \<open>string_of_int\<close>, JavaScript
    truthiness, \<open>isValidEmail\<close> (its regular expression written out as split points),
    \<open>validate_login\<close>/\<open>validate_register\<close> with \<open>auth_error\<close>, \<open>login\<close>, \<open>register\<close>,
    the page loads of \<open>auth.js\<close> and \<open>auth-checker.js\<close>, \<open>navigate\<close> and \<open>logout\<close>;
    lemmas: the e-mail test accepts exactly the strings with no white space, one \<open>@\<close>
    that is not in front, and a dot strictly inside the part after it; \<open>parseInt\<close> reads
    back the decimal \<open>String(n)\<close>; login stores the user, navigation settles, logout
    leaves the redirect flag behind.
  \<^item> \<open>Leaderboard\<close>: \<open>formatNumber\<close> (the comma regular expression per position, against
    the reference \<open>group3\<close>), \<open>sort_users\<close>, \<open>displayLeaderboardData\<close>,
    \<open>loadLeaderboardData\<close>, \<open>loadSampleUserData\<close>, \<open>loadUserInfo\<close>,
    \<open>loadPlayerStats\<close> (with its continuation \<open>stats_update\<close>), \<open>refreshLeaderboard\<close>
    and the page load \<open>initLeaderboard\<close>, whose two concurrent \<open>GET /users\<close> requests
    answer in an order given as an input; lemmas: the top ten by score, the error paths
    fall back to the sample users, the grouping of digits, and the request that answers
    last decides the table.
  \<^item> this theory: properties across components, a start that un-breaks a platform,
    the high score the game reads after a login, and the leaderboard overwriting a
    higher stored high score.

  \<^bold>\<open>Conventions.\<close> JavaScript numbers are \<open>real\<close> (IEEE rounding and \<open>NaN\<close> are not
  modelled: every number read is finite), the score is \<open>int\<close>. Each class is a record and
  each method a function from the record (and the random stream where it draws) to the
  updated record; a method that may fail returns an \<open>option\<close> or an \<open>auth_error + _\<close> sum.
  Network answers (\<open>fetch\<close>) are inputs of the operation that awaits them, so each
  asynchronous handler is modelled as the function of its answer; where two requests are
  in flight at once (the leaderboard's page load), the order of their answers is an input
  and both orders are modelled.

  \<^bold>\<open>Loops and fuel.\<close> The look-ahead \<open>while\<close> of \<open>PlatformManager.update\<close> is a
  \<open>partial_function (option)\<close>; it is proved to return for every valid random stream
  when \<open>0 < minGapY \<le> maxGapY\<close> (each round lowers the frontier by at least
  \<open>minGapY\<close>, so \<open>\<lceil>(highestPlatformY - limit) / minGapY\<rceil>\<close> rounds are enough). Loops
  with a bound in the code (the backward removal loop, the top-up, the collision scan,
  cloud and initial platform generation) are structural recursion. Page navigation is
  \<open>navigate n\<close>, \<open>n\<close> page loads; three loads reach a fixed point from every browser
  state. \<open>group3\<close> terminates by the length of its argument.

  \<^bold>\<open>Not modelled.\<close> What is left of the sources changes no state the model has, or
  lives in code the repository does not contain. Rendering: \<open>Platform.draw\<close>,
  \<open>drawStar\<close>, \<open>PlatformManager.draw\<close>, \<open>drawBackground\<close>,
  \<open>drawGameOverCharacters\<close>, \<open>drawPauseOverlay\<close> and the drawing parts of
  \<open>drawScore\<close> and \<open>drawGameOverScreen\<close> only paint the canvas (the values they store,
  \<open>milestoneTimers\<close> and \<open>restartButtonBounds\<close>, are in \<open>Game\<close> and \<open>GameOver\<close>);
  \<open>String(n)\<close> is modelled in its decimal form, which JavaScript uses below \<open>10\<^sup>2\<^sup>1\<close>
  (above, it writes an exponent, which \<open>parseInt\<close> does not read back); the DOM work of the pages (tab switching,
  \<open>showSuccess\<close>/\<open>showError\<close>/\<open>showMessage\<close> elements, particles, keyframes, button
  layout) changes no modelled value. Keyboard, touch-steering and tilt input belong to the
  \<open>Player\<close> class, which is not in the repository; the playing of sounds (\<open>play()\<close> is output only); the \<open>Enemy\<close>/\<open>EnemyManager\<close> and
  power-up code, which is not in the repository; the internals of \<open>Player\<close> and
  \<open>Utils\<close> beyond what the specification states; timers, and the interleaving of
  concurrent \<open>fetch\<close> answers other than the page load of the leaderboard (each handler
  runs to completion on its answer); and
  \<open>simulateLogin\<close>, which \<open>login\<close> reaches only under the constant-false guard
  \<open>isDevelopment && false\<close>. The end of \<open>src/js/leaderboard.js\<close> (from line 733) holds a
  second copy of the \<open>DOMContentLoaded\<close> handler of \<open>auth-checker.js\<close>: its
  \<open>checkAuthentication\<close>, logout handler and high-score display read and write the same
  keys in the same order as the ones modelled in \<open>Auth\<close> and differ only in the button
  layout, so they are not modelled a second time. \<open>src/unnamed/part_001\<close> is the README
  and holds no code.
\<close>

section \<open>Properties across components\<close>

text \<open>Claim C27. The negative first-frame delta of \<open>start()\<close> (proved for \<open>safe_delta\<close> in theory \<open>Game\<close>) reaches the platforms:
  a breakable platform that was breaking when the game was stopped (progress in
  \<open>(0, 1)\<close>) is, after a start at a time stamp of at least 20 ms, set back to a progress
  \<open>\<le> 0\<close> with opacity \<open>\<ge> 1\<close>, still active, and no later frame advances it again.\<close>

theorem start_unbreaks_platform:
  assumes "\<not> g_isRunning g" and "20 \<le> now"
    and "p_type p = Breakable" and "0 < p_breakProgress p" and "p_breakProgress p < 1"
  shows "let p' = Platform_update (safe_delta 0 (Game_start now g)) cw p in
         p_breakProgress p' \<le> 0 \<and> 1 \<le> p_opacity p' \<and> p_active p' = p_active p \<and>
         p_breakProgress (Platform_update dt cw p') = p_breakProgress p' \<and>
         p_active (Platform_update dt cw p') = p_active p"
proof -
  have d: "safe_delta 0 (Game_start now g) = - now"
    using assms(1,2) by (simp add: safe_delta_def Game_start_def)
  have "p_breakProgress p + - now * 0.05 \<le> 0" using assms(2,5) by simp
  then show ?thesis
    using assms(3,4) by (simp add: d Platform_update_def Let_def)
qed

theorem start_unbreaks_platform_witness:
  "p_breakProgress (Platform_update (safe_delta 0 (Game_start 1000 (fst (new_Game 400 600 0 (const_rng 0.5)))))
       400 ((fst (new_Platform 10 20 80 20 Breakable (const_rng 0.5)))\<lparr>p_breakProgress := 0.5\<rparr>)) \<le> 0"
  using start_unbreaks_platform [of "fst (new_Game 400 600 0 (const_rng 0.5))" 1000
          "(fst (new_Platform 10 20 80 20 Breakable (const_rng 0.5)))\<lparr>p_breakProgress := 0.5\<rparr>" 400]
  by (simp add: Let_def)

text \<open>Claim C35. The game reads the high score only from \<open>localStorage\<close>: after a login
  with the backend's high score \<open>h > 0\<close> from a browser with no stored high score, the
  start screen shows \<open>h\<close>, and a new \<open>Game\<close> starts with high score \<open>h\<close> when remember-me
  was ticked but with \<open>0\<close> when it was not.\<close>

theorem game_high_score_after_login:
  assumes "b_local b ''highScore'' = None" and "0 < h"
    and "login remember (LoginOk t u n (Some h)) b = Inr b'"
  shows "displayed_high_score b' = string_of_int h \<and>
         g_highScore (w_game (new_World cw ch (or_zero (parseInt_item (b_local b' ''highScore''))) r)) =
           (if remember then h else 0)"
  using assms
  by (auto simp: login_def store_user_def Let_def displayed_high_score_def or_zero_def
      parseInt_item_def parseInt_decimal_roundtrip split: if_splits)

theorem game_high_score_after_login_witness:
  "g_highScore (w_game (new_World 400 600 (or_zero (parseInt_item (b_local (projr (login False
      (LoginOk ''tk'' ''7'' ''bun'' (Some 12)) \<lparr>b_local = Map.empty, b_session = Map.empty,
       b_page = AuthPage\<rparr>)) ''highScore''))) (const_rng 0.5))) = 0"
  using game_high_score_after_login [of "\<lparr>b_local = Map.empty, b_session = Map.empty, b_page = AuthPage\<rparr>"
      12 False "''tk''" "''7''" "''bun''" "projr (login False (LoginOk ''tk'' ''7'' ''bun'' (Some 12))
       \<lparr>b_local = Map.empty, b_session = Map.empty, b_page = AuthPage\<rparr>)" 400 600 "const_rng 0.5"]
  by (simp add: login_def)

text \<open>Claim C40. A visit to the leaderboard can lower the high score the game starts with:
  when the stored high score \<open>s\<close> (written by \<open>gameOver\<close>) beats the backend's score of
  the logged-in user (the game never sends scores to the backend), \<open>loadPlayerStats\<close>
  overwrites it with the backend's lower value, and the next \<open>new Game\<close> reads that.\<close>

theorem leaderboard_lowers_high_score:
  assumes "truthy (b_local b ''token'')" and "b_local b ''userId'' = Some uid" and "uid \<noteq> []"
    and "find (\<lambda>u. u_userId u = uid) us = Some u" and "u_highScore u < s"
    and "b_local b ''highScore'' = Some (string_of_int s)"
    and "lb_browser st = b" and "lb_allUsers st = Some us"
  shows "b_local (lb_browser (loadPlayerStats resp st)) ''highScore'' = Some (string_of_int (u_highScore u)) \<and>
         g_highScore (w_game (new_World cw ch
           (or_zero (parseInt_item (b_local (lb_browser (loadPlayerStats resp st)) ''highScore''))) r)) =
           u_highScore u \<and>
         u_highScore u < or_zero (parseInt_item (b_local b ''highScore''))"
  using assms
  by (simp add: loadPlayerStats_def stats_update_def either_item_def store_stats_def parseInt_item_def or_zero_def
      parseInt_decimal_roundtrip)

theorem leaderboard_lowers_high_score_witness:
  "g_highScore (w_game (new_World 400 600 (or_zero (parseInt_item (b_local (lb_browser
     (loadPlayerStats UsersFailed
       \<lparr>lb_rows = [], lb_allUsers = Some [\<lparr>u_userId = ''7'', u_username = ''bun'', u_email = [],
          u_highScore = 500, u_gamesPlayed = 3, u_createdAt = []\<rparr>], lb_userName = [], lb_userScore = [],
        lb_message = None,
        lb_browser = \<lparr>b_local = [''token'' \<mapsto> ''tk'', ''userId'' \<mapsto> ''7'', ''highScore'' \<mapsto> string_of_int 900],
                      b_session = Map.empty, b_page = GamePage\<rparr>\<rparr>)) ''highScore''))) (const_rng 0.5))) = 500"
  using leaderboard_lowers_high_score [of
      "\<lparr>b_local = [''token'' \<mapsto> ''tk'', ''userId'' \<mapsto> ''7'', ''highScore'' \<mapsto> string_of_int 900],
        b_session = Map.empty, b_page = GamePage\<rparr>" "''7''"
      "[\<lparr>u_userId = ''7'', u_username = ''bun'', u_email = [], u_highScore = 500, u_gamesPlayed = 3,
         u_createdAt = []\<rparr>]"
      "\<lparr>u_userId = ''7'', u_username = ''bun'', u_email = [], u_highScore = 500, u_gamesPlayed = 3,
         u_createdAt = []\<rparr>" 900
      "\<lparr>lb_rows = [], lb_allUsers = Some [\<lparr>u_userId = ''7'', u_username = ''bun'', u_email = [],
          u_highScore = 500, u_gamesPlayed = 3, u_createdAt = []\<rparr>], lb_userName = [], lb_userScore = [],
        lb_message = None,
        lb_browser = \<lparr>b_local = [''token'' \<mapsto> ''tk'', ''userId'' \<mapsto> ''7'', ''highScore'' \<mapsto> string_of_int 900],
                      b_session = Map.empty, b_page = GamePage\<rparr>\<rparr>" UsersFailed 400 600 "const_rng 0.5"]
  by (simp add: parseInt_item_def or_zero_def parseInt_decimal_roundtrip)

end
